theory Spec2Isabelle
  imports Complex_Main
begin

section \<open>SuperParallax: the 2D controller\<close>

text \<open>
  The embedding follows \<^verbatim>\<open>src/super-parallax.js\<close>. A JavaScript number is read as a
  \<^typ>\<open>real\<close>: the arithmetic of the source is taken as exact arithmetic, so rounding,
  infinities and NaN are outside the model, except where the source tests for them
  (the result of \<^verbatim>\<open>parseFloat\<close>, below) and in the smoothing step, which is given
  a second time with the rounding of its operations (section
  \<open>The smoothing step in binary64\<close>): how far the smoothing gets depends on it.
  A DOM element is a reference, here a natural
  number; what the page holds about an element lives in the \<open>browser\<close> record, which the
  methods of the class read and update. The instance (\<^verbatim>\<open>this\<close>) is the record
  \<open>parallax\<close>, and a method is a function on the pair of both.
\<close>

subsection \<open>Data\<close>

type_synonym elem = nat

text \<open>The result of \<^verbatim>\<open>parseFloat\<close>: a number or NaN.\<close>

datatype jsnum = NaN | Num real

text \<open>The targets on which the class registers listeners, and its bound handlers.\<close>

datatype target = Window | Element elem

datatype handler = HandleScroll | HandleMouseMove | HandleMouseLeave | UpdateBounds | HandleResize

text \<open>What \<^verbatim>\<open>document.querySelector\<close> does: it throws on a selector that does not parse,
  returns null, or returns an element.\<close>

datatype query = QSyntaxError | QNull | QElement elem

text \<open>An \<^verbatim>\<open>img\<close> element as the 3D variant reads it.\<close>

record image =
  src :: string
  naturalWidth :: nat
  naturalHeight :: nat

record rect =
  left :: real
  top :: real
  width :: real
  height :: real

record layer =
  element :: elem
  depth :: real
  scrollSpeed :: real
  mouseSpeed :: real
  axis :: string
  initialTransform :: string

record options =
  scrollMultiplier :: real
  mouseMultiplier :: real
  smoothing :: real
  centerMouse :: bool
  resetOnMouseLeave :: bool

text \<open>The fields of the instance; \<^verbatim>\<open>mouse\<close> and \<^verbatim>\<open>targetMouse\<close> are objects with the
  fields \<^verbatim>\<open>x\<close> and \<^verbatim>\<open>y\<close>, flattened here.\<close>

record parallax =
  container :: elem
  options :: options
  layers :: "layer list"
  mouse_x :: real
  mouse_y :: real
  targetMouse_x :: real
  targetMouse_y :: real
  scroll :: real
  targetScroll :: real
  bounds :: "rect option"
  animationFrameId :: "nat option"
  isActive :: bool

text \<open>
  The page. The first group of fields is state that the class writes: inline styles,
  the registered listeners, the list of animation frame callbacks with the counter that
  names them, and the console. The second group is what the class only reads: the
  document (\<^verbatim>\<open>querySelector\<close>, \<^verbatim>\<open>querySelectorAll('[data-parallax-layer]')\<close>,
  \<^verbatim>\<open>getAttribute\<close>), the layout (\<^verbatim>\<open>getBoundingClientRect\<close>, the scroll position), the
  style resolution of \<^verbatim>\<open>getComputedStyle(e).transform\<close>, which depends on the inline
  transforms, and two built-ins of the language: \<^verbatim>\<open>parseFloat\<close> (applied to the result
  of \<^verbatim>\<open>getAttribute\<close>, null when the attribute is absent) and the conversion of a
  number to a string inside a template literal. The last group serves the 3D variant:
  whether the global \<^verbatim>\<open>THREE\<close> is defined, whether the page can give a WebGL context,
  the client size of an element, the pixel ratio of the window, the first \<^verbatim>\<open>img\<close> below an element, and the values that
  successive calls of \<^verbatim>\<open>Math.random\<close> return, with the number of calls made.
\<close>

record browser =
  style_transform :: "elem \<Rightarrow> string"
  style_position :: "elem \<Rightarrow> string"
  style_overflow :: "elem \<Rightarrow> string"
  style_visibility :: "elem \<Rightarrow> string"
  listeners :: "(target \<times> string \<times> handler) list"
  frameCounter :: nat
  frameCallbacks :: "nat list"
  warnings :: "string list"
  querySelector :: "string \<Rightarrow> query"
  layerElements :: "elem \<Rightarrow> elem list"
  getAttribute :: "elem \<Rightarrow> string \<Rightarrow> string option"
  getBoundingClientRect :: "elem \<Rightarrow> rect"
  pageYOffset :: real
  scrollTop :: real
  computedTransform :: "(elem \<Rightarrow> string) \<Rightarrow> elem \<Rightarrow> string"
  parseFloat :: "string option \<Rightarrow> jsnum"
  numberToString :: "real \<Rightarrow> string"
  threeDefined :: bool
  webglAvailable :: bool
  clientWidth :: "elem \<Rightarrow> real"
  clientHeight :: "elem \<Rightarrow> real"
  devicePixelRatio :: real
  imageOf :: "elem \<Rightarrow> image option"
  random :: "nat \<Rightarrow> real"
  randomCalls :: nat

subsection \<open>The frame scheduler\<close>

text \<open>\<^verbatim>\<open>requestAnimationFrame\<close> increments the identifier of the page, appends the
  callback under it and returns it; \<^verbatim>\<open>cancelAnimationFrame\<close> removes the callbacks
  of that identifier.\<close>

definition requestAnimationFrame :: "browser \<Rightarrow> nat \<times> browser" where
  "requestAnimationFrame b =
     (let h = Suc (frameCounter b)
      in (h, b\<lparr>frameCounter := h, frameCallbacks := frameCallbacks b @ [h]\<rparr>))"

definition cancelAnimationFrame :: "nat \<Rightarrow> browser \<Rightarrow> browser" where
  "cancelAnimationFrame h b = b\<lparr>frameCallbacks := removeAll h (frameCallbacks b)\<rparr>"

text \<open>The test \<^verbatim>\<open>if (this.animationFrameId)\<close>: null and 0 are falsy.\<close>

definition truthyId :: "nat option \<Rightarrow> bool" where
  "truthyId i = (case i of None \<Rightarrow> False | Some h \<Rightarrow> h \<noteq> 0)"

subsection \<open>The tick\<close>

definition lerp :: "real \<Rightarrow> real \<Rightarrow> real \<Rightarrow> real" where
  "lerp start end' factor = start + (end' - start) * factor"

definition scrollOffset :: "parallax \<Rightarrow> layer \<Rightarrow> real" where
  "scrollOffset p l = scroll p * scrollSpeed l * scrollMultiplier (options p) * 0.5"

definition mouseOffsetX :: "parallax \<Rightarrow> layer \<Rightarrow> real" where
  "mouseOffsetX p l = mouse_x p * mouseSpeed l * mouseMultiplier (options p) * 50"

definition mouseOffsetY :: "parallax \<Rightarrow> layer \<Rightarrow> real" where
  "mouseOffsetY p l = mouse_y p * mouseSpeed l * mouseMultiplier (options p) * 50"

definition translateX :: "parallax \<Rightarrow> layer \<Rightarrow> real" where
  "translateX p l =
     (if axis l = ''both'' \<or> axis l = ''x'' then mouseOffsetX p l else 0)"

definition translateY :: "parallax \<Rightarrow> layer \<Rightarrow> real" where
  "translateY p l =
     (if axis l = ''both'' \<or> axis l = ''y'' then - scrollOffset p l + mouseOffsetY p l
      else if axis l = ''x'' then - scrollOffset p l
      else 0)"

text \<open>The template literal \<^verbatim>\<open>translate3d(${translateX}px, ${translateY}px, 0)\<close>.\<close>

definition translate3d :: "browser \<Rightarrow> real \<Rightarrow> real \<Rightarrow> string" where
  "translate3d b tx ty =
     ''translate3d('' @ numberToString b tx @ ''px, '' @ numberToString b ty @ ''px, 0)''"

text \<open>The body of the \<^verbatim>\<open>forEach\<close> of \<^verbatim>\<open>animate\<close>: one layer's transform is written
  to the inline style of its element, after the initial transform when there is one.\<close>

definition updateLayer :: "parallax \<Rightarrow> layer \<Rightarrow> browser \<Rightarrow> browser" where
  "updateLayer p l b =
     (let transform = translate3d b (translateX p l) (translateY p l)
      in b\<lparr>style_transform := (style_transform b)
           (element l :=
              (if initialTransform l \<noteq> [] then initialTransform l @ '' '' @ transform
               else transform))\<rparr>)"

text \<open>The three assignments at the head of \<^verbatim>\<open>animate\<close>.\<close>

definition smooth :: "parallax \<Rightarrow> parallax" where
  "smooth p =
     (let p1 = p\<lparr>scroll := lerp (scroll p) (targetScroll p) (smoothing (options p))\<rparr>;
          p2 = p1\<lparr>mouse_x := lerp (mouse_x p1) (targetMouse_x p1) (smoothing (options p1))\<rparr>
      in p2\<lparr>mouse_y := lerp (mouse_y p2) (targetMouse_y p2) (smoothing (options p2))\<rparr>)"

definition animate :: "parallax \<times> browser \<Rightarrow> parallax \<times> browser" where
  "animate w =
     (case w of (p, b) \<Rightarrow>
        if \<not> isActive p then w
        else
          let p' = smooth p;
              b' = fold (updateLayer p') (layers p') b;
              (h, b'') = requestAnimationFrame b'
          in (p'\<lparr>animationFrameId := Some h\<rparr>, b''))"

text \<open>The page runs a requested frame: it takes the callback out of its list and calls
  it. The callbacks that the class requests are all \<^verbatim>\<open>animate\<close>.\<close>

definition runFrame :: "nat \<Rightarrow> parallax \<times> browser \<Rightarrow> parallax \<times> browser" where
  "runFrame h w =
     (case w of (p, b) \<Rightarrow>
        if h \<in> set (frameCallbacks b)
        then animate (p, b\<lparr>frameCallbacks := removeAll h (frameCallbacks b)\<rparr>)
        else w)"

subsection \<open>Start and stop\<close>

text \<open>\<^verbatim>\<open>window.pageYOffset || document.documentElement.scrollTop\<close>: the second operand
  when the first is 0.\<close>

definition currentScroll :: "browser \<Rightarrow> real" where
  "currentScroll b = (if pageYOffset b \<noteq> 0 then pageYOffset b else scrollTop b)"

definition start :: "parallax \<times> browser \<Rightarrow> parallax \<times> browser" where
  "start w =
     (case w of (p, b) \<Rightarrow>
        if isActive p then w
        else
          let p1 = p\<lparr>isActive := True\<rparr>;
              p2 = p1\<lparr>targetScroll := currentScroll b\<rparr>;
              p3 = p2\<lparr>scroll := targetScroll p2\<rparr>
          in animate (p3, b))"

definition stop :: "parallax \<times> browser \<Rightarrow> parallax \<times> browser" where
  "stop w =
     (case w of (p, b) \<Rightarrow>
        let p1 = p\<lparr>isActive := False\<rparr>
        in if truthyId (animationFrameId p1)
           then (p1\<lparr>animationFrameId := None\<rparr>, cancelAnimationFrame (the (animationFrameId p1)) b)
           else (p1, b))"

subsection \<open>Listeners\<close>

text \<open>\<^verbatim>\<open>addEventListener\<close> ignores a listener that is registered already (same target,
  type and callback); \<^verbatim>\<open>removeEventListener\<close> removes it whatever its options were.\<close>

definition addEventListener :: "target \<Rightarrow> string \<Rightarrow> handler \<Rightarrow> browser \<Rightarrow> browser" where
  "addEventListener t ev h b =
     (if (t, ev, h) \<in> set (listeners b) then b
      else b\<lparr>listeners := listeners b @ [(t, ev, h)]\<rparr>)"

definition removeEventListener :: "target \<Rightarrow> string \<Rightarrow> handler \<Rightarrow> browser \<Rightarrow> browser" where
  "removeEventListener t ev h b = b\<lparr>listeners := removeAll (t, ev, h) (listeners b)\<rparr>"

definition addEventListeners :: "parallax \<Rightarrow> browser \<Rightarrow> browser" where
  "addEventListeners p b =
     (let b1 = addEventListener Window ''scroll'' HandleScroll b;
          b2 = addEventListener (Element (container p)) ''mousemove'' HandleMouseMove b1;
          b3 = (if resetOnMouseLeave (options p)
                then addEventListener (Element (container p)) ''mouseleave'' HandleMouseLeave b2
                else b2)
      in addEventListener Window ''resize'' UpdateBounds b3)"

definition removeEventListeners :: "parallax \<Rightarrow> browser \<Rightarrow> browser" where
  "removeEventListeners p b =
     (let b1 = removeEventListener Window ''scroll'' HandleScroll b;
          b2 = removeEventListener (Element (container p)) ''mousemove'' HandleMouseMove b1;
          b3 = removeEventListener (Element (container p)) ''mouseleave'' HandleMouseLeave b2
      in removeEventListener Window ''resize'' UpdateBounds b3)"

text \<open>The handlers that write the targets of the smoothing. (The pointer handler
  \<^verbatim>\<open>handleMouseMove\<close> divides by the size of the container and is modelled only as a
  registered listener.)\<close>

definition updateBounds :: "parallax \<times> browser \<Rightarrow> parallax \<times> browser" where
  "updateBounds w =
     (case w of (p, b) \<Rightarrow> (p\<lparr>bounds := Some (getBoundingClientRect b (container p))\<rparr>, b))"

definition handleScroll :: "parallax \<times> browser \<Rightarrow> parallax \<times> browser" where
  "handleScroll w = (case w of (p, b) \<Rightarrow> (p\<lparr>targetScroll := currentScroll b\<rparr>, b))"

definition handleMouseLeave :: "parallax \<times> browser \<Rightarrow> parallax \<times> browser" where
  "handleMouseLeave w =
     (case w of (p, b) \<Rightarrow> (p\<lparr>targetMouse_x := 0, targetMouse_y := 0\<rparr>, b))"

subsection \<open>Discovery of the layers and construction\<close>

text \<open>\<^verbatim>\<open>parseFloat(...) || d\<close>: the operator takes its right operand when the left one is
  falsy, which for a number means NaN or 0.\<close>

definition orElse :: "jsnum \<Rightarrow> real \<Rightarrow> real" where
  "orElse v d = (case v of NaN \<Rightarrow> d | Num r \<Rightarrow> if r = 0 then d else r)"

text \<open>\<^verbatim>\<open>getAttribute(...) || 'both'\<close>: null and the empty string are falsy.\<close>

definition orElseString :: "string option \<Rightarrow> string \<Rightarrow> string" where
  "orElseString v d = (case v of None \<Rightarrow> d | Some s \<Rightarrow> if s = [] then d else s)"

definition getInitialTransform :: "browser \<Rightarrow> elem \<Rightarrow> string" where
  "getInitialTransform b e =
     (let transform = computedTransform b (style_transform b) e
      in if transform \<noteq> [] \<and> transform \<noteq> ''none'' then transform else [])"

text \<open>The function mapped over the elements found by \<^verbatim>\<open>init\<close>.\<close>

definition discoverLayer :: "browser \<Rightarrow> elem \<Rightarrow> layer" where
  "discoverLayer b e =
     (let d = orElse (parseFloat b (getAttribute b e ''data-parallax-depth'')) 1;
          s = orElse (parseFloat b (getAttribute b e ''data-parallax-scroll'')) d;
          m = orElse (parseFloat b (getAttribute b e ''data-parallax-mouse'')) d;
          a = orElseString (getAttribute b e ''data-parallax-axis'') ''both''
      in \<lparr>element = e, depth = d, scrollSpeed = s, mouseSpeed = m, axis = a,
          initialTransform = getInitialTransform b e\<rparr>)"

definition init :: "parallax \<times> browser \<Rightarrow> parallax \<times> browser" where
  "init w =
     (case w of (p, b) \<Rightarrow>
        let p1 = p\<lparr>layers := map (discoverLayer b) (layerElements b (container p))\<rparr>;
            b1 = (if length (layers p1) = 0
                  then b\<lparr>warnings := warnings b @
                         [''No parallax layers found. Add data-parallax-layer attribute to elements.'']\<rparr>
                  else b);
            c = container p1;
            b2 = b1\<lparr>style_position := (style_position b1)
                   (c := (if style_position b1 c \<noteq> [] then style_position b1 c else ''relative''))\<rparr>;
            b3 = b2\<lparr>style_overflow := (style_overflow b2)
                   (c := (if style_overflow b2 c \<noteq> [] then style_overflow b2 c else ''hidden''))\<rparr>;
            (p2, b4) = updateBounds (p1, b3);
            b5 = addEventListeners p2 b4
        in start (p2, b5))"

text \<open>The options argument: an object that may hold any of the options. The spread
  \<^verbatim>\<open>{ ...defaults, ...options }\<close> takes the fields that the argument holds.\<close>

record partial_options =
  scrollMultiplier_opt :: "real option"
  mouseMultiplier_opt :: "real option"
  smoothing_opt :: "real option"
  centerMouse_opt :: "bool option"
  resetOnMouseLeave_opt :: "bool option"

definition merge :: "options \<Rightarrow> partial_options \<Rightarrow> options" where
  "merge d n =
     \<lparr>scrollMultiplier = (case scrollMultiplier_opt n of None \<Rightarrow> scrollMultiplier d | Some v \<Rightarrow> v),
      mouseMultiplier = (case mouseMultiplier_opt n of None \<Rightarrow> mouseMultiplier d | Some v \<Rightarrow> v),
      smoothing = (case smoothing_opt n of None \<Rightarrow> smoothing d | Some v \<Rightarrow> v),
      centerMouse = (case centerMouse_opt n of None \<Rightarrow> centerMouse d | Some v \<Rightarrow> v),
      resetOnMouseLeave =
        (case resetOnMouseLeave_opt n of None \<Rightarrow> resetOnMouseLeave d | Some v \<Rightarrow> v)\<rparr>"

definition defaultOptions :: options where
  "defaultOptions =
     \<lparr>scrollMultiplier = 1, mouseMultiplier = 0.5, smoothing = 0.1,
      centerMouse = True, resetOnMouseLeave = True\<rparr>"

definition setOptions :: "partial_options \<Rightarrow> parallax \<Rightarrow> parallax" where
  "setOptions n p = p\<lparr>options := merge (options p) n\<rparr>"

text \<open>The first argument of the constructor: a selector, an element, or a falsy value
  (null, undefined) that is neither.\<close>

datatype container_arg = Selector string | Node elem | Nullish

datatype error =
  ContainerNotFound | SelectorSyntaxError | ThreeRequired | WebGLUnavailable | ChildNotFound

text \<open>\<^verbatim>\<open>typeof container === 'string' ? document.querySelector(container) : container\<close>,
  followed by the test that throws \<^verbatim>\<open>Container element not found\<close>.\<close>

definition resolveContainer :: "browser \<Rightarrow> container_arg \<Rightarrow> error + elem" where
  "resolveContainer b c =
     (case c of
        Selector s \<Rightarrow>
          (case querySelector b s of
             QSyntaxError \<Rightarrow> Inl SelectorSyntaxError
           | QNull \<Rightarrow> Inl ContainerNotFound
           | QElement e \<Rightarrow> Inr e)
      | Node e \<Rightarrow> Inr e
      | Nullish \<Rightarrow> Inl ContainerNotFound)"

definition constructor :: "container_arg \<Rightarrow> partial_options \<Rightarrow> browser \<Rightarrow> error + parallax \<times> browser" where
  "constructor c n b =
     (case resolveContainer b c of
        Inl err \<Rightarrow> Inl err
      | Inr e \<Rightarrow>
          Inr (init
            (\<lparr>container = e, options = merge defaultOptions n, layers = [],
              mouse_x = 0, mouse_y = 0, targetMouse_x = 0, targetMouse_y = 0,
              scroll = 0, targetScroll = 0, bounds = None,
              animationFrameId = None, isActive = False\<rparr>, b)))"

subsection \<open>Destruction and the layer interface\<close>

text \<open>The body of the \<^verbatim>\<open>forEach\<close> of \<^verbatim>\<open>destroy\<close>; both branches of its test assign
  the initial transform, which is empty in the second.\<close>

definition resetLayer :: "layer \<Rightarrow> browser \<Rightarrow> browser" where
  "resetLayer l b =
     b\<lparr>style_transform := (style_transform b)
        (element l := (if initialTransform l \<noteq> [] then initialTransform l else []))\<rparr>"

definition destroy :: "parallax \<times> browser \<Rightarrow> parallax \<times> browser" where
  "destroy w =
     (case stop w of (p, b) \<Rightarrow>
        let b1 = removeEventListeners p b;
            b2 = fold resetLayer (layers p) b1
        in (p\<lparr>layers := []\<rparr>, b2))"

text \<open>\<^verbatim>\<open>addLayer(element, depth = 1, scrollSpeed = depth, mouseSpeed = depth)\<close>: a
  parameter takes its default when the argument is undefined. The method returns the
  layer object it has pushed.\<close>

definition addLayer ::
  "elem \<Rightarrow> real option \<Rightarrow> real option \<Rightarrow> real option \<Rightarrow> parallax \<times> browser \<Rightarrow> layer \<times> parallax \<times> browser"
where
  "addLayer e d s m w =
     (case w of (p, b) \<Rightarrow>
        let d' = (case d of None \<Rightarrow> 1 | Some v \<Rightarrow> v);
            s' = (case s of None \<Rightarrow> d' | Some v \<Rightarrow> v);
            m' = (case m of None \<Rightarrow> d' | Some v \<Rightarrow> v);
            l = \<lparr>element = e, depth = d', scrollSpeed = s', mouseSpeed = m', axis = ''both'',
                 initialTransform = getInitialTransform b e\<rparr>
        in (l, p\<lparr>layers := layers p @ [l]\<rparr>, b))"

text \<open>The parameter of \<^verbatim>\<open>removeLayer\<close> is untyped: it may be given an element, or the
  layer object that \<^verbatim>\<open>addLayer\<close> returned. The method compares it with the element of
  each layer by \<^verbatim>\<open>===\<close>, and a layer object is never identical to an element.\<close>

datatype reference = ElementRef elem | LayerRef layer

fun findIndex :: "('a \<Rightarrow> bool) \<Rightarrow> 'a list \<Rightarrow> nat option" where
  "findIndex P [] = None"
| "findIndex P (x # xs) =
     (if P x then Some 0 else (case findIndex P xs of None \<Rightarrow> None | Some i \<Rightarrow> Some (Suc i)))"

text \<open>\<^verbatim>\<open>xs.splice(i, 1)\<close> for an index inside the array.\<close>

definition splice1 :: "nat \<Rightarrow> 'a list \<Rightarrow> 'a list" where
  "splice1 i xs = take i xs @ drop (Suc i) xs"

definition removeLayer :: "reference \<Rightarrow> parallax \<times> browser \<Rightarrow> parallax \<times> browser" where
  "removeLayer r w =
     (case w of (p, b) \<Rightarrow>
        (case findIndex (\<lambda>l. ElementRef (element l) = r) (layers p) of
           None \<Rightarrow> (p, b)
         | Some i \<Rightarrow> (p\<lparr>layers := splice1 i (layers p)\<rparr>, b)))"

section \<open>SuperParallax3D: the Three.js controller\<close>

text \<open>
  The embedding follows \<^verbatim>\<open>src/super-parallax-3d.js\<close>. The objects of Three.js that the
  class creates are part of the instance: the meshes live in a store indexed by
  reference, since the scene and the layers share them; the scene is the list of its
  children; the camera and the renderer are records of what the class sets on them.
  \<^verbatim>\<open>new THREE.WebGLRenderer\<close> throws when the page can give no WebGL context; the other
  constructors of Three.js are taken to return. A quotient of the source whose
  divisor may be 0 is a \<^typ>\<open>jsnum\<close>, with every result that is not finite read as NaN.
\<close>

subsection \<open>Data\<close>

definition quotient :: "real \<Rightarrow> real \<Rightarrow> jsnum" where
  "quotient a b = (if b = 0 then NaN else Num (a / b))"

text \<open>The material of a mesh: the texture loaded from the source of an image, or a
  colour (undefined when the index leaves the array) with an opacity.\<close>

datatype material = ImageMaterial string | ColorMaterial "nat option" real

record mesh =
  position_x :: real
  position_y :: real
  position_z :: real
  rotation_x :: real
  rotation_y :: real
  planeWidth :: jsnum
  planeHeight :: real
  material :: material
  geometryDisposed :: bool
  materialDisposed :: bool

record layer3d =
  mesh :: nat
  element3d :: elem
  depth3d :: real
  scrollSpeed3d :: real
  mouseSpeed3d :: real
  initialPosition :: "real \<times> real \<times> real"

record options3d =
  scrollMultiplier3d :: real
  mouseMultiplier3d :: real
  smoothing3d :: real
  fov :: real
  cameraZ :: real

record partial_options3d =
  scrollMultiplier3d_opt :: "real option"
  mouseMultiplier3d_opt :: "real option"
  smoothing3d_opt :: "real option"
  fov_opt :: "real option"
  cameraZ_opt :: "real option"

record camera =
  camera_fov :: real
  camera_aspect :: jsnum
  camera_near :: real
  camera_far :: real
  camera_x :: real
  camera_y :: real
  camera_z :: real
  lookAt :: "(real \<times> real \<times> real) option"

record renderer =
  size :: "real \<times> real"
  pixelRatio :: real
  renderCalls :: nat
  rendererDisposed :: bool
  domElementParent :: "elem option"

record parallax3d =
  container3d :: elem
  options3d :: options3d
  meshes :: "nat \<Rightarrow> mesh"
  meshCount :: nat
  scene :: "nat list"
  camera :: camera
  renderer :: renderer
  layers3d :: "layer3d list"
  mouse3d_x :: real
  mouse3d_y :: real
  targetMouse3d_x :: real
  targetMouse3d_y :: real
  scroll3d :: real
  targetScroll3d :: real
  isActive3d :: bool
  animationFrameId3d :: "nat option"

subsection \<open>The tick\<close>

definition scrollOffset3d :: "parallax3d \<Rightarrow> layer3d \<Rightarrow> real" where
  "scrollOffset3d p l = scroll3d p * scrollSpeed3d l * scrollMultiplier3d (options3d p) * 0.01"

text \<open>The body of the \<^verbatim>\<open>forEach\<close> of \<^verbatim>\<open>animate\<close>.\<close>

definition updateLayer3d :: "layer3d \<Rightarrow> parallax3d \<Rightarrow> parallax3d" where
  "updateLayer3d l p =
     p\<lparr>meshes := (meshes p)
        (mesh l := (meshes p (mesh l))
           \<lparr>position_y := fst (snd (initialPosition l)) - scrollOffset3d p l,
            rotation_x := mouse3d_y p * 0.05 * depth3d l,
            rotation_y := mouse3d_x p * 0.05 * depth3d l\<rparr>)\<rparr>"

definition smooth3d :: "parallax3d \<Rightarrow> parallax3d" where
  "smooth3d p =
     (let p1 = p\<lparr>scroll3d := lerp (scroll3d p) (targetScroll3d p) (smoothing3d (options3d p))\<rparr>;
          p2 = p1\<lparr>mouse3d_x := lerp (mouse3d_x p1) (targetMouse3d_x p1) (smoothing3d (options3d p1))\<rparr>
      in p2\<lparr>mouse3d_y := lerp (mouse3d_y p2) (targetMouse3d_y p2) (smoothing3d (options3d p2))\<rparr>)"

definition animate3d :: "parallax3d \<times> browser \<Rightarrow> parallax3d \<times> browser" where
  "animate3d w =
     (case w of (p, b) \<Rightarrow>
        if \<not> isActive3d p then w
        else
          let p1 = smooth3d p;
              p2 = p1\<lparr>camera := (camera p1)
                     \<lparr>camera_x := mouse3d_x p1 * mouseMultiplier3d (options3d p1),
                      camera_y := mouse3d_y p1 * mouseMultiplier3d (options3d p1),
                      lookAt := Some (0, 0, 0)\<rparr>\<rparr>;
              p3 = fold updateLayer3d (layers3d p2) p2;
              p4 = p3\<lparr>renderer := (renderer p3)\<lparr>renderCalls := Suc (renderCalls (renderer p3))\<rparr>\<rparr>;
              (h, b') = requestAnimationFrame b
          in (p4\<lparr>animationFrameId3d := Some h\<rparr>, b'))"

subsection \<open>Start and stop\<close>

definition start3d :: "parallax3d \<times> browser \<Rightarrow> parallax3d \<times> browser" where
  "start3d w =
     (case w of (p, b) \<Rightarrow>
        if isActive3d p then w
        else
          let p1 = p\<lparr>isActive3d := True\<rparr>;
              p2 = p1\<lparr>targetScroll3d := currentScroll b\<rparr>;
              p3 = p2\<lparr>scroll3d := targetScroll3d p2\<rparr>
          in animate3d (p3, b))"

definition stop3d :: "parallax3d \<times> browser \<Rightarrow> parallax3d \<times> browser" where
  "stop3d w =
     (case w of (p, b) \<Rightarrow>
        let p1 = p\<lparr>isActive3d := False\<rparr>
        in if truthyId (animationFrameId3d p1)
           then (p1\<lparr>animationFrameId3d := None\<rparr>,
                 cancelAnimationFrame (the (animationFrameId3d p1)) b)
           else (p1, b))"

subsection \<open>Listeners\<close>

definition addEventListeners3d :: "parallax3d \<Rightarrow> browser \<Rightarrow> browser" where
  "addEventListeners3d p b =
     (let b1 = addEventListener Window ''scroll'' HandleScroll b;
          b2 = addEventListener (Element (container3d p)) ''mousemove'' HandleMouseMove b1
      in addEventListener Window ''resize'' HandleResize b2)"

definition removeEventListeners3d :: "parallax3d \<Rightarrow> browser \<Rightarrow> browser" where
  "removeEventListeners3d p b =
     (let b1 = removeEventListener Window ''scroll'' HandleScroll b;
          b2 = removeEventListener (Element (container3d p)) ''mousemove'' HandleMouseMove b1
      in removeEventListener Window ''resize'' HandleResize b2)"

subsection \<open>Creation of the layers and construction\<close>

definition colors :: "nat list" where
  "colors = [0x6B5B95, 0x88B04B, 0xF7CAC9, 0x92A8D1, 0xFFCDA3]"

text \<open>\<^verbatim>\<open>colors[Math.floor(Math.random() * colors.length)]\<close>.\<close>

definition getRandomColor :: "browser \<Rightarrow> nat option \<times> browser" where
  "getRandomColor b =
     (let i = \<lfloor>random b (randomCalls b) * real (length colors)\<rfloor>
      in (if 0 \<le> i \<and> nat i < length colors then Some (colors ! nat i) else None,
          b\<lparr>randomCalls := Suc (randomCalls b)\<rparr>))"

text \<open>The body of the \<^verbatim>\<open>forEach\<close> of \<^verbatim>\<open>createLayers\<close>. (The bounding rectangle and
  the computed style that it reads are not used.) A new mesh stands at the origin.\<close>

definition createLayer :: "elem \<Rightarrow> parallax3d \<times> browser \<Rightarrow> parallax3d \<times> browser" where
  "createLayer e w =
     (case w of (p, b) \<Rightarrow>
        let d = orElse (parseFloat b (getAttribute b e ''data-parallax-depth'')) 0;
            s = orElse (parseFloat b (getAttribute b e ''data-parallax-scroll'')) d;
            m = orElse (parseFloat b (getAttribute b e ''data-parallax-mouse'')) d;
            b1 = b\<lparr>style_visibility := (style_visibility b)(e := ''hidden'')\<rparr>;
            (pw, mat, b2) =
              (case imageOf b1 e of
                 Some img \<Rightarrow>
                   (case quotient (real (naturalWidth img)) (real (naturalHeight img)) of
                      NaN \<Rightarrow> (NaN, ImageMaterial (src img), b1)
                    | Num aspectRatio \<Rightarrow> (Num (aspectRatio * 2), ImageMaterial (src img), b1))
               | None \<Rightarrow>
                   (case getRandomColor b1 of (c, b') \<Rightarrow> (Num 2, ColorMaterial c 0.6, b')));
            r = meshCount p;
            msh = \<lparr>position_x = 0, position_y = 0, position_z = - d * 2,
                   rotation_x = 0, rotation_y = 0, planeWidth = pw, planeHeight = 2,
                   material = mat, geometryDisposed = False, materialDisposed = False\<rparr>;
            p1 = p\<lparr>meshes := (meshes p)(r := msh), meshCount := Suc r\<rparr>;
            p2 = p1\<lparr>scene := scene p1 @ [r]\<rparr>;
            l = \<lparr>mesh = r, element3d = e, depth3d = d, scrollSpeed3d = s, mouseSpeed3d = m,
                 initialPosition = (position_x msh, position_y msh, position_z msh)\<rparr>
        in (p2\<lparr>layers3d := layers3d p2 @ [l]\<rparr>, b2))"

definition createLayers :: "parallax3d \<times> browser \<Rightarrow> parallax3d \<times> browser" where
  "createLayers w = (case w of (p, b) \<Rightarrow> fold createLayer (layerElements b (container3d p)) w)"

definition defaultOptions3d :: options3d where
  "defaultOptions3d =
     \<lparr>scrollMultiplier3d = 0.5, mouseMultiplier3d = 2, smoothing3d = 0.08, fov = 75, cameraZ = 5\<rparr>"

definition merge3d :: "options3d \<Rightarrow> partial_options3d \<Rightarrow> options3d" where
  "merge3d d n =
     \<lparr>scrollMultiplier3d =
        (case scrollMultiplier3d_opt n of None \<Rightarrow> scrollMultiplier3d d | Some v \<Rightarrow> v),
      mouseMultiplier3d =
        (case mouseMultiplier3d_opt n of None \<Rightarrow> mouseMultiplier3d d | Some v \<Rightarrow> v),
      smoothing3d = (case smoothing3d_opt n of None \<Rightarrow> smoothing3d d | Some v \<Rightarrow> v),
      fov = (case fov_opt n of None \<Rightarrow> fov d | Some v \<Rightarrow> v),
      cameraZ = (case cameraZ_opt n of None \<Rightarrow> cameraZ d | Some v \<Rightarrow> v)\<rparr>"

text \<open>The assignments of the constructor after its two tests, followed by \<^verbatim>\<open>init\<close>: the
  fields \<^verbatim>\<open>scene\<close>, \<^verbatim>\<open>camera\<close> and \<^verbatim>\<open>renderer\<close>, null until \<^verbatim>\<open>init\<close> assigns them,
  are given here the objects that \<^verbatim>\<open>init\<close> creates. \<^verbatim>\<open>init\<close> creates the scene and the
  camera and then the renderer; when \<^verbatim>\<open>new THREE.WebGLRenderer\<close> throws, the error leaves
  \<^verbatim>\<open>init\<close> and the constructor, which catch nothing, and the page has not been touched.
  The store of the meshes is total: a reference below \<open>meshCount\<close> holds a mesh that the
  class has created, any other one the blank mesh.\<close>

definition blankMesh :: mesh where
  "blankMesh =
     \<lparr>position_x = 0, position_y = 0, position_z = 0, rotation_x = 0, rotation_y = 0,
      planeWidth = NaN, planeHeight = 0, material = ColorMaterial None 0,
      geometryDisposed = False, materialDisposed = False\<rparr>"

definition init3d :: "elem \<Rightarrow> options3d \<Rightarrow> browser \<Rightarrow> error + parallax3d \<times> browser" where
  "init3d e opts b =
     (let w = clientWidth b e;
          h = clientHeight b e
      in if \<not> webglAvailable b then Inl WebGLUnavailable
         else
           let p = \<lparr>container3d = e, options3d = opts,
                    meshes = (\<lambda>r. blankMesh),
                    meshCount = 0,
                    scene = [],
                    camera = \<lparr>camera_fov = fov opts, camera_aspect = quotient w h,
                              camera_near = 0.1, camera_far = 1000,
                              camera_x = 0, camera_y = 0, camera_z = cameraZ opts, lookAt = None\<rparr>,
                    renderer = \<lparr>size = (w, h), pixelRatio = devicePixelRatio b, renderCalls = 0,
                                rendererDisposed = False, domElementParent = Some e\<rparr>,
                    layers3d = [],
                    mouse3d_x = 0, mouse3d_y = 0, targetMouse3d_x = 0, targetMouse3d_y = 0,
                    scroll3d = 0, targetScroll3d = 0, isActive3d = False,
                    animationFrameId3d = None\<rparr>;
               (p1, b1) = createLayers (p, b);
               b2 = addEventListeners3d p1 b1
           in Inr (start3d (p1, b2)))"

definition constructor3d ::
  "container_arg \<Rightarrow> partial_options3d \<Rightarrow> browser \<Rightarrow> error + parallax3d \<times> browser"
where
  "constructor3d c n b =
     (if \<not> threeDefined b then Inl ThreeRequired
      else
        (case resolveContainer b c of
           Inl err \<Rightarrow> Inl err
         | Inr e \<Rightarrow> init3d e (merge3d defaultOptions3d n) b))"

subsection \<open>Destruction\<close>

text \<open>The body of the \<^verbatim>\<open>forEach\<close> of \<^verbatim>\<open>destroy\<close>: the mesh leaves the scene, its
  geometry and material are disposed of, and the inline visibility of the element is
  emptied.\<close>

definition disposeLayer :: "layer3d \<Rightarrow> parallax3d \<times> browser \<Rightarrow> parallax3d \<times> browser" where
  "disposeLayer l w =
     (case w of (p, b) \<Rightarrow>
        (p\<lparr>scene := remove1 (mesh l) (scene p),
           meshes := (meshes p)
             (mesh l := (meshes p (mesh l))\<lparr>geometryDisposed := True, materialDisposed := True\<rparr>)\<rparr>,
         b\<lparr>style_visibility := (style_visibility b)(element3d l := [])\<rparr>))"

text \<open>\<^verbatim>\<open>removeChild\<close> throws when the canvas of the renderer is not a child of the
  container; the assignment that empties the layers is then not reached.\<close>

definition destroy3d :: "parallax3d \<times> browser \<Rightarrow> error + parallax3d \<times> browser" where
  "destroy3d w =
     (case stop3d w of (p, b) \<Rightarrow>
        let b1 = removeEventListeners3d p b;
            (p1, b2) = fold disposeLayer (layers3d p) (p, b1);
            p2 = p1\<lparr>renderer := (renderer p1)\<lparr>rendererDisposed := True\<rparr>\<rparr>
        in if domElementParent (renderer p2) = Some (container3d p2)
           then Inr (p2\<lparr>renderer := (renderer p2)\<lparr>domElementParent := None\<rparr>, layers3d := []\<rparr>, b2)
           else Inl ChildNotFound)"

section \<open>The frames of an instance\<close>

text \<open>
  On a page whose frames are requested by one instance only, the list of callbacks holds
  at most the frame that the instance has requested last, and nothing while the
  controller is not active. The construction, \<^verbatim>\<open>start\<close>, \<^verbatim>\<open>stop\<close> and the frames that
  the page runs keep it so.
\<close>

definition framesOwned :: "parallax \<times> browser \<Rightarrow> bool" where
  "framesOwned w =
     (case w of (p, b) \<Rightarrow>
        set (frameCallbacks b) \<subseteq> set_option (animationFrameId p)
        \<and> 0 \<notin> set (frameCallbacks b)
        \<and> (isActive p \<or> frameCallbacks b = []))"

section \<open>The smoothing step in binary64\<close>

text \<open>
  A number of the program is an IEEE 754 binary64 value, and an arithmetic operation
  returns its exact result rounded to the nearest binary64 value, a tie to the value
  with the even significand. \<open>roundEven\<close> rounds a real to the nearest integer in this
  way.
\<close>

definition roundEven :: "real \<Rightarrow> int" where
  "roundEven r =
     (let n = \<lfloor>r\<rfloor>; f = r - of_int n
      in if f < 1 / 2 then n else if 1 / 2 < f then n + 1 else if even n then n else n + 1)"

text \<open>
  The binary64 values around a real \<open>x\<close> are the integer multiples of \<open>ulp64 x\<close>, which
  is \<open>2 powi (e - 52)\<close> for the binary exponent \<open>e\<close> of \<open>x\<close>, and \<open>2 powi (- 1074)\<close> for
  every \<open>x\<close> below \<open>2 powi (- 1022)\<close> (the subnormal values). \<open>round64 x\<close> is the nearest
  of them, with no upper limit on the exponent. \<open>binary64 x\<close> is what an operation
  with the exact result \<open>x\<close> returns: the rounded value; where that reaches
  \<open>2 ^ 1024\<close> the operation returns an infinity, which is \<open>None\<close> here, and the values
  of the program are not followed further.
\<close>

definition exponent64 :: "real \<Rightarrow> int" where
  "exponent64 x = max \<lfloor>log 2 \<bar>x\<bar>\<rfloor> (- 1022)"

definition ulp64 :: "real \<Rightarrow> real" where
  "ulp64 x = 2 powi (exponent64 x - 52)"

definition round64 :: "real \<Rightarrow> real" where
  "round64 x = (if x = 0 then 0 else ulp64 x * of_int (roundEven (x / ulp64 x)))"

definition binary64 :: "real \<Rightarrow> real option" where
  "binary64 x = (if \<bar>round64 x\<bar> < 2 ^ 1024 then Some (round64 x) else None)"

text \<open>\<^verbatim>\<open>lerp(start, end, factor)\<close> returns \<^verbatim>\<open>start + (end - start) * factor\<close>: a
  subtraction, a multiplication and an addition, each of them rounded.\<close>

definition lerp64 :: "real \<Rightarrow> real \<Rightarrow> real \<Rightarrow> real option" where
  "lerp64 from to factor =
     (case binary64 (to - from) of
        None \<Rightarrow> None
      | Some d \<Rightarrow>
          (case binary64 (d * factor) of
             None \<Rightarrow> None
           | Some p \<Rightarrow> binary64 (from + p)))"

text \<open>The three assignments at the head of \<^verbatim>\<open>animate\<close>, and \<open>n\<close> of them in a row, as
  \<open>n\<close> ticks of an active controller make them.\<close>

definition smooth64 :: "parallax \<Rightarrow> parallax option" where
  "smooth64 p =
     (case lerp64 (scroll p) (targetScroll p) (smoothing (options p)) of
        None \<Rightarrow> None
      | Some sc \<Rightarrow>
          (case lerp64 (mouse_x p) (targetMouse_x p) (smoothing (options p)) of
             None \<Rightarrow> None
           | Some mx \<Rightarrow>
               (case lerp64 (mouse_y p) (targetMouse_y p) (smoothing (options p)) of
                  None \<Rightarrow> None
                | Some my \<Rightarrow> Some (p\<lparr>scroll := sc, mouse_x := mx, mouse_y := my\<rparr>))))"

fun smooth64s :: "nat \<Rightarrow> parallax \<Rightarrow> parallax option" where
  "smooth64s 0 p = Some p"
| "smooth64s (Suc n) p = (case smooth64 p of None \<Rightarrow> None | Some p' \<Rightarrow> smooth64s n p')"

text \<open>One tracked value \<open>c\<close> over \<open>n\<close> ticks, with the smoothing \<open>s\<close> and the target \<open>t\<close>:
  \<^verbatim>\<open>c = lerp(c, t, s)\<close> again and again.\<close>

fun ticks64 :: "nat \<Rightarrow> real \<Rightarrow> real \<Rightarrow> real \<Rightarrow> real option" where
  "ticks64 0 s t c = Some c"
| "ticks64 (Suc n) s t c =
     (case lerp64 c t s of None \<Rightarrow> None | Some c' \<Rightarrow> ticks64 n s t c')"

text \<open>The number that the literal \<^verbatim>\<open>1e-17\<close> denotes.\<close>

definition literal17 :: real where
  "literal17 = round64 (1 / 10 ^ 17)"

section \<open>A page for the examples\<close>

text \<open>
  A page with a container (element 10) that holds two layers: element 11 with the
  attributes \<^verbatim>\<open>data-parallax-depth="0.5"\<close> and \<^verbatim>\<open>data-parallax-scroll="0"\<close>, and
  element 12 with \<^verbatim>\<open>data-parallax-axis="x"\<close>. The page is scrolled to 100, no element
  has a transform of its own, and there is no image below the layers. The built-ins
  are given on the values that the examples pass to them.
\<close>

definition exampleBrowser :: browser where
  "exampleBrowser =
     \<lparr>style_transform = (\<lambda>e. []), style_position = (\<lambda>e. []), style_overflow = (\<lambda>e. []),
      style_visibility = (\<lambda>e. []), listeners = [], frameCounter = 0, frameCallbacks = [],
      warnings = [],
      querySelector = (\<lambda>s. if s = [] then QSyntaxError
                           else if s = ''.parallax-container'' then QElement 10 else QNull),
      layerElements = (\<lambda>c. if c = 10 then [11, 12] else []),
      getAttribute = (\<lambda>e a.
        if e = 11 \<and> a = ''data-parallax-depth'' then Some ''0.5''
        else if e = 11 \<and> a = ''data-parallax-scroll'' then Some ''0''
        else if e = 12 \<and> a = ''data-parallax-axis'' then Some ''x''
        else None),
      getBoundingClientRect = (\<lambda>e. \<lparr>left = 0, top = 0, width = 800, height = 600\<rparr>),
      pageYOffset = 100, scrollTop = 0,
      computedTransform = (\<lambda>st e.
        if st e = [] then ''none''
        else if st e = ''translate3d(0px, -25px, 0)'' then ''matrix(1, 0, 0, 1, 0, -25)''
        else if st e = ''translate3d(0px, -50px, 0)'' then ''matrix(1, 0, 0, 1, 0, -50)''
        else st e),
      parseFloat = (\<lambda>s. if s = Some ''0.5'' then Num 0.5
                         else if s = Some ''0'' then Num 0 else NaN),
      numberToString = (\<lambda>r. if r = 0 then ''0'' else if r = - 25 then ''-25''
                              else if r = - 50 then ''-50'' else ''NaN''),
      threeDefined = True, webglAvailable = True, clientWidth = (\<lambda>e. 800), clientHeight = (\<lambda>e. 600),
      devicePixelRatio = 1, imageOf = (\<lambda>e. None), random = (\<lambda>n. 0), randomCalls = 0\<rparr>"

definition noOptions :: partial_options where
  "noOptions =
     \<lparr>scrollMultiplier_opt = None, mouseMultiplier_opt = None, smoothing_opt = None,
      centerMouse_opt = None, resetOnMouseLeave_opt = None\<rparr>"

definition noOptions3d :: partial_options3d where
  "noOptions3d =
     \<lparr>scrollMultiplier3d_opt = None, mouseMultiplier3d_opt = None, smoothing3d_opt = None,
      fov_opt = None, cameraZ_opt = None\<rparr>"

text \<open>The instance and the page after \<^verbatim>\<open>new SuperParallax('.parallax-container')\<close>.\<close>

definition exampleParallax :: parallax where
  "exampleParallax =
     \<lparr>container = 10, options = defaultOptions,
      layers =
        [\<lparr>element = 11, depth = 0.5, scrollSpeed = 0.5, mouseSpeed = 0.5, axis = ''both'',
          initialTransform = []\<rparr>,
         \<lparr>element = 12, depth = 1, scrollSpeed = 1, mouseSpeed = 1, axis = ''x'',
          initialTransform = []\<rparr>],
      mouse_x = 0, mouse_y = 0, targetMouse_x = 0, targetMouse_y = 0,
      scroll = 100, targetScroll = 100,
      bounds = Some \<lparr>left = 0, top = 0, width = 800, height = 600\<rparr>,
      animationFrameId = Some 1, isActive = True\<rparr>"

definition examplePage :: browser where
  "examplePage =
     exampleBrowser
       \<lparr>style_transform :=
          (\<lambda>e. [])(11 := ''translate3d(0px, -25px, 0)'', 12 := ''translate3d(0px, -50px, 0)''),
        style_position := (\<lambda>e. [])(10 := ''relative''),
        style_overflow := (\<lambda>e. [])(10 := ''hidden''),
        listeners :=
          [(Window, ''scroll'', HandleScroll), (Element 10, ''mousemove'', HandleMouseMove),
           (Element 10, ''mouseleave'', HandleMouseLeave), (Window, ''resize'', UpdateBounds)],
        frameCounter := 1, frameCallbacks := [1]\<rparr>"

text \<open>The instance after the page has been scrolled back to the top and the scroll target
  has jumped to 100.\<close>

definition jumpParallax :: parallax where
  "jumpParallax = exampleParallax\<lparr>scroll := 0, targetScroll := 100\<rparr>"

text \<open>The same instance with the smoothing \<open>1 / 2\<close>; with the smoothing \<^verbatim>\<open>1e-17\<close>, on the
  way from 1 to 2; with the smoothing \<open>1 / 2\<close>, on the way from 1 to the next binary64
  value above 1; and on the way from \<open>- (2 ^ 1023)\<close> to \<open>2 ^ 1023\<close>.\<close>

definition halfParallax :: parallax where
  "halfParallax = jumpParallax\<lparr>options := (options jumpParallax)\<lparr>smoothing := 1 / 2\<rparr>\<rparr>"

definition stuckParallax :: parallax where
  "stuckParallax =
     exampleParallax\<lparr>options := (options exampleParallax)\<lparr>smoothing := literal17\<rparr>,
       scroll := 1, targetScroll := 2\<rparr>"

definition shortParallax :: parallax where
  "shortParallax = halfParallax\<lparr>scroll := 1, targetScroll := 1 + 1 / 2 ^ 52\<rparr>"

definition farParallax :: parallax where
  "farParallax = halfParallax\<lparr>scroll := - (2 ^ 1023), targetScroll := 2 ^ 1023\<rparr>"

text \<open>The layer of the scenario for the offsets, as \<^verbatim>\<open>addLayer(e, 1, 1, 0)\<close> makes it for
  element 13, and the instance that holds it after the two layers of the page.\<close>

definition scenarioLayer :: layer where
  "scenarioLayer =
     \<lparr>element = 13, depth = 1, scrollSpeed = 1, mouseSpeed = 0, axis = ''both'',
      initialTransform = []\<rparr>"

definition scenarioParallax :: parallax where
  "scenarioParallax = exampleParallax\<lparr>layers := layers exampleParallax @ [scenarioLayer]\<rparr>"

text \<open>The instance and the page after \<^verbatim>\<open>new SuperParallax3D('.parallax-container')\<close>.\<close>

definition exampleParallax3d :: parallax3d where
  "exampleParallax3d =
     \<lparr>container3d = 10, options3d = defaultOptions3d,
      meshes = (\<lambda>r. blankMesh)
        (0 := \<lparr>position_x = 0, position_y = - 0.25, position_z = - 1,
                rotation_x = 0, rotation_y = 0, planeWidth = Num 2, planeHeight = 2,
                material = ColorMaterial (Some 0x6B5B95) 0.6,
                geometryDisposed = False, materialDisposed = False\<rparr>,
         1 := \<lparr>position_x = 0, position_y = 0, position_z = 0,
                rotation_x = 0, rotation_y = 0, planeWidth = Num 2, planeHeight = 2,
                material = ColorMaterial (Some 0x6B5B95) 0.6,
                geometryDisposed = False, materialDisposed = False\<rparr>),
      meshCount = 2,
      scene = [0, 1],
      camera = \<lparr>camera_fov = 75, camera_aspect = Num (800 / 600), camera_near = 0.1,
                camera_far = 1000, camera_x = 0, camera_y = 0, camera_z = 5,
                lookAt = Some (0, 0, 0)\<rparr>,
      renderer = \<lparr>size = (800, 600), pixelRatio = 1, renderCalls = 1,
                  rendererDisposed = False, domElementParent = Some 10\<rparr>,
      layers3d =
        [\<lparr>mesh = 0, element3d = 11, depth3d = 0.5, scrollSpeed3d = 0.5, mouseSpeed3d = 0.5,
          initialPosition = (0, 0, - 1)\<rparr>,
         \<lparr>mesh = 1, element3d = 12, depth3d = 0, scrollSpeed3d = 0, mouseSpeed3d = 0,
          initialPosition = (0, 0, 0)\<rparr>],
      mouse3d_x = 0, mouse3d_y = 0, targetMouse3d_x = 0, targetMouse3d_y = 0,
      scroll3d = 100, targetScroll3d = 100, isActive3d = True, animationFrameId3d = Some 1\<rparr>"

definition examplePage3d :: browser where
  "examplePage3d =
     exampleBrowser
       \<lparr>style_visibility := (\<lambda>e. [])(11 := ''hidden'', 12 := ''hidden''),
        listeners :=
          [(Window, ''scroll'', HandleScroll), (Element 10, ''mousemove'', HandleMouseMove),
           (Window, ''resize'', HandleResize)],
        frameCounter := 1, frameCallbacks := [1], randomCalls := 2\<rparr>"

text \<open>The second layer of the example page, which has the axis mask \<^verbatim>\<open>x\<close>; a layer with
  the axis mask \<^verbatim>\<open>y\<close>; and the instance with the smoothed pointer at \<open>(1, 1)\<close>.\<close>

definition horizontalLayer :: layer where
  "horizontalLayer =
     \<lparr>element = 12, depth = 1, scrollSpeed = 1, mouseSpeed = 1, axis = ''x'',
      initialTransform = []\<rparr>"

definition verticalLayer :: layer where
  "verticalLayer =
     \<lparr>element = 14, depth = 1, scrollSpeed = 1, mouseSpeed = 1, axis = ''y'',
      initialTransform = []\<rparr>"

definition pointerParallax :: parallax where
  "pointerParallax = exampleParallax\<lparr>mouse_x := 1, mouse_y := 1\<rparr>"

section \<open>Properties\<close>

subsection \<open>The example page\<close>

lemma exampleBrowser_simps [simp]:
  "style_transform exampleBrowser = (\<lambda>e. [])"
  "style_position exampleBrowser = (\<lambda>e. [])"
  "style_overflow exampleBrowser = (\<lambda>e. [])"
  "style_visibility exampleBrowser = (\<lambda>e. [])"
  "listeners exampleBrowser = []"
  "frameCounter exampleBrowser = 0"
  "frameCallbacks exampleBrowser = []"
  "warnings exampleBrowser = []"
  "pageYOffset exampleBrowser = 100"
  "scrollTop exampleBrowser = 0"
  "layerElements exampleBrowser 10 = [11, 12]"
  "querySelector exampleBrowser ''.parallax-container'' = QElement 10"
  "getBoundingClientRect exampleBrowser = (\<lambda>e. \<lparr>left = 0, top = 0, width = 800, height = 600\<rparr>)"
  "threeDefined exampleBrowser"
  "webglAvailable exampleBrowser"
  "imageOf exampleBrowser = (\<lambda>e. None)"
  "randomCalls exampleBrowser = 0"
  "random exampleBrowser = (\<lambda>n. 0)"
  "clientWidth exampleBrowser = (\<lambda>e. 800)"
  "clientHeight exampleBrowser = (\<lambda>e. 600)"
  "devicePixelRatio exampleBrowser = 1"
  by (simp_all add: exampleBrowser_def)

lemma exampleBrowser_attributes [simp]:
  "parseFloat exampleBrowser (getAttribute exampleBrowser 11 ''data-parallax-depth'') = Num 0.5"
  "parseFloat exampleBrowser (getAttribute exampleBrowser 11 ''data-parallax-scroll'') = Num 0"
  "parseFloat exampleBrowser (getAttribute exampleBrowser 11 ''data-parallax-mouse'') = NaN"
  "getAttribute exampleBrowser 11 ''data-parallax-axis'' = None"
  "parseFloat exampleBrowser (getAttribute exampleBrowser 12 ''data-parallax-depth'') = NaN"
  "parseFloat exampleBrowser (getAttribute exampleBrowser 12 ''data-parallax-scroll'') = NaN"
  "parseFloat exampleBrowser (getAttribute exampleBrowser 12 ''data-parallax-mouse'') = NaN"
  "getAttribute exampleBrowser 12 ''data-parallax-axis'' = Some ''x''"
  by (simp_all add: exampleBrowser_def)

lemma exampleBrowser_numbers [simp]:
  "numberToString exampleBrowser 0 = ''0''"
  "numberToString exampleBrowser (- 25) = ''-25''"
  "numberToString exampleBrowser (- 50) = ''-50''"
  by (simp_all add: exampleBrowser_def)

lemma exampleBrowser_initial [simp]: "getInitialTransform exampleBrowser e = []"
  by (simp add: getInitialTransform_def exampleBrowser_def)

lemma discoverLayer_11:
  "discoverLayer exampleBrowser 11 =
     \<lparr>element = 11, depth = 0.5, scrollSpeed = 0.5, mouseSpeed = 0.5, axis = ''both'',
      initialTransform = []\<rparr>"
  by (simp add: discoverLayer_def orElse_def orElseString_def Let_def)

lemma discoverLayer_12:
  "discoverLayer exampleBrowser 12 =
     \<lparr>element = 12, depth = 1, scrollSpeed = 1, mouseSpeed = 1, axis = ''x'',
      initialTransform = []\<rparr>"
  by (simp add: discoverLayer_def orElse_def orElseString_def Let_def)

lemma example_listeners:
  "addEventListeners (p\<lparr>container := 10, options := defaultOptions\<rparr>) (b\<lparr>listeners := []\<rparr>) =
   b\<lparr>listeners := [(Window, ''scroll'', HandleScroll), (Element 10, ''mousemove'', HandleMouseMove),
           (Element 10, ''mouseleave'', HandleMouseLeave), (Window, ''resize'', UpdateBounds)]\<rparr>"
  by (simp add: addEventListeners_def addEventListener_def defaultOptions_def Let_def)

lemma example_constructed:
  "constructor (Selector ''.parallax-container'') noOptions exampleBrowser =
    Inr (exampleParallax, examplePage)"
  apply (simp add: constructor_def resolveContainer_def init_def discoverLayer_11 discoverLayer_12 noOptions_def merge_def)
  apply (simp add: updateBounds_def)
  apply (simp add: addEventListeners_def addEventListener_def defaultOptions_def Let_def)
  apply (simp add: start_def currentScroll_def )
  apply (simp add: animate_def smooth_def lerp_def)
  apply (simp add: updateLayer_def translateX_def translateY_def scrollOffset_def mouseOffsetX_def mouseOffsetY_def translate3d_def)
  apply (simp add: requestAnimationFrame_def exampleParallax_def examplePage_def defaultOptions_def)
  done


subsection \<open>The tick\<close>

lemma smooth_simps [simp]:
  "scroll (smooth p) = lerp (scroll p) (targetScroll p) (smoothing (options p))"
  "mouse_x (smooth p) = lerp (mouse_x p) (targetMouse_x p) (smoothing (options p))"
  "mouse_y (smooth p) = lerp (mouse_y p) (targetMouse_y p) (smoothing (options p))"
  "targetScroll (smooth p) = targetScroll p"
  "targetMouse_x (smooth p) = targetMouse_x p"
  "targetMouse_y (smooth p) = targetMouse_y p"
  "options (smooth p) = options p"
  "layers (smooth p) = layers p"
  "isActive (smooth p) = isActive p"
  by (simp_all add: smooth_def Let_def)

lemma animate_active:
  "isActive p \<Longrightarrow>
   animate (p, b) =
     ((smooth p)\<lparr>animationFrameId := Some (Suc (frameCounter (fold (updateLayer (smooth p)) (layers p) b)))\<rparr>,
      snd (requestAnimationFrame (fold (updateLayer (smooth p)) (layers p) b)))"
  by (simp add: animate_def Let_def requestAnimationFrame_def)

lemma animate_idle: "\<not> isActive p \<Longrightarrow> animate (p, b) = (p, b)"
  by (simp add: animate_def)

lemma updateLayer_other:
  "element l \<noteq> e \<Longrightarrow> style_transform (updateLayer p l b) e = style_transform b e"
  by (simp add: updateLayer_def Let_def)

lemma updateLayer_numberToString [simp]:
  "numberToString (updateLayer p l b) = numberToString b"
  by (simp add: updateLayer_def Let_def)

lemma fold_updateLayer_numberToString [simp]:
  "numberToString (fold (updateLayer p) ls b) = numberToString b"
  by (induction ls arbitrary: b) simp_all

lemma translate3d_cong:
  "numberToString b = numberToString b' \<Longrightarrow> translate3d b = translate3d b'"
  by (simp add: translate3d_def fun_eq_iff)

lemma updateLayer_self:
  "style_transform (updateLayer p l b) (element l) =
     (if initialTransform l \<noteq> [] then initialTransform l @ '' '' else []) @
     translate3d b (translateX p l) (translateY p l)"
  by (simp add: updateLayer_def Let_def)

lemma fold_updateLayer_other:
  "e \<notin> element ` set ls \<Longrightarrow> style_transform (fold (updateLayer p) ls b) e = style_transform b e"
  by (induction ls arbitrary: b) (simp_all add: updateLayer_other)

lemma fold_updateLayer_written:
  "l \<in> set ls \<Longrightarrow> distinct (map element ls) \<Longrightarrow>
   style_transform (fold (updateLayer p) ls b) (element l) =
     (if initialTransform l \<noteq> [] then initialTransform l @ '' '' else []) @
     translate3d b (translateX p l) (translateY p l)"
proof (induction ls arbitrary: b)
  case Nil
  then show ?case by simp
next
  case (Cons a ls)
  show ?case
  proof (cases "l \<in> set ls")
    case True
    with Cons.prems have "distinct (map element ls)" by simp
    from Cons.IH [OF True this, of "updateLayer p a b"] show ?thesis
      by (simp add: translate3d_cong [of "updateLayer p a b" b])
  next
    case False
    with Cons.prems have la: "l = a" and out: "element a \<notin> element ` set ls" by auto
    show ?thesis
      using fold_updateLayer_other [OF out, of p "updateLayer p a b"]
      by (simp add: la updateLayer_self)
  qed
qed

lemma requestAnimationFrame_style [simp]:
  "style_transform (snd (requestAnimationFrame b)) = style_transform b"
  by (simp add: requestAnimationFrame_def Let_def)

lemma animate_written:
  assumes "isActive p" and "l \<in> set (layers p)" and "distinct (map element (layers p))"
  shows "style_transform (snd (animate (p, b))) (element l) =
     (if initialTransform l \<noteq> [] then initialTransform l @ '' '' else []) @
     translate3d b (translateX (smooth p) l) (translateY (smooth p) l)"
  using assms by (simp add: animate_active fold_updateLayer_written)

text \<open>
  Claim C1. One tick of an active controller moves each of the three tracked values,
  the scroll position and the two pointer coordinates, to
  \<open>current + (target - current) * smoothing\<close>, for every smoothing option and every
  pair of current and target value.
\<close>

theorem animate_lerp:
  assumes "isActive p"
  shows "scroll (fst (animate (p, b))) = scroll p + (targetScroll p - scroll p) * smoothing (options p)
    \<and> mouse_x (fst (animate (p, b))) = mouse_x p + (targetMouse_x p - mouse_x p) * smoothing (options p)
    \<and> mouse_y (fst (animate (p, b))) = mouse_y p + (targetMouse_y p - mouse_y p) * smoothing (options p)"
  using assms by (simp add: animate_active lerp_def)

lemma animate_keeps:
  "isActive (fst (animate w)) = isActive (fst w)"
  "targetScroll (fst (animate w)) = targetScroll (fst w)"
  "targetMouse_x (fst (animate w)) = targetMouse_x (fst w)"
  "targetMouse_y (fst (animate w)) = targetMouse_y (fst w)"
  "options (fst (animate w)) = options (fst w)"
  "layers (fst (animate w)) = layers (fst w)"
  by (cases w; cases "isActive (fst w)"; simp add: animate_active animate_idle)+

text \<open>The scenario of the specification: with the smoothing 0.1 and a target that has
  jumped from 0 to 100, the first tick gives 10 and the second 19.\<close>

theorem animate_lerp_witness:
  "isActive jumpParallax \<and> smoothing (options jumpParallax) = 0.1
   \<and> scroll jumpParallax = 0 \<and> targetScroll jumpParallax = 100
   \<and> scroll (fst (animate (jumpParallax, examplePage))) = 10
   \<and> scroll (fst (animate (animate (jumpParallax, examplePage)))) = 19"
proof -
  let ?w = "animate (jumpParallax, examplePage)"
  have a: "isActive jumpParallax"
    by (simp add: jumpParallax_def exampleParallax_def)
  have s: "smoothing (options jumpParallax) = 0.1" "scroll jumpParallax = 0"
    "targetScroll jumpParallax = 100"
    by (simp_all add: jumpParallax_def exampleParallax_def defaultOptions_def)
  have one: "scroll (fst ?w) = 10"
    using animate_lerp [OF a, of examplePage] by (simp add: s)
  have a': "isActive (fst ?w)"
    by (simp add: animate_keeps a)
  have "scroll (fst (animate (fst ?w, snd ?w))) = 19"
    using animate_lerp [OF a', of "snd ?w"] by (simp add: one animate_keeps s)
  with a s one show ?thesis by simp
qed

subsection \<open>Convergence\<close>

text \<open>The rounding moves a number by at most half a unit in its last place, which is
  at most the \<open>2 ^ 53\<close>-th part of the number, or \<open>2 powi (- 1075)\<close> for a subnormal
  one.\<close>

lemma roundEven_error: "\<bar>of_int (roundEven r) - r\<bar> \<le> 1 / 2"
proof -
  have "of_int \<lfloor>r\<rfloor> \<le> r" "r < of_int \<lfloor>r\<rfloor> + 1" by linarith+
  then show ?thesis
    by (auto simp add: roundEven_def Let_def)
qed

lemma roundEven_nonneg: "0 \<le> r \<Longrightarrow> 0 \<le> roundEven r"
  by (auto simp add: roundEven_def Let_def)

lemma ulp64_pos: "0 < ulp64 x"
  by (simp add: ulp64_def)

lemma round64_error: "\<bar>round64 x - x\<bar> \<le> ulp64 x / 2"
proof (cases "x = 0")
  case True
  then show ?thesis using ulp64_pos [of x] by (simp add: round64_def)
next
  case False
  let ?u = "ulp64 x"
  have u: "0 < ?u" by (rule ulp64_pos)
  have "round64 x - x = ?u * (of_int (roundEven (x / ?u)) - x / ?u)"
    using False u by (simp add: round64_def algebra_simps)
  then have "\<bar>round64 x - x\<bar> = ?u * \<bar>of_int (roundEven (x / ?u)) - x / ?u\<bar>"
    using u by (simp add: abs_mult)
  also have "\<dots> \<le> ?u * (1 / 2)"
    using u roundEven_error [of "x / ?u"] by (intro mult_left_mono) simp_all
  finally show ?thesis by simp
qed

lemma powr_powi: "2 powr real_of_int k = (2::real) powi k"
  by (simp add: powr_real_of_int power_int_def power_inverse power_one_over inverse_eq_divide)

lemma floor_log_bounds:
  assumes "x \<noteq> 0"
  shows "2 powi \<lfloor>log 2 \<bar>x\<bar>\<rfloor> \<le> \<bar>x\<bar>" and "\<bar>x\<bar> < 2 powi (\<lfloor>log 2 \<bar>x\<bar>\<rfloor> + 1)"
proof -
  have "0 < \<bar>x\<bar>" using assms by simp
  then have "2 powr real_of_int \<lfloor>log 2 \<bar>x\<bar>\<rfloor> \<le> \<bar>x\<bar>
      \<and> \<bar>x\<bar> < 2 powr real_of_int (\<lfloor>log 2 \<bar>x\<bar>\<rfloor> + 1)"
    using floor_log_eq_powr_iff [of "\<bar>x\<bar>" 2 "\<lfloor>log 2 \<bar>x\<bar>\<rfloor>"] by simp
  then show "2 powi \<lfloor>log 2 \<bar>x\<bar>\<rfloor> \<le> \<bar>x\<bar>" and "\<bar>x\<bar> < 2 powi (\<lfloor>log 2 \<bar>x\<bar>\<rfloor> + 1)"
    by (simp_all only: powr_powi)
qed

lemma ulp64_bound:
  assumes x: "x \<noteq> 0"
  shows "ulp64 x \<le> \<bar>x\<bar> / 2 ^ 52 + 1 / 2 ^ 1074"
proof (cases "\<lfloor>log 2 \<bar>x\<bar>\<rfloor> < - 1022")
  case True
  then have "exponent64 x = - 1022"
    by (simp add: exponent64_def)
  then have "ulp64 x = 1 / 2 ^ 1074"
    by (simp add: ulp64_def power_int_minus field_simps)
  then show ?thesis by simp
next
  case False
  then have e: "exponent64 x = \<lfloor>log 2 \<bar>x\<bar>\<rfloor>"
    by (simp add: exponent64_def)
  have "ulp64 x = 2 powi \<lfloor>log 2 \<bar>x\<bar>\<rfloor> / 2 ^ 52"
    by (simp add: ulp64_def e power_int_diff)
  also have "\<dots> \<le> \<bar>x\<bar> / 2 ^ 52"
    using floor_log_bounds(1) [OF x] by (simp add: divide_right_mono)
  finally show ?thesis by simp
qed

lemma round64_bound: "\<bar>round64 x - x\<bar> \<le> \<bar>x\<bar> / 2 ^ 53 + 1 / 2 ^ 1075"
proof (cases "x = 0")
  case True
  then show ?thesis by (simp add: round64_def)
next
  case False
  have "ulp64 x / 2 \<le> (\<bar>x\<bar> / 2 ^ 52 + 1 / 2 ^ 1074) / 2"
    using ulp64_bound [OF False] by (rule divide_right_mono) simp
  with round64_error [of x]
  have "\<bar>round64 x - x\<bar> \<le> (\<bar>x\<bar> / 2 ^ 52 + 1 / 2 ^ 1074) / 2"
    by (rule order_trans)
  also have "\<dots> = \<bar>x\<bar> / 2 ^ 53 + 1 / 2 ^ 1075"
    by (simp add: field_simps)
  finally show ?thesis .
qed

text \<open>A step whose three operations are off by the relative error \<open>u\<close> and the absolute
  error \<open>h\<close> at most brings the value closer to the target by the factor \<open>1 - s / 2\<close>,
  up to an error of the size of the rounding of the target.\<close>

lemma step_contracts:
  fixes u h s c t d p r :: real
  assumes u: "0 \<le> u" and h: "0 \<le> h" and s: "8 * u \<le> s" "s \<le> 1"
    and e1: "\<bar>d - (t - c)\<bar> \<le> u * \<bar>t - c\<bar> + h"
    and e2: "\<bar>p - d * s\<bar> \<le> u * \<bar>d * s\<bar> + h"
    and e3: "\<bar>r - (c + p)\<bar> \<le> u * \<bar>c + p\<bar> + h"
  shows "\<bar>r - t\<bar> \<le> (1 - s / 2) * \<bar>c - t\<bar> + u * \<bar>t\<bar> + 4 * h"
proof -
  define D where "D = \<bar>c - t\<bar>"
  define E1 where "E1 = u * D + h"
  define E2 where "E2 = u * ((1 + u) * D + h) + h"
  define A where "A = (1 - s) * D + E1 + E2"
  have D: "0 \<le> D" by (simp add: D_def)
  have s0: "0 \<le> s" using u s by linarith
  have u8: "u \<le> 1 / 8" using s by linarith
  have tc: "\<bar>t - c\<bar> = D" by (simp add: D_def abs_minus_commute)
  have b1: "\<bar>d - (t - c)\<bar> \<le> E1" using e1 by (simp add: tc E1_def)
  have "\<bar>d\<bar> \<le> \<bar>t - c\<bar> + \<bar>d - (t - c)\<bar>" by linarith
  with b1 have d: "\<bar>d\<bar> \<le> (1 + u) * D + h"
    by (simp add: tc E1_def algebra_simps)
  have "\<bar>d * s\<bar> = \<bar>d\<bar> * s" using s0 by (simp add: abs_mult)
  also have "\<dots> \<le> \<bar>d\<bar> * 1" using s by (intro mult_left_mono) simp_all
  finally have ds: "\<bar>d * s\<bar> \<le> (1 + u) * D + h" using d by simp
  have "u * \<bar>d * s\<bar> \<le> u * ((1 + u) * D + h)"
    using ds u by (rule mult_left_mono)
  with e2 have b2: "\<bar>p - d * s\<bar> \<le> E2" by (simp add: E2_def)
  have "s * \<bar>d - (t - c)\<bar> \<le> 1 * E1"
    using b1 s s0 by (intro mult_mono) simp_all
  then have sb1: "\<bar>s * (d - (t - c))\<bar> \<le> E1" using s0 by (simp add: abs_mult)
  have split: "c + p - t = (1 - s) * (c - t) + s * (d - (t - c)) + (p - d * s)"
    by (simp add: algebra_simps)
  have "\<bar>(1 - s) * (c - t)\<bar> = (1 - s) * D"
    using s by (simp add: abs_mult D_def)
  with sb1 b2 have a: "\<bar>c + p - t\<bar> \<le> A"
    unfolding split A_def by linarith
  have "\<bar>c + p\<bar> \<le> \<bar>t\<bar> + \<bar>c + p - t\<bar>" by linarith
  with a have cp: "\<bar>c + p\<bar> \<le> \<bar>t\<bar> + A" by linarith
  have "u * \<bar>c + p\<bar> \<le> u * (\<bar>t\<bar> + A)" using cp u by (rule mult_left_mono)
  with e3 have b3: "\<bar>r - (c + p)\<bar> \<le> u * \<bar>t\<bar> + u * A + h" by (simp add: algebra_simps)
  have "\<bar>r - t\<bar> \<le> \<bar>r - (c + p)\<bar> + \<bar>c + p - t\<bar>" by linarith
  with b3 a have r: "\<bar>r - t\<bar> \<le> (1 + u) * A + u * \<bar>t\<bar> + h"
    by (simp add: algebra_simps)
  have uu: "u * u \<le> u / 8" using mult_left_mono [OF u8 u] by simp
  have uuu: "u * u * u \<le> u / 64"
    using mult_left_mono [OF uu u] uu u by (simp add: algebra_simps)
  have us: "0 \<le> u * s" using u s0 by simp
  have A: "A = (1 - s + 2 * u + u * u) * D + (2 + u) * h"
    by (simp add: A_def E1_def E2_def algebra_simps)
  have k: "(1 + u) * (1 - s + 2 * u + u * u) \<le> 1 - s / 2"
  proof -
    have "(1 + u) * (1 - s + 2 * u + u * u) = 1 - s + 3 * u + 3 * (u * u) + u * u * u - u * s"
      by (simp add: algebra_simps)
    also have "\<dots> \<le> 1 - s + 4 * u" using uu uuu us u by linarith
    also have "\<dots> \<le> 1 - s / 2" using s by linarith
    finally show ?thesis .
  qed
  have k': "(1 + u) * (2 + u) \<le> 3"
  proof -
    have "(1 + u) * (2 + u) = 2 + 3 * u + u * u" by (simp add: algebra_simps)
    also have "\<dots> \<le> 3" using uu u8 u by linarith
    finally show ?thesis .
  qed
  have "(1 + u) * A = (1 + u) * (1 - s + 2 * u + u * u) * D + (1 + u) * (2 + u) * h"
    by (simp add: A algebra_simps)
  also have "\<dots> \<le> (1 - s / 2) * D + 3 * h"
    using mult_right_mono [OF k D] mult_right_mono [OF k' h] by linarith
  finally have "(1 + u) * A \<le> (1 - s / 2) * D + 3 * h" .
  with r show ?thesis unfolding D_def by linarith
qed

text \<open>A step on values of moderate size overflows nowhere.\<close>

lemma round64_magnitude:
  assumes "\<bar>x\<bar> \<le> 2 ^ k"
  shows "\<bar>round64 x\<bar> \<le> 2 ^ (k + 2)"
proof -
  have "\<bar>x\<bar> / 2 ^ 53 \<le> \<bar>x\<bar>"
    by (simp add: divide_le_eq)
  moreover have "(1::real) / 2 ^ 1075 \<le> 1"
    by (simp add: divide_le_eq)
  moreover have "\<bar>round64 x\<bar> \<le> \<bar>x\<bar> + \<bar>round64 x - x\<bar>" by linarith
  ultimately have "\<bar>round64 x\<bar> \<le> 2 * \<bar>x\<bar> + 1"
    using round64_bound [of x] by linarith
  moreover have "(1::real) \<le> 2 ^ k" by simp
  ultimately have "\<bar>round64 x\<bar> \<le> 4 * 2 ^ k" using assms by linarith
  then show ?thesis by (simp add: power_add)
qed

lemma binary64_in_range:
  assumes "\<bar>x\<bar> \<le> 2 ^ k" and "k + 2 < 1024"
  shows "binary64 x = Some (round64 x)"
proof -
  have "(2::real) ^ (k + 2) < 2 ^ 1024"
    using assms(2) by (intro power_strict_increasing) simp_all
  with round64_magnitude [OF assms(1)] have "\<bar>round64 x\<bar> < 2 ^ 1024" by linarith
  then show ?thesis by (simp add: binary64_def)
qed

lemma lerp64_in_range:
  assumes t: "\<bar>t\<bar> \<le> 2 ^ 1000" and c: "\<bar>c - t\<bar> \<le> 2 ^ 1002" and s: "0 \<le> s" "s \<le> 1"
  shows "lerp64 c t s = Some (round64 (c + round64 (round64 (t - c) * s)))"
proof -
  let ?d = "round64 (t - c)"
  let ?p = "round64 (?d * s)"
  have 1: "\<bar>t - c\<bar> \<le> 2 ^ 1002" using c by (simp add: abs_minus_commute)
  then have d: "binary64 (t - c) = Some ?d" by (rule binary64_in_range) simp
  have dm: "\<bar>?d\<bar> \<le> 2 ^ 1004" using round64_magnitude [OF 1] by simp
  have "\<bar>?d * s\<bar> = \<bar>?d\<bar> * s" using s by (simp add: abs_mult)
  also have "\<dots> \<le> \<bar>?d\<bar> * 1" using s by (intro mult_left_mono) simp_all
  finally have 2: "\<bar>?d * s\<bar> \<le> 2 ^ 1004" using dm by simp
  then have p: "binary64 (?d * s) = Some ?p" by (rule binary64_in_range) simp
  have pm: "\<bar>?p\<bar> \<le> 2 ^ 1006" using round64_magnitude [OF 2] by simp
  have "\<bar>c + ?p\<bar> \<le> \<bar>t\<bar> + \<bar>c - t\<bar> + \<bar>?p\<bar>" by linarith
  also have "\<dots> \<le> 2 ^ 1000 + 2 ^ 1002 + 2 ^ 1006" using t c pm by linarith
  also have "\<dots> \<le> (2::real) ^ 1007" by simp
  finally have 3: "\<bar>c + ?p\<bar> \<le> 2 ^ 1007" .
  then have "binary64 (c + ?p) = Some (round64 (c + ?p))" by (rule binary64_in_range) simp
  then show ?thesis by (simp add: lerp64_def d p)
qed

lemma lerp64_contracts:
  assumes s: "1 / 2 ^ 50 \<le> s" "s \<le> 1" and t: "\<bar>t\<bar> \<le> 2 ^ 1000" and c: "\<bar>c - t\<bar> \<le> 2 ^ 1002"
  shows "\<exists>r. lerp64 c t s = Some r
    \<and> \<bar>r - t\<bar> \<le> (1 - s / 2) * \<bar>c - t\<bar> + (\<bar>t\<bar> / 2 ^ 53 + 4 / 2 ^ 1075)"
proof -
  define u :: real where "u = 1 / 2 ^ 53"
  define h :: real where "h = 1 / 2 ^ 1075"
  let ?d = "round64 (t - c)"
  let ?p = "round64 (?d * s)"
  let ?r = "round64 (c + ?p)"
  have s0: "0 \<le> s"
  proof -
    have "(0::real) \<le> 1 / 2 ^ 50" by simp
    from this s(1) show ?thesis by (rule order_trans)
  qed
  have u: "0 \<le> u" and h: "0 \<le> h" by (simp_all add: u_def h_def)
  have "8 * u = 1 / 2 ^ 50" by (simp add: u_def)
  with s(1) have su: "8 * u \<le> s" by simp
  have e: "\<bar>round64 x - x\<bar> \<le> u * \<bar>x\<bar> + h" for x
    using round64_bound [of x] by (simp add: u_def h_def)
  have "\<bar>?r - t\<bar> \<le> (1 - s / 2) * \<bar>c - t\<bar> + u * \<bar>t\<bar> + 4 * h"
    using u h su s(2) e [of "t - c"] e [of "?d * s"] e [of "c + ?p"] by (rule step_contracts)
  then have "\<bar>?r - t\<bar> \<le> (1 - s / 2) * \<bar>c - t\<bar> + (\<bar>t\<bar> / 2 ^ 53 + 4 / 2 ^ 1075)"
    by (simp add: u_def h_def)
  with lerp64_in_range [OF t c s0 s(2)] show ?thesis by simp
qed

lemma ticks64_contracts:
  assumes s: "1 / 2 ^ 50 \<le> s" "s \<le> 1" and t: "\<bar>t\<bar> \<le> 2 ^ 1000"
  shows "\<bar>c - t\<bar> \<le> 2 ^ 1002 \<Longrightarrow>
    \<exists>v. ticks64 n s t c = Some v \<and> \<bar>v - t\<bar> \<le> 2 ^ 1002
      \<and> \<bar>v - t\<bar> - (\<bar>t\<bar> / 2 ^ 52 + 1 / 2 ^ 1072) / s \<le>
          (1 - s / 2) ^ n * (\<bar>c - t\<bar> - (\<bar>t\<bar> / 2 ^ 52 + 1 / 2 ^ 1072) / s)"
proof (induction n arbitrary: c)
  case 0
  then show ?case by simp
next
  case (Suc n)
  define k where "k = \<bar>t\<bar> / 2 ^ 53 + 4 / 2 ^ 1075"
  define K where "K = (\<bar>t\<bar> / 2 ^ 52 + 1 / 2 ^ 1072) / s"
  define X :: real where "X = 2 ^ 1002"
  have s0: "0 < s"
  proof -
    have "(0::real) < 1 / 2 ^ 50" by simp
    from this s(1) show ?thesis by (rule less_le_trans)
  qed
  have kK: "k = s / 2 * K"
    using s0 by (simp add: k_def K_def field_simps)
  have "\<bar>t\<bar> / 2 ^ 53 \<le> 2 ^ 1000 / 2 ^ 53"
    using t by (rule divide_right_mono) simp
  moreover have "(4::real) / 2 ^ 1075 \<le> 2 ^ 1000 / 2 ^ 53" by simp
  ultimately have "k \<le> 2 * (2 ^ 1000 / 2 ^ 53)" unfolding k_def by linarith
  also have "\<dots> \<le> 1 / 2 ^ 50 / 2 * X" by (simp add: X_def)
  also have "\<dots> \<le> s / 2 * X"
    using s(1) by (intro mult_right_mono divide_right_mono) (simp_all add: X_def)
  finally have kX: "k \<le> s / 2 * X" .
  from lerp64_contracts [OF s t Suc.prems] obtain r where
    r: "lerp64 c t s = Some r" and b: "\<bar>r - t\<bar> \<le> (1 - s / 2) * \<bar>c - t\<bar> + k"
    unfolding k_def by blast
  have q: "0 \<le> 1 - s / 2" using s(2) by simp
  have "(1 - s / 2) * \<bar>c - t\<bar> \<le> (1 - s / 2) * X"
    using Suc.prems q unfolding X_def by (rule mult_left_mono)
  with b kX have rX: "\<bar>r - t\<bar> \<le> X" by (simp add: algebra_simps)
  from b have step: "\<bar>r - t\<bar> - K \<le> (1 - s / 2) * (\<bar>c - t\<bar> - K)"
    by (simp add: kK algebra_simps)
  from Suc.IH [of r] rX obtain v where
    v: "ticks64 n s t r = Some v" "\<bar>v - t\<bar> \<le> 2 ^ 1002"
    and d: "\<bar>v - t\<bar> - K \<le> (1 - s / 2) ^ n * (\<bar>r - t\<bar> - K)"
    unfolding X_def K_def by blast
  have "(1 - s / 2) ^ n * (\<bar>r - t\<bar> - K) \<le> (1 - s / 2) ^ n * ((1 - s / 2) * (\<bar>c - t\<bar> - K))"
    using step q by (intro mult_left_mono) simp_all
  with d have "\<bar>v - t\<bar> - K \<le> (1 - s / 2) ^ Suc n * (\<bar>c - t\<bar> - K)"
    by (simp add: mult.assoc mult.left_commute)
  with v r show ?case unfolding K_def by simp
qed

lemma geometric_below:
  fixes r d eps :: real
  assumes "0 \<le> r" "r < 1" "0 < eps"
  shows "\<exists>N. \<forall>n\<ge>N. r ^ n * \<bar>d\<bar> < eps"
proof -
  have "0 < eps / (\<bar>d\<bar> + 1)" using assms by simp
  from real_arch_pow_inv [OF this \<open>r < 1\<close>]
  obtain N where N: "r ^ N < eps / (\<bar>d\<bar> + 1)" ..
  have "r ^ n * \<bar>d\<bar> < eps" if "N \<le> n" for n
  proof -
    have "r ^ n \<le> r ^ N"
      using that assms by (simp add: power_decreasing)
    then have "r ^ n < eps / (\<bar>d\<bar> + 1)" using N by simp
    then have "r ^ n * (\<bar>d\<bar> + 1) < eps" by (simp add: pos_less_divide_eq)
    moreover have "r ^ n * \<bar>d\<bar> \<le> r ^ n * (\<bar>d\<bar> + 1)"
      using assms by (simp add: mult_left_mono)
    ultimately show ?thesis by simp
  qed
  then show ?thesis by blast
qed

lemma below_from:
  fixes q K d eps :: real
  assumes "0 \<le> q" "q < 1" "K < eps"
  shows "\<exists>N. \<forall>n\<ge>N. q ^ n * \<bar>d\<bar> + K < eps"
proof -
  from assms(3) have "0 < eps - K" by simp
  from geometric_below [OF assms(1,2) this, of d] obtain N where
    "\<forall>n\<ge>N. q ^ n * \<bar>d\<bar> < eps - K" by blast
  then have "\<forall>n\<ge>N. q ^ n * \<bar>d\<bar> + K < eps" by (simp add: less_diff_eq)
  then show ?thesis ..
qed

lemma ticks64_settles:
  assumes "1 / 2 ^ 50 \<le> s" and "s \<le> 1" and "\<bar>c\<bar> \<le> 2 ^ 1000" and "\<bar>t\<bar> \<le> 2 ^ 1000"
  shows "\<exists>v. ticks64 n s t c = Some v
            \<and> \<bar>v - t\<bar> \<le> (1 - s / 2) ^ n * \<bar>c - t\<bar> + (\<bar>t\<bar> / 2 ^ 52 + 1 / 2 ^ 1072) / s"
proof -
  define K where "K = (\<bar>t\<bar> / 2 ^ 52 + 1 / 2 ^ 1072) / s"
  define q where "q = 1 - s / 2"
  have s0: "0 < s"
  proof -
    have "(0::real) < 1 / 2 ^ 50" by simp
    from this assms(1) show ?thesis by (rule less_le_trans)
  qed
  have q: "0 \<le> q" using assms(2) by (simp add: q_def)
  have K: "0 \<le> K" using s0 by (simp add: K_def)
  have "\<bar>c - t\<bar> \<le> \<bar>c\<bar> + \<bar>t\<bar>" by linarith
  also have "\<dots> \<le> 2 ^ 1000 + 2 ^ 1000" using assms(3,4) by linarith
  also have "\<dots> \<le> (2::real) ^ 1002" by simp
  finally have D: "\<bar>c - t\<bar> \<le> 2 ^ 1002" .
  from ticks64_contracts [OF assms(1,2,4) D, of n] obtain v where
    v: "ticks64 n s t c = Some v" and d: "\<bar>v - t\<bar> - K \<le> q ^ n * (\<bar>c - t\<bar> - K)"
    unfolding K_def q_def by blast
  have "0 \<le> q ^ n * K" using q K by simp
  with d have "\<bar>v - t\<bar> \<le> q ^ n * \<bar>c - t\<bar> + K" by (simp add: algebra_simps)
  with v show ?thesis unfolding K_def q_def by blast
qed

text \<open>The three values of the instance go their ways apart.\<close>

lemma smooth64s_ticks64:
  "ticks64 n (smoothing (options p)) (targetScroll p) (scroll p) = Some a \<Longrightarrow>
   ticks64 n (smoothing (options p)) (targetMouse_x p) (mouse_x p) = Some b \<Longrightarrow>
   ticks64 n (smoothing (options p)) (targetMouse_y p) (mouse_y p) = Some c \<Longrightarrow>
   smooth64s n p = Some (p\<lparr>scroll := a, mouse_x := b, mouse_y := c\<rparr>)"
proof (induction n arbitrary: p)
  case 0
  then show ?case by simp
next
  case (Suc n)
  let ?s = "smoothing (options p)"
  from Suc.prems(1) obtain a1 where
    a: "lerp64 (scroll p) (targetScroll p) ?s = Some a1" "ticks64 n ?s (targetScroll p) a1 = Some a"
    by (auto split: option.splits)
  from Suc.prems(2) obtain b1 where
    b: "lerp64 (mouse_x p) (targetMouse_x p) ?s = Some b1" "ticks64 n ?s (targetMouse_x p) b1 = Some b"
    by (auto split: option.splits)
  from Suc.prems(3) obtain c1 where
    c: "lerp64 (mouse_y p) (targetMouse_y p) ?s = Some c1" "ticks64 n ?s (targetMouse_y p) c1 = Some c"
    by (auto split: option.splits)
  let ?p = "p\<lparr>scroll := a1, mouse_x := b1, mouse_y := c1\<rparr>"
  have 1: "smooth64 p = Some ?p" by (simp add: smooth64_def a b c)
  have "smooth64s n ?p = Some (?p\<lparr>scroll := a, mouse_x := b, mouse_y := c\<rparr>)"
    by (rule Suc.IH) (simp_all add: a b c)
  with 1 show ?case by simp
qed

lemma smooth64s_settles:
  assumes p: "smoothing (options p) = s" and s: "1 / 2 ^ 50 \<le> s" "s \<le> 1"
    and sc: "\<bar>scroll p\<bar> \<le> 2 ^ 1000" "\<bar>targetScroll p\<bar> \<le> 2 ^ 1000"
    and mx: "\<bar>mouse_x p\<bar> \<le> 2 ^ 1000" "\<bar>targetMouse_x p\<bar> \<le> 2 ^ 1000"
    and my: "\<bar>mouse_y p\<bar> \<le> 2 ^ 1000" "\<bar>targetMouse_y p\<bar> \<le> 2 ^ 1000"
  shows "\<exists>q. smooth64s n p = Some q
    \<and> \<bar>scroll q - targetScroll p\<bar> \<le>
        (1 - s / 2) ^ n * \<bar>scroll p - targetScroll p\<bar>
        + (\<bar>targetScroll p\<bar> / 2 ^ 52 + 1 / 2 ^ 1072) / s
    \<and> \<bar>mouse_x q - targetMouse_x p\<bar> \<le>
        (1 - s / 2) ^ n * \<bar>mouse_x p - targetMouse_x p\<bar>
        + (\<bar>targetMouse_x p\<bar> / 2 ^ 52 + 1 / 2 ^ 1072) / s
    \<and> \<bar>mouse_y q - targetMouse_y p\<bar> \<le>
        (1 - s / 2) ^ n * \<bar>mouse_y p - targetMouse_y p\<bar>
        + (\<bar>targetMouse_y p\<bar> / 2 ^ 52 + 1 / 2 ^ 1072) / s"
proof -
  define K where "K t = (\<bar>t\<bar> / 2 ^ 52 + 1 / 2 ^ 1072) / s" for t :: real
  have T: "\<exists>v. ticks64 n s t c = Some v \<and> \<bar>v - t\<bar> \<le> (1 - s / 2) ^ n * \<bar>c - t\<bar> + K t"
    if "\<bar>c\<bar> \<le> 2 ^ 1000" and "\<bar>t\<bar> \<le> 2 ^ 1000" for c t
    unfolding K_def using s that by (rule ticks64_settles)
  obtain a where a: "ticks64 n s (targetScroll p) (scroll p) = Some a"
    "\<bar>a - targetScroll p\<bar> \<le> (1 - s / 2) ^ n * \<bar>scroll p - targetScroll p\<bar> + K (targetScroll p)"
    using T [OF sc] by (elim exE conjE)
  obtain b where b: "ticks64 n s (targetMouse_x p) (mouse_x p) = Some b"
    "\<bar>b - targetMouse_x p\<bar> \<le> (1 - s / 2) ^ n * \<bar>mouse_x p - targetMouse_x p\<bar> + K (targetMouse_x p)"
    using T [OF mx] by (elim exE conjE)
  obtain c where c: "ticks64 n s (targetMouse_y p) (mouse_y p) = Some c"
    "\<bar>c - targetMouse_y p\<bar> \<le> (1 - s / 2) ^ n * \<bar>mouse_y p - targetMouse_y p\<bar> + K (targetMouse_y p)"
    using T [OF my] by (elim exE conjE)
  let ?q = "p\<lparr>scroll := a, mouse_x := b, mouse_y := c\<rparr>"
  have q: "smooth64s n p = Some ?q"
    using a(1) b(1) c(1) unfolding p [symmetric] by (rule smooth64s_ticks64)
  have f: "scroll ?q = a" "mouse_x ?q = b" "mouse_y ?q = c" by simp_all
  have "smooth64s n p = Some ?q
    \<and> \<bar>scroll ?q - targetScroll p\<bar> \<le>
        (1 - s / 2) ^ n * \<bar>scroll p - targetScroll p\<bar> + K (targetScroll p)
    \<and> \<bar>mouse_x ?q - targetMouse_x p\<bar> \<le>
        (1 - s / 2) ^ n * \<bar>mouse_x p - targetMouse_x p\<bar> + K (targetMouse_x p)
    \<and> \<bar>mouse_y ?q - targetMouse_y p\<bar> \<le>
        (1 - s / 2) ^ n * \<bar>mouse_y p - targetMouse_y p\<bar> + K (targetMouse_y p)"
    unfolding f using q a(2) b(2) c(2) by (intro conjI)
  then show ?thesis unfolding K_def by (rule exI)
qed

text \<open>
  Claim C8, as amended for the binary64 arithmetic of the program. With a smoothing
  factor \<open>s\<close> from \<open>2 powi (- 50)\<close> to 1, and values and targets of a magnitude up to
  \<open>2 ^ 1000\<close>, the smoothing steps with targets that stay fixed never leave the finite
  numbers; after \<open>n\<close> of them the distance of each tracked value from its target is
  at most \<open>(1 - s / 2) ^ n\<close> times the initial distance plus the rounding radius
  \<open>(\<bar>target\<bar> / 2 ^ 52 + 1 / 2 ^ 1072) / s\<close>; and for every \<open>eps\<close> above the rounding radii
  all three values are within \<open>eps\<close> of their targets from some tick on.
\<close>

theorem smoothing_settles:
  assumes "smoothing (options p) = s" and "1 / 2 ^ 50 \<le> s" and "s \<le> 1"
    and "\<bar>scroll p\<bar> \<le> 2 ^ 1000" and "\<bar>targetScroll p\<bar> \<le> 2 ^ 1000"
    and "\<bar>mouse_x p\<bar> \<le> 2 ^ 1000" and "\<bar>targetMouse_x p\<bar> \<le> 2 ^ 1000"
    and "\<bar>mouse_y p\<bar> \<le> 2 ^ 1000" and "\<bar>targetMouse_y p\<bar> \<le> 2 ^ 1000"
  shows "(\<forall>n. \<exists>q. smooth64s n p = Some q
            \<and> \<bar>scroll q - targetScroll p\<bar> \<le>
                (1 - s / 2) ^ n * \<bar>scroll p - targetScroll p\<bar>
                + (\<bar>targetScroll p\<bar> / 2 ^ 52 + 1 / 2 ^ 1072) / s
            \<and> \<bar>mouse_x q - targetMouse_x p\<bar> \<le>
                (1 - s / 2) ^ n * \<bar>mouse_x p - targetMouse_x p\<bar>
                + (\<bar>targetMouse_x p\<bar> / 2 ^ 52 + 1 / 2 ^ 1072) / s
            \<and> \<bar>mouse_y q - targetMouse_y p\<bar> \<le>
                (1 - s / 2) ^ n * \<bar>mouse_y p - targetMouse_y p\<bar>
                + (\<bar>targetMouse_y p\<bar> / 2 ^ 52 + 1 / 2 ^ 1072) / s)
    \<and> (\<forall>eps. (\<bar>targetScroll p\<bar> / 2 ^ 52 + 1 / 2 ^ 1072) / s < eps
             \<and> (\<bar>targetMouse_x p\<bar> / 2 ^ 52 + 1 / 2 ^ 1072) / s < eps
             \<and> (\<bar>targetMouse_y p\<bar> / 2 ^ 52 + 1 / 2 ^ 1072) / s < eps \<longrightarrow>
          (\<exists>N. \<forall>n\<ge>N. \<exists>q. smooth64s n p = Some q
              \<and> \<bar>scroll q - targetScroll p\<bar> < eps
              \<and> \<bar>mouse_x q - targetMouse_x p\<bar> < eps
              \<and> \<bar>mouse_y q - targetMouse_y p\<bar> < eps))"
proof (intro conjI allI impI)
  fix n
  show "\<exists>q. smooth64s n p = Some q
            \<and> \<bar>scroll q - targetScroll p\<bar> \<le>
                (1 - s / 2) ^ n * \<bar>scroll p - targetScroll p\<bar>
                + (\<bar>targetScroll p\<bar> / 2 ^ 52 + 1 / 2 ^ 1072) / s
            \<and> \<bar>mouse_x q - targetMouse_x p\<bar> \<le>
                (1 - s / 2) ^ n * \<bar>mouse_x p - targetMouse_x p\<bar>
                + (\<bar>targetMouse_x p\<bar> / 2 ^ 52 + 1 / 2 ^ 1072) / s
            \<and> \<bar>mouse_y q - targetMouse_y p\<bar> \<le>
                (1 - s / 2) ^ n * \<bar>mouse_y p - targetMouse_y p\<bar>
                + (\<bar>targetMouse_y p\<bar> / 2 ^ 52 + 1 / 2 ^ 1072) / s"
    using assms by (rule smooth64s_settles)
next
  fix eps
  define K1 where "K1 = (\<bar>targetScroll p\<bar> / 2 ^ 52 + 1 / 2 ^ 1072) / s"
  define K2 where "K2 = (\<bar>targetMouse_x p\<bar> / 2 ^ 52 + 1 / 2 ^ 1072) / s"
  define K3 where "K3 = (\<bar>targetMouse_y p\<bar> / 2 ^ 52 + 1 / 2 ^ 1072) / s"
  define r where "r = 1 - s / 2"
  assume "(\<bar>targetScroll p\<bar> / 2 ^ 52 + 1 / 2 ^ 1072) / s < eps
             \<and> (\<bar>targetMouse_x p\<bar> / 2 ^ 52 + 1 / 2 ^ 1072) / s < eps
             \<and> (\<bar>targetMouse_y p\<bar> / 2 ^ 52 + 1 / 2 ^ 1072) / s < eps"
  then have e: "K1 < eps" "K2 < eps" "K3 < eps" by (simp_all add: K1_def K2_def K3_def)
  have s0: "0 < s"
  proof -
    have "(0::real) < 1 / 2 ^ 50" by simp
    from this assms(2) show ?thesis by (rule less_le_trans)
  qed
  have r: "0 \<le> r" "r < 1" using s0 assms(3) by (simp_all add: r_def)
  from below_from [OF r e(1)] obtain N1 where
    N1: "\<forall>n\<ge>N1. r ^ n * \<bar>scroll p - targetScroll p\<bar> + K1 < eps" by blast
  from below_from [OF r e(2)] obtain N2 where
    N2: "\<forall>n\<ge>N2. r ^ n * \<bar>mouse_x p - targetMouse_x p\<bar> + K2 < eps" by blast
  from below_from [OF r e(3)] obtain N3 where
    N3: "\<forall>n\<ge>N3. r ^ n * \<bar>mouse_y p - targetMouse_y p\<bar> + K3 < eps" by blast
  have "\<exists>q. smooth64s n p = Some q
              \<and> \<bar>scroll q - targetScroll p\<bar> < eps
              \<and> \<bar>mouse_x q - targetMouse_x p\<bar> < eps
              \<and> \<bar>mouse_y q - targetMouse_y p\<bar> < eps" if n: "max N1 (max N2 N3) \<le> n" for n
  proof -
    from smooth64s_settles [OF assms, of n] obtain q where
      q: "smooth64s n p = Some q"
        "\<bar>scroll q - targetScroll p\<bar> \<le> r ^ n * \<bar>scroll p - targetScroll p\<bar> + K1"
        "\<bar>mouse_x q - targetMouse_x p\<bar> \<le> r ^ n * \<bar>mouse_x p - targetMouse_x p\<bar> + K2"
        "\<bar>mouse_y q - targetMouse_y p\<bar> \<le> r ^ n * \<bar>mouse_y p - targetMouse_y p\<bar> + K3"
      unfolding K1_def K2_def K3_def r_def by blast
    from n N1 have "r ^ n * \<bar>scroll p - targetScroll p\<bar> + K1 < eps" by simp
    with q(2) have 1: "\<bar>scroll q - targetScroll p\<bar> < eps" by (rule le_less_trans)
    from n N2 have "r ^ n * \<bar>mouse_x p - targetMouse_x p\<bar> + K2 < eps" by simp
    with q(3) have 2: "\<bar>mouse_x q - targetMouse_x p\<bar> < eps" by (rule le_less_trans)
    from n N3 have "r ^ n * \<bar>mouse_y p - targetMouse_y p\<bar> + K3 < eps" by simp
    with q(4) have 3: "\<bar>mouse_y q - targetMouse_y p\<bar> < eps" by (rule le_less_trans)
    from q(1) 1 2 3 show ?thesis by blast
  qed
  then show "\<exists>N. \<forall>n\<ge>N. \<exists>q. smooth64s n p = Some q
              \<and> \<bar>scroll q - targetScroll p\<bar> < eps
              \<and> \<bar>mouse_x q - targetMouse_x p\<bar> < eps
              \<and> \<bar>mouse_y q - targetMouse_y p\<bar> < eps" by blast
qed

text \<open>With the smoothing \<open>1 / 2\<close> and the scroll target 100 approached from 0, the
  rounding radius is below a thousandth, and so are the distances from some tick
  on.\<close>

theorem smoothing_settles_witness:
  "smoothing (options halfParallax) = 1 / 2 \<and> (1::real) / 2 ^ 50 \<le> 1 / 2 \<and> (1::real) / 2 \<le> 1
   \<and> scroll halfParallax = 0 \<and> targetScroll halfParallax = 100
   \<and> mouse_x halfParallax = 0 \<and> targetMouse_x halfParallax = 0
   \<and> mouse_y halfParallax = 0 \<and> targetMouse_y halfParallax = 0
   \<and> (\<bar>100::real\<bar> / 2 ^ 52 + 1 / 2 ^ 1072) / (1 / 2) < 1 / 1000
   \<and> (\<bar>0::real\<bar> / 2 ^ 52 + 1 / 2 ^ 1072) / (1 / 2) < 1 / 1000
   \<and> (\<exists>N. \<forall>n\<ge>N. \<exists>q. smooth64s n halfParallax = Some q
          \<and> \<bar>scroll q - 100\<bar> < 1 / 1000 \<and> \<bar>mouse_x q - 0\<bar> < 1 / 1000
          \<and> \<bar>mouse_y q - 0\<bar> < 1 / 1000)"
proof -
  have f: "smoothing (options halfParallax) = 1 / 2"
    "scroll halfParallax = 0" "targetScroll halfParallax = 100"
    "mouse_x halfParallax = 0" "targetMouse_x halfParallax = 0"
    "mouse_y halfParallax = 0" "targetMouse_y halfParallax = 0"
    by (simp_all add: halfParallax_def jumpParallax_def exampleParallax_def)
  have s: "(1::real) / 2 ^ 50 \<le> 1 / 2" "(1::real) / 2 \<le> 1" by simp_all
  have m: "\<bar>scroll halfParallax\<bar> \<le> 2 ^ 1000" "\<bar>targetScroll halfParallax\<bar> \<le> 2 ^ 1000"
    "\<bar>mouse_x halfParallax\<bar> \<le> 2 ^ 1000" "\<bar>targetMouse_x halfParallax\<bar> \<le> 2 ^ 1000"
    "\<bar>mouse_y halfParallax\<bar> \<le> 2 ^ 1000" "\<bar>targetMouse_y halfParallax\<bar> \<le> 2 ^ 1000"
    by (simp_all add: f)
  have e: "(\<bar>100::real\<bar> / 2 ^ 52 + 1 / 2 ^ 1072) / (1 / 2) < 1 / 1000"
    "(\<bar>0::real\<bar> / 2 ^ 52 + 1 / 2 ^ 1072) / (1 / 2) < 1 / 1000"
    by simp_all
  note t = smoothing_settles [OF f(1) s m, THEN conjunct2, THEN spec, of "1 / 1000"]
  have "\<exists>N. \<forall>n\<ge>N. \<exists>q. smooth64s n halfParallax = Some q
          \<and> \<bar>scroll q - 100\<bar> < 1 / 1000 \<and> \<bar>mouse_x q - 0\<bar> < 1 / 1000
          \<and> \<bar>mouse_y q - 0\<bar> < 1 / 1000"
    using t e unfolding f by (elim impE) (intro conjI)
  with f s e show ?thesis by (intro conjI)
qed

text \<open>The values of the rounding where the examples need them.\<close>

lemma exponent64_eq:
  assumes "2 powi k \<le> \<bar>x\<bar>" and "\<bar>x\<bar> < 2 powi (k + 1)" and "- 1022 \<le> k"
  shows "exponent64 x = k"
proof -
  have "(0::real) < 2 powi k" by simp
  with assms(1) have "0 < \<bar>x\<bar>" by linarith
  moreover have "2 powr (real_of_int k + 1) = (2::real) powi (k + 1)"
    using powr_powi [of "k + 1"] by simp
  ultimately have "\<lfloor>log 2 \<bar>x\<bar>\<rfloor> = k"
    using assms(1,2) floor_log_eq_powr_iff [of "\<bar>x\<bar>" 2 k] by (simp add: powr_powi)
  with assms(3) show ?thesis by (simp add: exponent64_def)
qed

lemma roundEven_near: "0 \<le> f \<Longrightarrow> f < 1 / 2 \<Longrightarrow> roundEven (of_int n + f) = n"
proof -
  assume f: "0 \<le> f" "f < 1 / 2"
  then have "\<lfloor>of_int n + f\<rfloor> = n" by (intro floor_unique) simp_all
  with f show ?thesis by (simp add: roundEven_def Let_def)
qed

lemma roundEven_tie: "even n \<Longrightarrow> roundEven (of_int n + 1 / 2) = n"
proof -
  assume e: "even n"
  have "\<lfloor>of_int n + (1 / 2 :: real)\<rfloor> = n" by (intro floor_unique) simp_all
  with e show ?thesis by (simp add: roundEven_def Let_def)
qed

lemma round64_nonneg: "0 \<le> x \<Longrightarrow> 0 \<le> round64 x"
  using ulp64_pos [of x] roundEven_nonneg [of "x / ulp64 x"]
  by (simp add: round64_def)

lemma round64_powi:
  assumes "- 1022 \<le> k"
  shows "round64 (2 powi k) = 2 powi k"
proof -
  have e: "exponent64 (2 powi k) = k"
    using assms by (intro exponent64_eq) (simp_all add: power_int_add)
  have "(2::real) powi k / 2 powi (k - 52) = 2 powi 52"
    by (simp add: power_int_diff)
  also have "\<dots> = of_int (2 ^ 52)" by simp
  finally have "roundEven (2 powi k / ulp64 (2 powi k)) = 2 ^ 52"
    using roundEven_near [of 0 "2 ^ 52"] by (simp add: ulp64_def e)
  then show ?thesis
    by (simp add: round64_def ulp64_def e power_int_diff)
qed

lemma round64_near_one:
  assumes "0 \<le> p" and "p < 1 / 2 ^ 53"
  shows "round64 (1 + p) = 1"
proof -
  have "(1::real) / 2 ^ 53 \<le> 1 / 2" by simp
  with assms(2) have p1: "p < 1 / 2" by linarith
  have e: "exponent64 (1 + p) = 0"
    using assms(1) p1 by (intro exponent64_eq) simp_all
  have u: "ulp64 (1 + p) = 1 / 2 ^ 52"
    by (simp add: ulp64_def e power_int_minus field_simps)
  have "p * 2 ^ 52 < 1 / 2 ^ 53 * 2 ^ 52"
    using assms(2) by (intro mult_strict_right_mono) simp_all
  also have "\<dots> = (1::real) / 2" by simp
  finally have f: "p * 2 ^ 52 < 1 / 2" .
  have "(1 + p) / ulp64 (1 + p) = of_int (2 ^ 52) + p * 2 ^ 52"
    by (simp add: u algebra_simps)
  then have "roundEven ((1 + p) / ulp64 (1 + p)) = 2 ^ 52"
    using roundEven_near [OF _ f, of "2 ^ 52"] assms(1) by simp
  moreover have "1 + p \<noteq> 0" using assms(1) by linarith
  ultimately show ?thesis by (simp add: round64_def u)
qed

lemma round64_tie_at_one:
  assumes x: "x = 1 + 1 / 2 ^ 53"
  shows "round64 x = 1"
proof -
  have b: "1 \<le> \<bar>x\<bar>" "\<bar>x\<bar> < 2" "x \<noteq> 0" by (simp_all add: x)
  have e: "exponent64 x = 0"
    using b by (intro exponent64_eq) simp_all
  have u: "ulp64 x = 1 / 2 ^ 52"
    by (simp add: ulp64_def e power_int_minus field_simps)
  have "x / ulp64 x = x * 2 ^ 52"
    by (simp add: u)
  also have "\<dots> = of_int (2 ^ 52) + 1 / 2"
    by (simp add: x)
  finally have q: "x / ulp64 x = of_int (2 ^ 52) + 1 / 2" .
  have "roundEven (x / ulp64 x) = 2 ^ 52"
    unfolding q by (rule roundEven_tie) simp
  with b(3) show ?thesis by (simp add: round64_def u)
qed

lemma round64_representable:
  assumes "2 powi k \<le> \<bar>x\<bar>" and "\<bar>x\<bar> < 2 powi (k + 1)" and "- 1022 \<le> k"
    and "x = 2 powi (k - 52) * of_int m"
  shows "round64 x = x"
proof -
  have e: "exponent64 x = k" using assms(1,2,3) by (rule exponent64_eq)
  have u: "ulp64 x = 2 powi (k - 52)" by (simp add: ulp64_def e)
  have "x / ulp64 x = of_int m + 0" unfolding u by (subst assms(4)) simp
  then have r: "roundEven (x / ulp64 x) = m"
    using roundEven_near [of 0 m] by simp
  have r': "roundEven (x / 2 powi (k - 52)) = m" using r by (simp only: u)
  have "round64 x = (if x = 0 then 0 else 2 powi (k - 52) * of_int m)"
    by (simp only: round64_def u r')
  also have "\<dots> = x" using assms(4) by simp
  finally show ?thesis .
qed

lemma round64_examples:
  "round64 100 = 100" "round64 50 = 50" "round64 25 = 25" "round64 75 = 75"
proof -
  show "round64 100 = 100"
    by (rule round64_representable [where k = 6 and m = "100 * 2 ^ 46"])
       (simp_all add: power_int_minus)
  show "round64 50 = 50"
    by (rule round64_representable [where k = 5 and m = "50 * 2 ^ 47"])
       (simp_all add: power_int_minus)
  show "round64 25 = 25"
    by (rule round64_representable [where k = 4 and m = "25 * 2 ^ 48"])
       (simp_all add: power_int_minus)
  show "round64 75 = 75"
    by (rule round64_representable [where k = 6 and m = "75 * 2 ^ 46"])
       (simp_all add: power_int_minus)
qed

lemma binary64_examples:
  "binary64 100 = Some 100" "binary64 50 = Some 50" "binary64 25 = Some 25"
  "binary64 75 = Some 75"
  by (simp_all add: binary64_def round64_examples)

lemma binary64_zero: "binary64 0 = Some 0"
  by (simp add: binary64_def round64_def)

lemma binary64_small: "\<bar>x\<bar> \<le> 1 \<Longrightarrow> binary64 x = Some (round64 x)"
  using binary64_in_range [of x 0] by simp

text \<open>From 0 towards 100 with the smoothing \<open>1 / 2\<close>, the scroll value is 50 after one
  tick and 75 after two; a value at its target 0 rests there.\<close>

lemma ticks64_example: "ticks64 2 (1 / 2) 100 0 = Some 75"
  by (simp add: numeral_2_eq_2 lerp64_def binary64_examples)

lemma lerp64_rest: "lerp64 0 0 s = Some 0"
  by (simp add: lerp64_def binary64_zero)

lemma ticks64_rest: "ticks64 n s 0 0 = Some 0"
  by (induction n) (simp_all add: lerp64_rest)

lemma smooth64s_example:
  "map_option scroll (smooth64s 2 halfParallax) = Some 75"
proof -
  have f: "smoothing (options halfParallax) = 1 / 2"
    "scroll halfParallax = 0" "targetScroll halfParallax = 100"
    "mouse_x halfParallax = 0" "targetMouse_x halfParallax = 0"
    "mouse_y halfParallax = 0" "targetMouse_y halfParallax = 0"
    by (simp_all add: halfParallax_def jumpParallax_def exampleParallax_def)
  have "smooth64s 2 halfParallax = Some (halfParallax\<lparr>scroll := 75, mouse_x := 0, mouse_y := 0\<rparr>)"
    by (rule smooth64s_ticks64) (simp_all only: f ticks64_example ticks64_rest)
  then show ?thesis by simp
qed

text \<open>With the smoothing \<^verbatim>\<open>1e-17\<close>, the step from 1 towards 2 adds less than half a
  unit in the last place of 1, and the sum is rounded back to 1.\<close>

lemma literal17_bounds: "0 < literal17" "literal17 \<le> 2 / 10 ^ 17"
proof -
  define x :: real where "x = 1 / 10 ^ 17"
  have x: "0 < x" by (simp add: x_def)
  have "\<bar>x\<bar> / 2 ^ 53 + 1 / 2 ^ 1075 \<le> x / 2"
    by (simp add: x_def)
  with round64_bound [of x] have "\<bar>round64 x - x\<bar> \<le> x / 2" by (rule order_trans)
  then have "x / 2 \<le> round64 x" "round64 x \<le> 2 * x" using x by linarith+
  with x show "0 < literal17" "literal17 \<le> 2 / 10 ^ 17"
    by (simp_all add: literal17_def x_def)
qed

lemma lerp64_never_moves: "lerp64 1 2 literal17 = Some 1"
proof -
  define p where "p = round64 (1 * literal17)"
  define e :: real where "e = 1 / 10 ^ 17"
  have e: "0 < e" "2 * e \<le> 1" "3 * e < 1 / 2 ^ 53" "2 * e / 2 ^ 53 + 1 / 2 ^ 1075 \<le> e"
    by (simp_all add: e_def)
  have l: "0 < literal17" "literal17 \<le> 2 * e"
    using literal17_bounds by (simp_all add: e_def)
  have one: "round64 1 = 1" using round64_near_one [of 0] by simp
  have d: "binary64 (2 - 1) = Some 1"
    using binary64_small [of 1] by (simp add: one)
  from l e(2) have l1: "\<bar>1 * literal17\<bar> \<le> 1" by linarith
  then have m: "binary64 (1 * literal17) = Some p"
    unfolding p_def by (rule binary64_small)
  have p0: "0 \<le> p" unfolding p_def using l(1) by (intro round64_nonneg) simp
  have "\<bar>literal17\<bar> / 2 ^ 53 \<le> 2 * e / 2 ^ 53"
    using l by (intro divide_right_mono) simp_all
  then have "\<bar>literal17\<bar> / 2 ^ 53 + 1 / 2 ^ 1075 \<le> 2 * e / 2 ^ 53 + 1 / 2 ^ 1075"
    by (rule add_right_mono)
  from this e(4) have "\<bar>literal17\<bar> / 2 ^ 53 + 1 / 2 ^ 1075 \<le> e"
    by (rule order_trans)
  with round64_bound [of literal17] have "\<bar>round64 literal17 - literal17\<bar> \<le> e"
    by (rule order_trans)
  then have "round64 literal17 \<le> 3 * e" using l(2) by linarith
  then have "p \<le> 3 * e" by (simp add: p_def)
  from this e(3) have p1: "p < 1 / 2 ^ 53" by (rule le_less_trans)
  have r: "round64 (1 + p) = 1" using p0 p1 by (rule round64_near_one)
  have "(1::real) / 2 ^ 53 \<le> 1" by simp
  with p0 p1 have "\<bar>1 + p\<bar> \<le> 2 ^ 1" by simp
  then have "binary64 (1 + p) = Some (round64 (1 + p))"
    by (rule binary64_in_range) simp
  with r show ?thesis by (simp only: lerp64_def d m option.case)
qed

lemma ticks64_never_move: "ticks64 n literal17 2 1 = Some 1"
  by (induction n) (simp_all add: lerp64_never_moves)

text \<open>With the smoothing \<open>1 / 2\<close>, the step from 1 towards the next binary64 value adds
  exactly half a unit in the last place of 1, and the tie goes back to 1.\<close>

lemma lerp64_stalls:
  assumes t: "t = 1 + 1 / 2 ^ 52"
  shows "lerp64 1 t (1 / 2) = Some 1"
proof -
  have 1: "t - 1 = 2 powi (- 52)"
    by (simp add: t power_int_minus inverse_eq_divide)
  have d: "binary64 (t - 1) = Some (2 powi (- 52))"
    using binary64_small [of "2 powi (- 52)"] round64_powi [of "- 52"]
    by (simp add: 1 power_int_minus inverse_eq_divide)
  have 2: "2 powi (- 52) * (1 / 2) = (2::real) powi (- 53)"
    by (simp add: power_int_minus inverse_eq_divide)
  have p: "binary64 (2 powi (- 52) * (1 / 2)) = Some (2 powi (- 53))"
    using binary64_small [of "2 powi (- 53)"] round64_powi [of "- 53"]
    by (simp add: 2 power_int_minus inverse_eq_divide)
  have 3: "1 + 2 powi (- 53) = 1 + (1::real) / 2 ^ 53"
    by (simp add: power_int_minus inverse_eq_divide)
  have r: "round64 (1 + 2 powi (- 53)) = 1"
    using 3 by (rule round64_tie_at_one)
  have "\<bar>1 + (2::real) powi (- 53)\<bar> \<le> 2 ^ 1"
    by (simp add: power_int_minus inverse_eq_divide)
  then have "binary64 (1 + 2 powi (- 53)) = Some (round64 (1 + 2 powi (- 53)))"
    by (rule binary64_in_range) simp
  with r show ?thesis by (simp only: lerp64_def d p option.case)
qed

lemma ticks64_stall: "ticks64 n (1 / 2) (1 + 1 / 2 ^ 52) 1 = Some 1"
  by (induction n) (simp_all add: lerp64_stalls)

text \<open>The difference of \<open>2 ^ 1023\<close> and \<open>- (2 ^ 1023)\<close> is not a finite binary64 value.\<close>

lemma lerp64_overflow:
  assumes "t - c = 2 ^ 1024"
  shows "lerp64 c t s = None"
proof -
  have "round64 (2 powi 1024) = 2 powi 1024" by (rule round64_powi) simp
  then have "round64 (2 ^ 1024) = 2 ^ 1024" by simp
  then have "binary64 (t - c) = None" by (simp add: binary64_def assms)
  then show ?thesis by (simp add: lerp64_def)
qed

lemma smooth64s_overflow:
  "lerp64 (scroll p) (targetScroll p) (smoothing (options p)) = None \<Longrightarrow>
   smooth64s (Suc n) p = None"
  by (simp add: smooth64_def)

text \<open>
  Claim C8 as stated fails for the program. With the smoothing \<^verbatim>\<open>1e-17\<close>, which is in
  \<open>(0, 1]\<close>, the scroll value 1 with the target 2 is the same after every number of
  ticks, at the distance 1 from its target. With the smoothing \<open>1 / 2\<close>, the scroll
  value 1 with the target \<open>1 + 1 / 2 ^ 52\<close> is the same after every number of ticks as
  well, at the distance \<open>1 / 2 ^ 52\<close>, so that it comes within no smaller \<open>eps\<close>. And
  with the scroll value \<open>- (2 ^ 1023)\<close> and the target \<open>2 ^ 1023\<close> the first tick
  already leaves the finite numbers.
\<close>

theorem smoothing_converges_counterexample:
  "smoothing (options stuckParallax) = literal17 \<and> 0 < literal17 \<and> literal17 \<le> 1
   \<and> scroll stuckParallax = 1 \<and> targetScroll stuckParallax = 2
   \<and> (\<forall>n. smooth64s n stuckParallax = Some stuckParallax)
   \<and> smoothing (options shortParallax) = 1 / 2
   \<and> scroll shortParallax = 1 \<and> targetScroll shortParallax = 1 + 1 / 2 ^ 52
   \<and> (\<forall>n. smooth64s n shortParallax = Some shortParallax)
   \<and> smoothing (options farParallax) = 1 / 2
   \<and> scroll farParallax = - (2 ^ 1023) \<and> targetScroll farParallax = 2 ^ 1023
   \<and> (\<forall>n. smooth64s (Suc n) farParallax = None)"
proof -
  have f1: "smoothing (options stuckParallax) = literal17"
    "scroll stuckParallax = 1" "targetScroll stuckParallax = 2"
    "mouse_x stuckParallax = 0" "targetMouse_x stuckParallax = 0"
    "mouse_y stuckParallax = 0" "targetMouse_y stuckParallax = 0"
    by (simp_all add: stuckParallax_def exampleParallax_def)
  have f2: "smoothing (options shortParallax) = 1 / 2"
    "scroll shortParallax = 1" "targetScroll shortParallax = 1 + 1 / 2 ^ 52"
    "mouse_x shortParallax = 0" "targetMouse_x shortParallax = 0"
    "mouse_y shortParallax = 0" "targetMouse_y shortParallax = 0"
    by (simp_all add: shortParallax_def halfParallax_def jumpParallax_def exampleParallax_def)
  have f3: "smoothing (options farParallax) = 1 / 2"
    "scroll farParallax = - (2 ^ 1023)" "targetScroll farParallax = 2 ^ 1023"
    by (simp_all add: farParallax_def halfParallax_def jumpParallax_def exampleParallax_def)
  have "(2::real) / 10 ^ 17 \<le> 1" by simp
  with literal17_bounds have l: "0 < literal17" "literal17 \<le> 1" by linarith+
  have 1: "smooth64s n stuckParallax = Some stuckParallax" for n
  proof -
    have "smooth64s n stuckParallax = Some (stuckParallax\<lparr>scroll := 1, mouse_x := 0, mouse_y := 0\<rparr>)"
      by (rule smooth64s_ticks64) (simp_all only: f1 ticks64_never_move ticks64_rest)
    also have "stuckParallax\<lparr>scroll := 1, mouse_x := 0, mouse_y := 0\<rparr> = stuckParallax"
      by (simp add: stuckParallax_def exampleParallax_def)
    finally show ?thesis .
  qed
  have 2: "smooth64s n shortParallax = Some shortParallax" for n
  proof -
    have "smooth64s n shortParallax = Some (shortParallax\<lparr>scroll := 1, mouse_x := 0, mouse_y := 0\<rparr>)"
      by (rule smooth64s_ticks64) (simp_all only: f2 ticks64_stall ticks64_rest)
    also have "shortParallax\<lparr>scroll := 1, mouse_x := 0, mouse_y := 0\<rparr> = shortParallax"
      by (simp add: shortParallax_def halfParallax_def jumpParallax_def exampleParallax_def)
    finally show ?thesis .
  qed
  have "targetScroll farParallax - scroll farParallax = 2 ^ 1024"
    unfolding f3 by simp
  then have "lerp64 (scroll farParallax) (targetScroll farParallax) (smoothing (options farParallax)) = None"
    by (rule lerp64_overflow)
  then have 3: "smooth64s (Suc n) farParallax = None" for n
    by (rule smooth64s_overflow)
  from f1(1-3) l 1 f2(1-3) 2 f3 3 show ?thesis by (intro conjI allI)
qed

subsection \<open>The example page in 3D\<close>

lemma example_color:
  "random b (randomCalls b) = 0 \<Longrightarrow>
   getRandomColor b = (Some 0x6B5B95, b\<lparr>randomCalls := Suc (randomCalls b)\<rparr>)"
  by (simp add: getRandomColor_def colors_def)

lemma example_constructed3d:
  "constructor3d (Selector ''.parallax-container'') noOptions3d exampleBrowser =
     Inr (exampleParallax3d, examplePage3d)"
  apply (simp add: constructor3d_def resolveContainer_def init3d_def noOptions3d_def merge3d_def
     quotient_def createLayers_def)
  apply (simp add: createLayer_def orElse_def example_color Let_def)
  apply (simp add: addEventListeners3d_def addEventListener_def Let_def)
  apply (simp add: start3d_def currentScroll_def)
  apply (simp add: animate3d_def smooth3d_def lerp_def requestAnimationFrame_def)
  apply (simp add: updateLayer3d_def scrollOffset3d_def defaultOptions3d_def)
  apply (simp add: exampleParallax3d_def examplePage3d_def defaultOptions3d_def fun_upd_twist)
  done

subsection \<open>Stopping\<close>

lemma stop_fields:
  "isActive (fst (stop w)) = False"
  "truthyId (animationFrameId (fst (stop w))) = False"
  by (cases w; simp add: stop_def Let_def truthyId_def split: option.splits)+

lemma stop3d_fields:
  "isActive3d (fst (stop3d w)) = False"
  "truthyId (animationFrameId3d (fst (stop3d w))) = False"
  by (cases w; simp add: stop3d_def Let_def truthyId_def split: option.splits)+

lemma animate3d_idle: "\<not> isActive3d p \<Longrightarrow> animate3d (p, b) = (p, b)"
  by (simp add: animate3d_def)

subsection \<open>The frames of an instance\<close>

lemma updateLayer_frames [simp]:
  "frameCallbacks (updateLayer p l b) = frameCallbacks b"
  "frameCounter (updateLayer p l b) = frameCounter b"
  by (simp_all add: updateLayer_def Let_def)

lemma fold_updateLayer_frames [simp]:
  "frameCallbacks (fold (updateLayer p) ls b) = frameCallbacks b"
  "frameCounter (fold (updateLayer p) ls b) = frameCounter b"
  by (induction ls arbitrary: b) simp_all

lemma animate_frames:
  assumes "isActive p"
  shows "frameCallbacks (snd (animate (p, b))) = frameCallbacks b @ [Suc (frameCounter b)]"
    and "animationFrameId (fst (animate (p, b))) = Some (Suc (frameCounter b))"
    and "isActive (fst (animate (p, b)))"
  using assms by (simp_all add: animate_active requestAnimationFrame_def Let_def)

lemma framesOwned_animate_fresh:
  "isActive p \<Longrightarrow> frameCallbacks b = [] \<Longrightarrow> framesOwned (animate (p, b))"
  using animate_frames [of p b]
  by (cases "animate (p, b)") (simp add: framesOwned_def)

lemma stop_clears:
  "set (frameCallbacks (snd w)) \<subseteq> set_option (animationFrameId (fst w)) \<Longrightarrow>
   0 \<notin> set (frameCallbacks (snd w)) \<Longrightarrow> frameCallbacks (snd (stop w)) = []"
proof -
  assume s: "set (frameCallbacks (snd w)) \<subseteq> set_option (animationFrameId (fst w))"
    and z: "0 \<notin> set (frameCallbacks (snd w))"
  obtain p b where w: "w = (p, b)" by (cases w)
  show ?thesis
  proof (cases "animationFrameId p")
    case None
    with s w show ?thesis by (simp add: stop_def Let_def truthyId_def)
  next
    case (Some h)
    with s w have sub: "set (frameCallbacks b) \<subseteq> {h}" by simp
    show ?thesis
    proof (cases "h = 0")
      case True
      with sub z w have "frameCallbacks b = []"
        by (cases "frameCallbacks b") auto
      with w Some True show ?thesis by (simp add: stop_def Let_def truthyId_def)
    next
      case False
      from sub have "removeAll h (frameCallbacks b) = []"
        by (auto simp add: removeAll_filter_not_eq filter_empty_conv)
      with w Some False show ?thesis
        by (simp add: stop_def Let_def truthyId_def cancelAnimationFrame_def)
    qed
  qed
qed

lemma framesOwned_stop: "framesOwned w \<Longrightarrow> framesOwned (stop w)"
proof -
  assume o: "framesOwned w"
  obtain p b where w: "w = (p, b)" by (cases w)
  from o w have "frameCallbacks (snd (stop w)) = []"
    by (intro stop_clears) (simp_all add: framesOwned_def)
  then show ?thesis
    by (cases "stop w") (simp add: framesOwned_def)
qed

lemma framesOwned_start: "framesOwned w \<Longrightarrow> framesOwned (start w)"
proof -
  assume o: "framesOwned w"
  obtain p b where w: "w = (p, b)" by (cases w)
  show ?thesis
  proof (cases "isActive p")
    case True
    with o w show ?thesis by (simp add: start_def)
  next
    case False
    with o w have e: "frameCallbacks b = []" by (simp add: framesOwned_def)
    have "framesOwned (animate (p\<lparr>isActive := True, targetScroll := currentScroll b,
        scroll := currentScroll b\<rparr>, b))"
      by (rule framesOwned_animate_fresh) (simp_all add: e)
    with False w show ?thesis by (simp add: start_def Let_def)
  qed
qed

lemma framesOwned_runFrame: "framesOwned w \<Longrightarrow> framesOwned (runFrame h w)"
proof -
  assume o: "framesOwned w"
  obtain p b where w: "w = (p, b)" by (cases w)
  show ?thesis
  proof (cases "h \<in> set (frameCallbacks b)")
    case False
    with o w show ?thesis by (simp add: runFrame_def)
  next
    case True
    with o w have a: "isActive p"
      and so: "set (frameCallbacks b) \<subseteq> set_option (animationFrameId p)"
      by (auto simp add: framesOwned_def)
    from so True have "animationFrameId p = Some h"
      by (cases "animationFrameId p") auto
    with so have sub: "set (frameCallbacks b) \<subseteq> {h}" by simp
    from sub have e: "removeAll h (frameCallbacks b) = []"
      by (auto simp add: removeAll_filter_not_eq filter_empty_conv)
    have "framesOwned (animate (p, b\<lparr>frameCallbacks := removeAll h (frameCallbacks b)\<rparr>))"
      by (rule framesOwned_animate_fresh) (simp_all add: a e)
    with True w show ?thesis by (simp add: runFrame_def)
  qed
qed

lemma framesOwned_constructor:
  assumes "frameCallbacks b = []" and "constructor c n b = Inr w"
  shows "framesOwned w"
proof -
  from assms(2) obtain e where w: "w = init
            (\<lparr>container = e, options = merge defaultOptions n, layers = [],
              mouse_x = 0, mouse_y = 0, targetMouse_x = 0, targetMouse_y = 0,
              scroll = 0, targetScroll = 0, bounds = None,
              animationFrameId = None, isActive = False\<rparr>, b)"
    by (auto simp add: constructor_def split: sum.splits)
  have f: "frameCallbacks (addEventListeners p b') = frameCallbacks b'" for p b'
    by (simp add: addEventListeners_def addEventListener_def Let_def)
  have "framesOwned (start (p, addEventListeners p b'))"
    if "frameCallbacks b' = []" "\<not> isActive p" for p b'
    by (rule framesOwned_start) (simp add: framesOwned_def f that)
  then show ?thesis
    unfolding w by (simp add: init_def Let_def updateBounds_def assms(1))
qed

text \<open>
  Claim C7. Stopping twice leaves the instance and the page as stopping once does. A
  call leaves the controller inactive and without a frame identifier, and the frame
  that the instance had requested is no longer among the callbacks of the page; on a
  page whose frames are those of the instance, no callback is left at all.
\<close>

theorem stop_idempotent:
  "stop (stop w) = stop w
   \<and> \<not> isActive (fst (stop w))
   \<and> \<not> truthyId (animationFrameId (fst (stop w)))
   \<and> (truthyId (animationFrameId (fst w)) \<longrightarrow>
        animationFrameId (fst (stop w)) = None
        \<and> the (animationFrameId (fst w)) \<notin> set (frameCallbacks (snd (stop w))))
   \<and> (framesOwned w \<longrightarrow> frameCallbacks (snd (stop w)) = [])
   \<and> stop3d (stop3d v) = stop3d v"
proof -
  have "framesOwned w \<longrightarrow> frameCallbacks (snd (stop w)) = []"
    using stop_clears [of w] by (cases w) (simp add: framesOwned_def)
  moreover have "stop (stop w) = stop w"
    by (cases w) (simp add: stop_def Let_def truthyId_def split: option.splits)
  moreover have "stop3d (stop3d v) = stop3d v"
    by (cases v) (simp add: stop3d_def Let_def truthyId_def split: option.splits)
  moreover have "truthyId (animationFrameId (fst w)) \<longrightarrow>
        animationFrameId (fst (stop w)) = None
        \<and> the (animationFrameId (fst w)) \<notin> set (frameCallbacks (snd (stop w)))"
    by (cases w) (simp add: stop_def Let_def cancelAnimationFrame_def)
  ultimately show ?thesis by (simp add: stop_fields)
qed

text \<open>On the example page, the frame 1 that the construction requested is cancelled.\<close>

theorem stop_idempotent_witness:
  "truthyId (animationFrameId (fst (exampleParallax, examplePage)))
   \<and> framesOwned (exampleParallax, examplePage)
   \<and> frameCallbacks examplePage = [1]
   \<and> frameCallbacks (snd (stop (exampleParallax, examplePage))) = []
   \<and> animationFrameId (fst (stop (exampleParallax, examplePage))) = None
   \<and> stop (stop (exampleParallax, examplePage)) = stop (exampleParallax, examplePage)"
proof -
  have t: "truthyId (animationFrameId (fst (exampleParallax, examplePage)))"
    by (simp add: exampleParallax_def truthyId_def)
  have c: "frameCallbacks examplePage = [1]"
    by (simp add: examplePage_def)
  have o: "framesOwned (exampleParallax, examplePage)"
    by (simp add: framesOwned_def exampleParallax_def c)
  with t c stop_idempotent [of "(exampleParallax, examplePage)"] show ?thesis by blast
qed

text \<open>
  Claim C10. A tick that fires while the controller is not active returns the instance
  and the page as they are: no tracked value, no style, no mesh and no callback of the
  page changes. This is so in particular for a tick that fires after \<^verbatim>\<open>stop\<close>, in both
  variants. When the page runs a frame of an inactive controller, the only change is
  that the frame has left the list of callbacks.
\<close>

theorem idle_tick:
  "(\<not> isActive p \<longrightarrow> animate (p, b) = (p, b))
   \<and> (\<not> isActive3d q \<longrightarrow> animate3d (q, b) = (q, b))
   \<and> (\<not> isActive p \<longrightarrow>
        runFrame h (p, b) = (p, b\<lparr>frameCallbacks := removeAll h (frameCallbacks b)\<rparr>))
   \<and> animate (stop w) = stop w
   \<and> animate3d (stop3d v) = stop3d v"
proof -
  have "runFrame h (p, b) = (p, b\<lparr>frameCallbacks := removeAll h (frameCallbacks b)\<rparr>)"
    if "\<not> isActive p"
    using that by (cases "h \<in> set (frameCallbacks b)") (simp_all add: runFrame_def animate_idle)
  moreover have "animate (stop w) = stop w"
    using animate_idle [of "fst (stop w)" "snd (stop w)"] by (simp add: stop_fields)
  moreover have "animate3d (stop3d v) = stop3d v"
    using animate3d_idle [of "fst (stop3d v)" "snd (stop3d v)"] by (simp add: stop3d_fields)
  ultimately show ?thesis by (simp add: animate_idle animate3d_idle)
qed

text \<open>The stopped instances of the example page, in both variants.\<close>

theorem idle_tick_witness:
  "\<not> isActive (exampleParallax\<lparr>isActive := False\<rparr>)
   \<and> animate (exampleParallax\<lparr>isActive := False\<rparr>, examplePage) =
       (exampleParallax\<lparr>isActive := False\<rparr>, examplePage)
   \<and> \<not> isActive3d (exampleParallax3d\<lparr>isActive3d := False\<rparr>)
   \<and> animate3d (exampleParallax3d\<lparr>isActive3d := False\<rparr>, examplePage3d) =
       (exampleParallax3d\<lparr>isActive3d := False\<rparr>, examplePage3d)"
  using idle_tick [of "exampleParallax\<lparr>isActive := False\<rparr>" examplePage
      "exampleParallax3d\<lparr>isActive3d := False\<rparr>" 1]
    idle_tick [of "exampleParallax\<lparr>isActive := False\<rparr>" examplePage3d
      "exampleParallax3d\<lparr>isActive3d := False\<rparr>" 1]
  by simp

subsection \<open>Offsets\<close>

lemma translate_frame [simp]:
  "translateX (p\<lparr>animationFrameId := i\<rparr>) l = translateX p l"
  "translateY (p\<lparr>animationFrameId := i\<rparr>) l = translateY p l"
  by (simp_all add: translateX_def translateY_def scrollOffset_def mouseOffsetX_def mouseOffsetY_def)

lemma animate_translate:
  "isActive p \<Longrightarrow> translateX (fst (animate (p, b))) l = translateX (smooth p) l"
  "isActive p \<Longrightarrow> translateY (fst (animate (p, b))) l = translateY (smooth p) l"
  by (simp_all add: animate_active)

text \<open>
  Claim C2. After a tick of an active controller, the transform written for a layer
  (whose element no other layer shares) is the initial transform, if any, followed by
  \<^verbatim>\<open>translate3d\<close> of the two offsets of the layer, which are computed from the smoothed
  values: the scroll offset is \<open>scroll * scrollSpeed * scrollMultiplier * 0.5\<close> and the
  pointer offsets are \<open>mouse * mouseSpeed * mouseMultiplier * 50\<close>. For a layer with the
  scroll speed 1 and the mouse speed 0 on one of the three axis masks, under the scroll
  multiplier 1 and a smoothed scroll of 100, the vertical offset is \<open>- (100 * 1 * 1 * 0.5)\<close>.
\<close>

theorem tick_offsets:
  assumes "isActive p" and "l \<in> set (layers p)" and "distinct (map element (layers p))"
  shows "style_transform (snd (animate (p, b))) (element l) =
           (if initialTransform l \<noteq> [] then initialTransform l @ '' '' else []) @
           translate3d b (translateX (fst (animate (p, b))) l) (translateY (fst (animate (p, b))) l)
    \<and> scrollOffset (fst (animate (p, b))) l =
         scroll (fst (animate (p, b))) * scrollSpeed l * scrollMultiplier (options p) * 0.5
    \<and> mouseOffsetX (fst (animate (p, b))) l =
         mouse_x (fst (animate (p, b))) * mouseSpeed l * mouseMultiplier (options p) * 50
    \<and> mouseOffsetY (fst (animate (p, b))) l =
         mouse_y (fst (animate (p, b))) * mouseSpeed l * mouseMultiplier (options p) * 50
    \<and> (axis l = ''both'' \<longrightarrow>
         translateX (fst (animate (p, b))) l = mouseOffsetX (fst (animate (p, b))) l
         \<and> translateY (fst (animate (p, b))) l =
             - scrollOffset (fst (animate (p, b))) l + mouseOffsetY (fst (animate (p, b))) l)
    \<and> ((axis l = ''both'' \<or> axis l = ''x'' \<or> axis l = ''y'')
         \<and> scroll (fst (animate (p, b))) = 100 \<and> scrollSpeed l = 1 \<and> mouseSpeed l = 0
         \<and> scrollMultiplier (options p) = 1 \<longrightarrow>
         translateY (fst (animate (p, b))) l = - (100 * 1 * 1 * 0.5))"
proof -
  let ?p = "fst (animate (p, b))"
  have o: "options ?p = options p"
    using animate_keeps(5) [of "(p, b)"] by simp
  have "style_transform (snd (animate (p, b))) (element l) =
           (if initialTransform l \<noteq> [] then initialTransform l @ '' '' else []) @
           translate3d b (translateX ?p l) (translateY ?p l)"
    using animate_written [OF assms, of b] assms(1) by (simp add: animate_translate)
  moreover have "scrollOffset ?p l = scroll ?p * scrollSpeed l * scrollMultiplier (options p) * 0.5"
    "mouseOffsetX ?p l = mouse_x ?p * mouseSpeed l * mouseMultiplier (options p) * 50"
    "mouseOffsetY ?p l = mouse_y ?p * mouseSpeed l * mouseMultiplier (options p) * 50"
    by (simp_all add: scrollOffset_def mouseOffsetX_def mouseOffsetY_def o)
  moreover have "axis l = ''both'' \<longrightarrow>
         translateX ?p l = mouseOffsetX ?p l
         \<and> translateY ?p l = - scrollOffset ?p l + mouseOffsetY ?p l"
    by (simp add: translateX_def translateY_def)
  moreover have "(axis l = ''both'' \<or> axis l = ''x'' \<or> axis l = ''y'')
         \<and> scroll ?p = 100 \<and> scrollSpeed l = 1 \<and> mouseSpeed l = 0
         \<and> scrollMultiplier (options p) = 1 \<longrightarrow>
         translateY ?p l = - (100 * 1 * 1 * 0.5)"
    by (auto simp add: translateY_def scrollOffset_def mouseOffsetY_def o)
  ultimately show ?thesis by blast
qed

lemma scenario_added:
  "addLayer 13 (Some 1) (Some 1) (Some 0) (exampleParallax, examplePage) =
     (scenarioLayer, scenarioParallax, examplePage)"
  by (simp add: addLayer_def Let_def scenarioLayer_def scenarioParallax_def
      getInitialTransform_def examplePage_def exampleBrowser_def)

text \<open>The scenario of the specification, on the example page scrolled to 100.\<close>

theorem tick_offsets_witness:
  "isActive scenarioParallax \<and> scenarioLayer \<in> set (layers scenarioParallax)
   \<and> distinct (map element (layers scenarioParallax))
   \<and> depth scenarioLayer = 1 \<and> scrollSpeed scenarioLayer = 1 \<and> mouseSpeed scenarioLayer = 0
   \<and> scrollMultiplier (options scenarioParallax) = 1
   \<and> scroll (fst (animate (scenarioParallax, examplePage))) = 100
   \<and> translateY (fst (animate (scenarioParallax, examplePage))) scenarioLayer = - 50
   \<and> style_transform (snd (animate (scenarioParallax, examplePage))) 13 =
       ''translate3d(0px, -50px, 0)''"
proof -
  let ?p = "fst (animate (scenarioParallax, examplePage))"
  have a: "isActive scenarioParallax"
    by (simp add: scenarioParallax_def exampleParallax_def)
  have m: "scenarioLayer \<in> set (layers scenarioParallax)"
    by (simp add: scenarioParallax_def)
  have d: "distinct (map element (layers scenarioParallax))"
    by (simp add: scenarioParallax_def exampleParallax_def scenarioLayer_def)
  have l: "depth scenarioLayer = 1" "scrollSpeed scenarioLayer = 1" "mouseSpeed scenarioLayer = 0"
    "axis scenarioLayer = ''both''" "element scenarioLayer = 13" "initialTransform scenarioLayer = []"
    by (simp_all add: scenarioLayer_def)
  have s: "scrollMultiplier (options scenarioParallax) = 1"
    by (simp add: scenarioParallax_def exampleParallax_def defaultOptions_def)
  have c: "scroll ?p = 100"
    using a by (simp add: animate_active lerp_def scenarioParallax_def exampleParallax_def)
  note t = tick_offsets [OF a m d, of examplePage]
  from t have y: "translateY ?p scenarioLayer = - 50"
    by (simp add: l s c)
  from t have x: "translateX ?p scenarioLayer = 0"
    by (simp add: l)
  have n: "numberToString examplePage 0 = ''0''" "numberToString examplePage (- 50) = ''-50''"
    by (simp_all add: examplePage_def exampleBrowser_def)
  from t have "style_transform (snd (animate (scenarioParallax, examplePage))) 13 =
       ''translate3d(0px, -50px, 0)''"
    by (simp add: l x y translate3d_def n)
  with a m d l s c y show ?thesis by simp
qed

subsection \<open>Axis masks\<close>

text \<open>
  Claim C3. For a layer with the axis mask \<^verbatim>\<open>x\<close> the vertical offset is the negated scroll
  offset, whatever the vertical pointer value is; for a layer with the mask \<^verbatim>\<open>y\<close> the
  horizontal offset is 0; the vertical pointer offset is added for the masks \<^verbatim>\<open>y\<close> and
  \<^verbatim>\<open>both\<close>, and for any other mask the vertical offset does not depend on the vertical
  pointer value. These are the offsets that a tick writes into the transform.
\<close>

theorem axis_masking:
  "(axis l = ''x'' \<longrightarrow>
      translateY p l = - scrollOffset p l
      \<and> translateY (p\<lparr>mouse_y := v\<rparr>) l = translateY p l)
   \<and> (axis l = ''y'' \<longrightarrow> translateX p l = 0)
   \<and> (axis l = ''y'' \<or> axis l = ''both'' \<longrightarrow>
        translateY p l = - scrollOffset p l + mouseOffsetY p l)
   \<and> (axis l \<noteq> ''y'' \<and> axis l \<noteq> ''both'' \<longrightarrow>
        translateY (p\<lparr>mouse_y := v\<rparr>) l = translateY p l)
   \<and> (isActive p \<and> l \<in> set (layers p) \<and> distinct (map element (layers p)) \<longrightarrow>
        style_transform (snd (animate (p, b))) (element l) =
          (if initialTransform l \<noteq> [] then initialTransform l @ '' '' else []) @
          translate3d b (translateX (smooth p) l) (translateY (smooth p) l))"
proof -
  have "axis l = ''x'' \<longrightarrow>
      translateY p l = - scrollOffset p l
      \<and> translateY (p\<lparr>mouse_y := v\<rparr>) l = translateY p l"
    by (simp add: translateY_def scrollOffset_def)
  moreover have "axis l = ''y'' \<longrightarrow> translateX p l = 0"
    by (simp add: translateX_def)
  moreover have "axis l = ''y'' \<or> axis l = ''both'' \<longrightarrow>
        translateY p l = - scrollOffset p l + mouseOffsetY p l"
    by (auto simp add: translateY_def)
  moreover have "axis l \<noteq> ''y'' \<and> axis l \<noteq> ''both'' \<longrightarrow>
        translateY (p\<lparr>mouse_y := v\<rparr>) l = translateY p l"
    by (simp add: translateY_def scrollOffset_def)
  ultimately show ?thesis
    using animate_written [of p l b] by blast
qed

text \<open>On the example page: the layer with the mask \<^verbatim>\<open>x\<close> keeps the vertical offset -50 of
  the scroll whatever the pointer does, and the layer with the mask \<^verbatim>\<open>y\<close> does not move
  horizontally.\<close>

theorem axis_masking_witness:
  "axis horizontalLayer = ''x''
   \<and> translateY pointerParallax horizontalLayer = - 50
   \<and> translateY (pointerParallax\<lparr>mouse_y := 7\<rparr>) horizontalLayer = - 50
   \<and> axis verticalLayer = ''y''
   \<and> translateX pointerParallax verticalLayer = 0
   \<and> translateY pointerParallax verticalLayer = - 25
   \<and> isActive exampleParallax \<and> horizontalLayer \<in> set (layers exampleParallax)
   \<and> distinct (map element (layers exampleParallax))
   \<and> style_transform (snd (animate (exampleParallax, examplePage))) 12 =
       ''translate3d(0px, -50px, 0)''"
proof -
  have h: "axis horizontalLayer = ''x''" "element horizontalLayer = 12"
    "initialTransform horizontalLayer = []"
    and v: "axis verticalLayer = ''y''"
    by (simp_all add: horizontalLayer_def verticalLayer_def)
  have so: "scrollOffset pointerParallax horizontalLayer = 50"
    "scrollOffset pointerParallax verticalLayer = 50"
    "mouseOffsetY pointerParallax verticalLayer = 25"
    by (simp_all add: scrollOffset_def mouseOffsetY_def pointerParallax_def exampleParallax_def
        defaultOptions_def horizontalLayer_def verticalLayer_def)
  have a: "isActive exampleParallax" "horizontalLayer \<in> set (layers exampleParallax)"
    "distinct (map element (layers exampleParallax))"
    by (simp_all add: exampleParallax_def horizontalLayer_def)
  have sm: "translateX (smooth exampleParallax) horizontalLayer = 0"
    "translateY (smooth exampleParallax) horizontalLayer = - 50"
    by (simp_all add: translateX_def translateY_def h mouseOffsetX_def scrollOffset_def lerp_def
        exampleParallax_def defaultOptions_def horizontalLayer_def)
  have n: "numberToString examplePage 0 = ''0''" "numberToString examplePage (- 50) = ''-50''"
    by (simp_all add: examplePage_def exampleBrowser_def)
  note x = axis_masking [of horizontalLayer pointerParallax 7 examplePage]
  note y = axis_masking [of verticalLayer pointerParallax 7 examplePage]
  note w = axis_masking [of horizontalLayer exampleParallax 7 examplePage]
  from x have "translateY pointerParallax horizontalLayer = - 50"
    "translateY (pointerParallax\<lparr>mouse_y := 7\<rparr>) horizontalLayer = - 50"
    by (simp_all add: h so)
  moreover from y have "translateX pointerParallax verticalLayer = 0"
    "translateY pointerParallax verticalLayer = - 25"
    by (simp_all add: v so)
  moreover from w a have "style_transform (snd (animate (exampleParallax, examplePage))) 12 =
       ''translate3d(0px, -50px, 0)''"
    by (simp add: h sm translate3d_def n)
  ultimately show ?thesis using h v a by simp
qed

subsection \<open>Construction\<close>

lemma resolveContainer_fails:
  "isl (resolveContainer b c) \<longleftrightarrow>
     c = Nullish \<or> (\<exists>s. c = Selector s \<and> (\<forall>e. querySelector b s \<noteq> QElement e))"
  by (cases c) (auto simp add: resolveContainer_def split: query.splits)

lemma start_active: "isActive (fst (start w))"
  by (cases w; cases "isActive (fst w)") (simp_all add: start_def Let_def animate_active)

lemma animate_container [simp]: "container (fst (animate w)) = container (fst w)"
  by (cases w; cases "isActive (fst w)") (simp_all add: animate_active animate_idle smooth_def Let_def)

lemma start_container [simp]: "container (fst (start w)) = container (fst w)"
  by (cases w; cases "isActive (fst w)") (simp_all add: start_def Let_def)

lemma init_container: "container (fst (init (p, b))) = container p"
  by (simp add: init_def Let_def updateBounds_def split: prod.splits)

lemma animate3d_active:
  "isActive3d p \<Longrightarrow> isActive3d (fst (animate3d (p, b)))
     \<and> container3d (fst (animate3d (p, b))) = container3d p"
proof -
  have k: "isActive3d (fold updateLayer3d ls q) = isActive3d q
      \<and> container3d (fold updateLayer3d ls q) = container3d q" for ls q
    by (induction ls arbitrary: q) (simp_all add: updateLayer3d_def)
  assume "isActive3d p"
  then show ?thesis
    by (simp add: animate3d_def Let_def k smooth3d_def split: prod.splits)
qed

lemma start3d_active:
  "isActive3d (fst (start3d (p, b)))
     \<and> container3d (fst (start3d (p, b))) = container3d p"
  using animate3d_active [of "p\<lparr>isActive3d := True, targetScroll3d := currentScroll b,
      scroll3d := currentScroll b\<rparr>" b]
  by (simp add: start3d_def Let_def)

lemma createLayer_container:
  "container3d (fst (createLayer e w)) = container3d (fst w)"
  by (cases w) (simp add: createLayer_def Let_def split: prod.splits option.splits jsnum.splits)

lemma fold_createLayer_container:
  "container3d (fst (fold createLayer es w)) = container3d (fst w)"
  by (induction es arbitrary: w) (simp_all add: createLayer_container)

lemma init3d_fails: "\<not> webglAvailable b \<Longrightarrow> init3d e opts b = Inl WebGLUnavailable"
  by (simp add: init3d_def Let_def)

lemma init3d_active:
  assumes "webglAvailable b"
  shows "\<exists>q b'. init3d e opts b = Inr (q, b') \<and> isActive3d q \<and> container3d q = e"
proof -
  let ?p = "\<lparr>container3d = e, options3d = opts, meshes = (\<lambda>r. blankMesh), meshCount = 0,
      scene = [],
      camera = \<lparr>camera_fov = fov opts,
                camera_aspect = quotient (clientWidth b e) (clientHeight b e),
                camera_near = 0.1, camera_far = 1000,
                camera_x = 0, camera_y = 0, camera_z = cameraZ opts, lookAt = None\<rparr>,
      renderer = \<lparr>size = (clientWidth b e, clientHeight b e), pixelRatio = devicePixelRatio b,
                  renderCalls = 0, rendererDisposed = False, domElementParent = Some e\<rparr>,
      layers3d = [],
      mouse3d_x = 0, mouse3d_y = 0, targetMouse3d_x = 0, targetMouse3d_y = 0,
      scroll3d = 0, targetScroll3d = 0, isActive3d = False, animationFrameId3d = None\<rparr>"
  obtain p1 b1 where c: "createLayers (?p, b) = (p1, b1)"
    by (cases "createLayers (?p, b)")
  have "container3d p1 = e"
    using fold_createLayer_container [of "layerElements b e" "(?p, b)"]
    by (simp add: createLayers_def c [unfolded createLayers_def, simplified])
  moreover have "init3d e opts b = Inr (start3d (p1, addEventListeners3d p1 b1))"
    using assms by (simp add: init3d_def Let_def c)
  ultimately show ?thesis
    using start3d_active [of p1 "addEventListeners3d p1 b1"] by (metis prod.collapse)
qed

text \<open>
  Claim C9. The constructor of the 2D variant returns an error exactly when the
  container is not resolved: the argument is null or undefined, or it is a selector for
  which \<^verbatim>\<open>querySelector\<close> finds no element (or which it rejects). The constructor of the
  3D variant returns an error exactly when the rendering capability is missing, that
  is \<^verbatim>\<open>THREE\<close> is not defined or the page gives no WebGL context, or the container is
  not resolved. The error is the whole result: nothing of the page has changed and
  nothing is tried again. In every other case the constructor returns an instance on the
  resolved container.
\<close>

theorem construction_fails_iff:
  "(isl (constructor c n b) \<longleftrightarrow>
      c = Nullish \<or> (\<exists>s. c = Selector s \<and> (\<forall>e. querySelector b s \<noteq> QElement e)))
   \<and> (isl (constructor3d c m b) \<longleftrightarrow>
      \<not> threeDefined b \<or> \<not> webglAvailable b \<or> c = Nullish
      \<or> (\<exists>s. c = Selector s \<and> (\<forall>e. querySelector b s \<noteq> QElement e)))
   \<and> (constructor3d c m b = Inl ThreeRequired \<longleftrightarrow> \<not> threeDefined b)
   \<and> (constructor3d c m b = Inl WebGLUnavailable \<longleftrightarrow>
      threeDefined b \<and> \<not> webglAvailable b \<and> (\<exists>e. resolveContainer b c = Inr e))
   \<and> (constructor c n b = Inl ContainerNotFound \<longleftrightarrow>
      c = Nullish \<or> (\<exists>s. c = Selector s \<and> querySelector b s = QNull))
   \<and> (\<forall>e. resolveContainer b c = Inr e \<longrightarrow>
        (\<exists>p b'. constructor c n b = Inr (p, b') \<and> container p = e \<and> isActive p)
        \<and> (threeDefined b \<and> webglAvailable b \<longrightarrow>
            (\<exists>q b'. constructor3d c m b = Inr (q, b') \<and> container3d q = e \<and> isActive3d q)))"
proof -
  have 1: "isl (constructor c n b) \<longleftrightarrow> isl (resolveContainer b c)"
    by (simp add: constructor_def split: sum.splits)
  have 4: "constructor c n b = Inl ContainerNotFound \<longleftrightarrow>
      c = Nullish \<or> (\<exists>s. c = Selector s \<and> querySelector b s = QNull)"
    by (cases c) (auto simp add: constructor_def resolveContainer_def split: sum.splits query.splits)
  have 5: "\<exists>p b'. constructor c n b = Inr (p, b') \<and> container p = e \<and> isActive p"
    if "resolveContainer b c = Inr e" for e
  proof -
    let ?p = "\<lparr>container = e, options = merge defaultOptions n, layers = [],
              mouse_x = 0, mouse_y = 0, targetMouse_x = 0, targetMouse_y = 0,
              scroll = 0, targetScroll = 0, bounds = None,
              animationFrameId = None, isActive = False\<rparr>"
    have "constructor c n b = Inr (init (?p, b))"
      using that by (simp add: constructor_def)
    moreover have "container (fst (init (?p, b))) = e"
      by (simp add: init_container)
    moreover have "isActive (fst (init (?p, b)))"
      by (simp add: init_def Let_def start_active split: prod.splits)
    ultimately show ?thesis
      by (metis prod.collapse)
  qed
  have 6: "\<exists>q b'. constructor3d c m b = Inr (q, b') \<and> container3d q = e \<and> isActive3d q"
    if "resolveContainer b c = Inr e" and "threeDefined b" and "webglAvailable b" for e
  proof -
    have "constructor3d c m b = init3d e (merge3d defaultOptions3d m) b"
      using that by (simp add: constructor3d_def)
    then show ?thesis
      using init3d_active [OF that(3), of e "merge3d defaultOptions3d m"] by auto
  qed
  have 7: "constructor3d c m b = Inl WebGLUnavailable"
    if "resolveContainer b c = Inr e" and "threeDefined b" and "\<not> webglAvailable b" for e
    using that by (simp add: constructor3d_def init3d_fails)
  have 8: "constructor3d c m b = Inl ThreeRequired" if "\<not> threeDefined b"
    using that by (simp add: constructor3d_def)
  have r: "(\<exists>e. resolveContainer b c = Inr e) \<or> (\<exists>err. resolveContainer b c = Inl err
      \<and> err \<noteq> ThreeRequired \<and> err \<noteq> WebGLUnavailable)"
    by (cases c) (auto simp add: resolveContainer_def split: query.splits)
  have l: "constructor3d c m b = Inl err"
    if "resolveContainer b c = Inl err" and "threeDefined b" for err
    using that by (simp add: constructor3d_def)
  have 2: "isl (constructor3d c m b) \<longleftrightarrow>
      \<not> threeDefined b \<or> \<not> webglAvailable b \<or> isl (resolveContainer b c)"
    using r 6 7 8 l by (cases "threeDefined b"; cases "webglAvailable b") auto
  have 3: "constructor3d c m b = Inl ThreeRequired \<longleftrightarrow> \<not> threeDefined b"
    using r 6 7 8 l by (cases "threeDefined b"; cases "webglAvailable b") auto
  have 10: "constructor3d c m b = Inl WebGLUnavailable \<longleftrightarrow>
      threeDefined b \<and> \<not> webglAvailable b \<and> (\<exists>e. resolveContainer b c = Inr e)"
    using r 6 7 8 l by (cases "threeDefined b"; cases "webglAvailable b") auto
  show ?thesis
    unfolding 1 2 resolveContainer_fails using 3 4 5 6 10 by blast
qed

text \<open>On the example page: a selector that matches nothing and a null argument fail, as
  does the 3D variant without \<^verbatim>\<open>THREE\<close> or without a WebGL context; the selector of the
  container succeeds in both variants.\<close>

theorem construction_fails_iff_witness:
  "constructor (Selector ''#missing'') noOptions exampleBrowser = Inl ContainerNotFound
   \<and> constructor Nullish noOptions exampleBrowser = Inl ContainerNotFound
   \<and> constructor3d (Node 10) noOptions3d (exampleBrowser\<lparr>threeDefined := False\<rparr>) =
       Inl ThreeRequired
   \<and> constructor3d (Node 10) noOptions3d (exampleBrowser\<lparr>webglAvailable := False\<rparr>) =
       Inl WebGLUnavailable
   \<and> resolveContainer exampleBrowser (Selector ''.parallax-container'') = Inr 10
   \<and> \<not> isl (constructor (Selector ''.parallax-container'') noOptions exampleBrowser)
   \<and> \<not> isl (constructor3d (Selector ''.parallax-container'') noOptions3d exampleBrowser)"
proof -
  have q: "querySelector exampleBrowser ''#missing'' = QNull"
    "querySelector exampleBrowser ''.parallax-container'' = QElement 10"
    by (simp_all add: exampleBrowser_def)
  have r: "resolveContainer exampleBrowser (Selector ''.parallax-container'') = Inr 10"
    by (simp add: resolveContainer_def q)
  have "constructor (Selector ''#missing'') noOptions exampleBrowser = Inl ContainerNotFound"
    using construction_fails_iff [of "Selector ''#missing''" noOptions exampleBrowser noOptions3d]
    by (simp add: q)
  moreover have "constructor Nullish noOptions exampleBrowser = Inl ContainerNotFound"
    using construction_fails_iff [of Nullish noOptions exampleBrowser noOptions3d] by simp
  moreover have "constructor3d (Node 10) noOptions3d (exampleBrowser\<lparr>threeDefined := False\<rparr>) =
       Inl ThreeRequired"
    using construction_fails_iff [of "Node 10" noOptions "exampleBrowser\<lparr>threeDefined := False\<rparr>"
        noOptions3d]
    by simp
  moreover have "constructor3d (Node 10) noOptions3d (exampleBrowser\<lparr>webglAvailable := False\<rparr>) =
       Inl WebGLUnavailable"
    using construction_fails_iff [of "Node 10" noOptions "exampleBrowser\<lparr>webglAvailable := False\<rparr>"
        noOptions3d]
    by (simp add: resolveContainer_def)
  moreover have "\<not> isl (constructor (Selector ''.parallax-container'') noOptions exampleBrowser)"
    "\<not> isl (constructor3d (Selector ''.parallax-container'') noOptions3d exampleBrowser)"
    using construction_fails_iff [of "Selector ''.parallax-container''" noOptions exampleBrowser
        noOptions3d]
    by (simp_all add: q)
  ultimately show ?thesis using r by simp
qed

subsection \<open>Defaults of a discovered layer\<close>

text \<open>What the two variants compute for a discovered layer: the depth is the parsed
  attribute unless that is NaN or 0, and then 1 (2D) or 0 (3D); each speed is the parsed
  attribute unless that is NaN or 0, and then the depth.\<close>

lemma discoverLayer_defaults:
  "depth (discoverLayer b e) = orElse (parseFloat b (getAttribute b e ''data-parallax-depth'')) 1"
  "scrollSpeed (discoverLayer b e) =
     orElse (parseFloat b (getAttribute b e ''data-parallax-scroll'')) (depth (discoverLayer b e))"
  "mouseSpeed (discoverLayer b e) =
     orElse (parseFloat b (getAttribute b e ''data-parallax-mouse'')) (depth (discoverLayer b e))"
  by (simp_all add: discoverLayer_def Let_def)

lemma orElse_cases:
  "orElse NaN d = d" "orElse (Num 0) d = d" "r \<noteq> 0 \<Longrightarrow> orElse (Num r) d = r"
  by (simp_all add: orElse_def)

lemma createLayer_defaults:
  "layers3d (fst (createLayer e (p, b))) = layers3d p @
     [\<lparr>mesh = meshCount p, element3d = e,
       depth3d = orElse (parseFloat b (getAttribute b e ''data-parallax-depth'')) 0,
       scrollSpeed3d = orElse (parseFloat b (getAttribute b e ''data-parallax-scroll''))
         (orElse (parseFloat b (getAttribute b e ''data-parallax-depth'')) 0),
       mouseSpeed3d = orElse (parseFloat b (getAttribute b e ''data-parallax-mouse''))
         (orElse (parseFloat b (getAttribute b e ''data-parallax-depth'')) 0),
       initialPosition =
         (0, 0, - orElse (parseFloat b (getAttribute b e ''data-parallax-depth'')) 0 * 2)\<rparr>]"
  by (simp add: createLayer_def Let_def split: prod.splits option.splits jsnum.splits)

text \<open>
  Claim C5, at the input where the code departs from it. Element 11 of the example page
  carries \<^verbatim>\<open>data-parallax-depth="0.5"\<close> and \<^verbatim>\<open>data-parallax-scroll="0"\<close>. The scroll
  speed is specified, as 0, and \<^verbatim>\<open>parseFloat\<close> reads it as 0; yet both variants give
  the layer the scroll speed 0.5 of its depth, while \<^verbatim>\<open>addLayer\<close> keeps a speed of 0
  that it is given.
\<close>

theorem zero_speed_replaced_by_depth:
  "getAttribute exampleBrowser 11 ''data-parallax-scroll'' = Some ''0''
   \<and> parseFloat exampleBrowser (Some ''0'') = Num 0
   \<and> depth (discoverLayer exampleBrowser 11) = 0.5
   \<and> scrollSpeed (discoverLayer exampleBrowser 11) = 0.5
   \<and> map scrollSpeed (layers (fst (projr
        (constructor (Selector ''.parallax-container'') noOptions exampleBrowser)))) = [0.5, 1]
   \<and> map scrollSpeed3d (layers3d (fst (projr
        (constructor3d (Selector ''.parallax-container'') noOptions3d exampleBrowser)))) = [0.5, 0]
   \<and> scrollSpeed (fst (addLayer 11 (Some 0.5) (Some 0) None (exampleParallax, examplePage))) = 0"
  by (simp add: example_constructed example_constructed3d discoverLayer_11
      exampleParallax_def exampleParallax3d_def addLayer_def Let_def)
    (simp add: exampleBrowser_def)

subsection \<open>Adding and removing a layer\<close>

lemma findIndex_None: "findIndex P xs = None \<longleftrightarrow> (\<forall>x\<in>set xs. \<not> P x)"
  by (induction xs) (auto split: option.splits)

lemma findIndex_last:
  "\<forall>y\<in>set xs. \<not> P y \<Longrightarrow> P x \<Longrightarrow> findIndex P (xs @ [x]) = Some (length xs)"
  by (induction xs) simp_all

lemma splice1_last: "splice1 (length xs) (xs @ [x]) = xs"
  by (simp add: splice1_def)

lemma removeLayer_absent:
  "r \<notin> ElementRef ` element ` set (layers p) \<Longrightarrow> removeLayer r (p, b) = (p, b)"
proof -
  assume "r \<notin> ElementRef ` element ` set (layers p)"
  then have "\<forall>l\<in>set (layers p). \<not> ElementRef (element l) = r" by auto
  then have "findIndex (\<lambda>l. ElementRef (element l) = r) (layers p) = None"
    by (simp add: findIndex_None)
  then show ?thesis by (simp add: removeLayer_def)
qed

text \<open>
  Claim C4, as amended. \<^verbatim>\<open>addLayer\<close> appends a layer for the element and returns the
  layer it has appended, without touching the page. The handle for the removal is the
  element, not the returned layer: for an element that had no layer before,
  \<^verbatim>\<open>removeLayer(element)\<close> right after \<^verbatim>\<open>addLayer(element, ...)\<close> gives back the registry
  and the page, hence the rendered pose, as they were before \<^verbatim>\<open>addLayer\<close>. \<^verbatim>\<open>removeLayer\<close>
  is a no-op when no layer has the element it is given, and so when it is given the
  returned layer.
\<close>

theorem addLayer_removeLayer:
  "layers (fst (snd (addLayer e d s m (p, b)))) = layers p @ [fst (addLayer e d s m (p, b))]
   \<and> element (fst (addLayer e d s m (p, b))) = e
   \<and> snd (snd (addLayer e d s m (p, b))) = b
   \<and> (e \<notin> element ` set (layers p) \<longrightarrow>
        removeLayer (ElementRef e) (snd (addLayer e d s m (p, b))) = (p, b))
   \<and> (r \<notin> ElementRef ` element ` set (layers p) \<longrightarrow> removeLayer r (p, b) = (p, b))
   \<and> removeLayer (LayerRef l) (p, b) = (p, b)"
proof -
  let ?l = "fst (addLayer e d s m (p, b))"
  have add: "addLayer e d s m (p, b) = (?l, p\<lparr>layers := layers p @ [?l]\<rparr>, b)"
    and el: "element ?l = e"
    by (simp_all add: addLayer_def Let_def)
  have round: "removeLayer (ElementRef e) (snd (addLayer e d s m (p, b))) = (p, b)"
    if "e \<notin> element ` set (layers p)"
  proof -
    from that have "\<forall>y\<in>set (layers p). \<not> ElementRef (element y) = ElementRef e" by auto
    then have "findIndex (\<lambda>l. ElementRef (element l) = ElementRef e) (layers p @ [?l]) =
        Some (length (layers p))"
      by (rule findIndex_last) (simp add: el)
    then have "removeLayer (ElementRef e) (p\<lparr>layers := layers p @ [?l]\<rparr>, b) = (p, b)"
      by (simp add: removeLayer_def splice1_last)
    then show ?thesis
      by (subst add) simp
  qed
  have "LayerRef l \<notin> ElementRef ` element ` set (layers p)" by auto
  then have "removeLayer (LayerRef l) (p, b) = (p, b)" by (rule removeLayer_absent)
  moreover have "layers (fst (snd (addLayer e d s m (p, b)))) = layers p @ [?l]"
    by (subst add) simp
  moreover have "snd (snd (addLayer e d s m (p, b))) = b"
    by (subst add) simp
  ultimately show ?thesis
    using el round removeLayer_absent [of r p b] by blast
qed

text \<open>On the example page, for the new element 13.\<close>

theorem addLayer_removeLayer_witness:
  "13 \<notin> element ` set (layers exampleParallax)
   \<and> removeLayer (ElementRef 13) (snd (addLayer 13 None None None (exampleParallax, examplePage))) =
       (exampleParallax, examplePage)
   \<and> ElementRef 14 \<notin> ElementRef ` element ` set (layers exampleParallax)
   \<and> removeLayer (ElementRef 14) (exampleParallax, examplePage) = (exampleParallax, examplePage)"
proof -
  have a: "13 \<notin> element ` set (layers exampleParallax)"
    and b: "ElementRef 14 \<notin> ElementRef ` element ` set (layers exampleParallax)"
    by (simp_all add: exampleParallax_def)
  from a b addLayer_removeLayer [of 13 None None None exampleParallax examplePage "ElementRef 14"]
  show ?thesis by blast
qed

text \<open>
  Claim C4 as stated fails in three ways. The handle that \<^verbatim>\<open>addLayer\<close> returns is the
  layer object, and \<^verbatim>\<open>removeLayer\<close> on that handle removes nothing, so the registry keeps
  the new layer. For an element that has a layer already, as element 11 of the example
  page has, \<^verbatim>\<open>removeLayer\<close> on the element removes the first, older layer and keeps the
  new one: the registry holds the elements 12, 11 where it held 11, 12. And \<^verbatim>\<open>removeLayer\<close>
  does not write the initial transform of the layer back: the layer of element 11 has
  the empty initial transform, and the element keeps the transform of the last tick
  when the layer is removed.
\<close>

theorem removeLayer_returned_handle_counterexample:
  "layers (fst (removeLayer
      (LayerRef (fst (addLayer 13 None None None (exampleParallax, examplePage))))
      (snd (addLayer 13 None None None (exampleParallax, examplePage))))) \<noteq>
   layers exampleParallax
   \<and> map element (layers exampleParallax) = [11, 12]
   \<and> map element (layers (fst (removeLayer (ElementRef 11)
         (snd (addLayer 11 None None None (exampleParallax, examplePage)))))) = [12, 11]
   \<and> layers (fst (removeLayer (ElementRef 11)
         (snd (addLayer 11 None None None (exampleParallax, examplePage))))) \<noteq>
       layers exampleParallax
   \<and> map initialTransform (layers exampleParallax) = [[], []]
   \<and> map element (layers (fst (removeLayer (ElementRef 11) (exampleParallax, examplePage)))) = [12]
   \<and> style_transform (snd (removeLayer (ElementRef 11) (exampleParallax, examplePage))) 11 =
       ''translate3d(0px, -25px, 0)''"
proof -
  have 1: "layers (fst (removeLayer
      (LayerRef (fst (addLayer 13 None None None (exampleParallax, examplePage))))
      (snd (addLayer 13 None None None (exampleParallax, examplePage))))) \<noteq>
   layers exampleParallax"
    by (simp add: addLayer_def Let_def removeLayer_def exampleParallax_def)
  have 2: "map element (layers exampleParallax) = [11, 12]"
    by (simp add: exampleParallax_def)
  have 3: "map element (layers (fst (removeLayer (ElementRef 11)
         (snd (addLayer 11 None None None (exampleParallax, examplePage)))))) = [12, 11]"
    by (simp add: addLayer_def Let_def removeLayer_def splice1_def exampleParallax_def)
  from 2 3 have "layers (fst (removeLayer (ElementRef 11)
         (snd (addLayer 11 None None None (exampleParallax, examplePage))))) \<noteq>
       layers exampleParallax"
    by (metis list.inject numeral_eq_iff semiring_norm(88))
  note 4 = this
  have 5: "map initialTransform (layers exampleParallax) = [[], []]"
    by (simp add: exampleParallax_def)
  have r: "removeLayer (ElementRef 11) (exampleParallax, examplePage) =
      (exampleParallax\<lparr>layers := splice1 0 (layers exampleParallax)\<rparr>, examplePage)"
    by (simp add: removeLayer_def exampleParallax_def)
  have 6: "map element (layers (fst (removeLayer (ElementRef 11) (exampleParallax, examplePage)))) = [12]"
    unfolding r by (simp add: splice1_def exampleParallax_def)
  have 7: "style_transform (snd (removeLayer (ElementRef 11) (exampleParallax, examplePage))) 11 =
       ''translate3d(0px, -25px, 0)''"
    unfolding r by (simp add: examplePage_def)
  from 1 2 3 4 5 6 7 show ?thesis by (intro conjI)
qed

subsection \<open>Destruction\<close>

lemma resetLayer_simps [simp]:
  "listeners (resetLayer l b) = listeners b"
  "frameCallbacks (resetLayer l b) = frameCallbacks b"
  "style_transform (resetLayer l b) = (style_transform b)(element l := initialTransform l)"
  by (simp_all add: resetLayer_def)

lemma fold_resetLayer_simps [simp]:
  "listeners (fold resetLayer ls b) = listeners b"
  "frameCallbacks (fold resetLayer ls b) = frameCallbacks b"
  by (induction ls arbitrary: b) simp_all

lemma fold_resetLayer_other:
  "e \<notin> element ` set ls \<Longrightarrow> style_transform (fold resetLayer ls b) e = style_transform b e"
  by (induction ls arbitrary: b) simp_all

text \<open>The last layer of an element decides; when all layers of the element hold the same
  initial transform, that one is written.\<close>

lemma fold_resetLayer_restores:
  "l \<in> set ls \<Longrightarrow> \<forall>k\<in>set ls. element k = element l \<longrightarrow> initialTransform k = initialTransform l \<Longrightarrow>
   style_transform (fold resetLayer ls b) (element l) = initialTransform l"
proof (induction ls rule: rev_induct)
  case Nil
  then show ?case by simp
next
  case (snoc a ls)
  show ?case
  proof (cases "element a = element l")
    case True
    with snoc.prems(2) have "initialTransform a = initialTransform l"
      by (metis in_set_conv_decomp)
    with True show ?thesis by simp
  next
    case False
    with snoc.prems(1) have m: "l \<in> set ls" by auto
    have "\<forall>k\<in>set ls. element k = element l \<longrightarrow> initialTransform k = initialTransform l"
      using snoc.prems(2) by (metis Un_iff set_append)
    with m have "style_transform (fold resetLayer ls b) (element l) = initialTransform l"
      by (rule snoc.IH)
    with False show ?thesis by simp
  qed
qed

text \<open>The listeners that an instance registers are among those that its \<^verbatim>\<open>destroy\<close>
  removes.\<close>

lemma addEventListeners_set:
  "set (listeners (addEventListeners p b)) \<subseteq>
     set (listeners b) \<union>
       {(Window, ''scroll'', HandleScroll), (Element (container p), ''mousemove'', HandleMouseMove),
        (Element (container p), ''mouseleave'', HandleMouseLeave), (Window, ''resize'', UpdateBounds)}"
  by (auto simp add: addEventListeners_def addEventListener_def Let_def split: if_splits)

lemma addEventListeners3d_set:
  "set (listeners (addEventListeners3d p b)) \<subseteq>
     set (listeners b) \<union>
       {(Window, ''scroll'', HandleScroll), (Element (container3d p), ''mousemove'', HandleMouseMove),
        (Window, ''resize'', HandleResize)}"
  by (auto simp add: addEventListeners3d_def addEventListener_def Let_def split: if_splits)

lemma removeEventListeners_set:
  "set (listeners (removeEventListeners p b)) =
     set (listeners b) -
       {(Window, ''scroll'', HandleScroll), (Element (container p), ''mousemove'', HandleMouseMove),
        (Element (container p), ''mouseleave'', HandleMouseLeave), (Window, ''resize'', UpdateBounds)}"
  by (auto simp add: removeEventListeners_def removeEventListener_def Let_def)

lemma removeEventListeners_simps [simp]:
  "frameCallbacks (removeEventListeners p b) = frameCallbacks b"
  "style_transform (removeEventListeners p b) = style_transform b"
  by (simp_all add: removeEventListeners_def removeEventListener_def Let_def)

lemma stop_simps [simp]:
  "layers (fst (stop w)) = layers (fst w)"
  "container (fst (stop w)) = container (fst w)"
  "listeners (snd (stop w)) = listeners (snd w)"
  "style_transform (snd (stop w)) = style_transform (snd w)"
  by (cases w; simp add: stop_def Let_def cancelAnimationFrame_def)+

lemma stop_cancels:
  "truthyId (animationFrameId (fst w)) \<Longrightarrow>
   the (animationFrameId (fst w)) \<notin> set (frameCallbacks (snd (stop w)))"
  by (cases w) (simp add: stop_def Let_def cancelAnimationFrame_def)

lemma destroy_unfold:
  "destroy w =
     ((fst (stop w))\<lparr>layers := []\<rparr>,
      fold resetLayer (layers (fst w)) (removeEventListeners (fst (stop w)) (snd (stop w))))"
proof -
  obtain p b where s: "stop w = (p, b)" by (cases "stop w")
  have "layers p = layers (fst w)"
    using stop_simps(1) [of w] by (simp add: s)
  then show ?thesis by (simp add: destroy_def Let_def s)
qed

lemma destroy_2d:
  "\<not> isActive (fst (destroy (p, b)))"
  "layers (fst (destroy (p, b))) = []"
  "\<not> truthyId (animationFrameId (fst (destroy (p, b))))"
  "truthyId (animationFrameId p) \<Longrightarrow>
     the (animationFrameId p) \<notin> set (frameCallbacks (snd (destroy (p, b))))"
  "set (listeners (snd (destroy (p, b)))) =
     set (listeners b) -
       {(Window, ''scroll'', HandleScroll), (Element (container p), ''mousemove'', HandleMouseMove),
        (Element (container p), ''mouseleave'', HandleMouseLeave), (Window, ''resize'', UpdateBounds)}"
  "l \<in> set (layers p) \<Longrightarrow>
     \<forall>k\<in>set (layers p). element k = element l \<longrightarrow> initialTransform k = initialTransform l \<Longrightarrow>
     style_transform (snd (destroy (p, b))) (element l) = initialTransform l"
  "e \<notin> element ` set (layers p) \<Longrightarrow> style_transform (snd (destroy (p, b))) e = style_transform b e"
proof -
  show "\<not> isActive (fst (destroy (p, b)))"
    by (simp add: destroy_unfold stop_fields)
  show "layers (fst (destroy (p, b))) = []"
    by (simp add: destroy_unfold)
  show "\<not> truthyId (animationFrameId (fst (destroy (p, b))))"
    by (simp add: destroy_unfold stop_fields)
  show "the (animationFrameId p) \<notin> set (frameCallbacks (snd (destroy (p, b))))"
    if "truthyId (animationFrameId p)"
    using stop_cancels [of "(p, b)"] that by (simp add: destroy_unfold)
  show "set (listeners (snd (destroy (p, b)))) =
     set (listeners b) -
       {(Window, ''scroll'', HandleScroll), (Element (container p), ''mousemove'', HandleMouseMove),
        (Element (container p), ''mouseleave'', HandleMouseLeave), (Window, ''resize'', UpdateBounds)}"
    by (simp add: destroy_unfold removeEventListeners_set)
  show "style_transform (snd (destroy (p, b))) (element l) = initialTransform l"
    if "l \<in> set (layers p)"
      "\<forall>k\<in>set (layers p). element k = element l \<longrightarrow> initialTransform k = initialTransform l"
    unfolding destroy_unfold snd_conv fst_conv using that by (rule fold_resetLayer_restores)
  show "style_transform (snd (destroy (p, b))) e = style_transform b e"
    if "e \<notin> element ` set (layers p)"
    using that by (simp add: destroy_unfold fold_resetLayer_other)
qed

lemma disposeLayer_instance [simp]:
  "renderer (fst (disposeLayer l w)) = renderer (fst w)"
  "container3d (fst (disposeLayer l w)) = container3d (fst w)"
  "isActive3d (fst (disposeLayer l w)) = isActive3d (fst w)"
  "animationFrameId3d (fst (disposeLayer l w)) = animationFrameId3d (fst w)"
  "scene (fst (disposeLayer l w)) = remove1 (mesh l) (scene (fst w))"
  "position_x (meshes (fst (disposeLayer l w)) r) = position_x (meshes (fst w) r)"
  "position_y (meshes (fst (disposeLayer l w)) r) = position_y (meshes (fst w) r)"
  "position_z (meshes (fst (disposeLayer l w)) r) = position_z (meshes (fst w) r)"
  by (cases w; simp add: disposeLayer_def)+

lemma disposeLayer_page [simp]:
  "listeners (snd (disposeLayer l w)) = listeners (snd w)"
  "frameCallbacks (snd (disposeLayer l w)) = frameCallbacks (snd w)"
  "style_transform (snd (disposeLayer l w)) = style_transform (snd w)"
  "style_visibility (snd (disposeLayer l w)) = (style_visibility (snd w))(element3d l := [])"
  by (cases w; simp add: disposeLayer_def)+

lemma disposeLayer_disposed:
  "geometryDisposed (meshes (fst (disposeLayer l w)) r) =
     (r = mesh l \<or> geometryDisposed (meshes (fst w) r))"
  "materialDisposed (meshes (fst (disposeLayer l w)) r) =
     (r = mesh l \<or> materialDisposed (meshes (fst w) r))"
  by (cases w; simp add: disposeLayer_def)+

lemma fold_disposeLayer_instance [simp]:
  "renderer (fst (fold disposeLayer ls w)) = renderer (fst w)"
  "container3d (fst (fold disposeLayer ls w)) = container3d (fst w)"
  "isActive3d (fst (fold disposeLayer ls w)) = isActive3d (fst w)"
  "animationFrameId3d (fst (fold disposeLayer ls w)) = animationFrameId3d (fst w)"
  "position_x (meshes (fst (fold disposeLayer ls w)) r) = position_x (meshes (fst w) r)"
  "position_y (meshes (fst (fold disposeLayer ls w)) r) = position_y (meshes (fst w) r)"
  "position_z (meshes (fst (fold disposeLayer ls w)) r) = position_z (meshes (fst w) r)"
  "listeners (snd (fold disposeLayer ls w)) = listeners (snd w)"
  "frameCallbacks (snd (fold disposeLayer ls w)) = frameCallbacks (snd w)"
  "style_transform (snd (fold disposeLayer ls w)) = style_transform (snd w)"
  by (induction ls arbitrary: w) simp_all

lemma fold_disposeLayer_disposed:
  "geometryDisposed (meshes (fst (fold disposeLayer ls w)) r) =
     (r \<in> mesh ` set ls \<or> geometryDisposed (meshes (fst w) r))"
  "materialDisposed (meshes (fst (fold disposeLayer ls w)) r) =
     (r \<in> mesh ` set ls \<or> materialDisposed (meshes (fst w) r))"
  by (induction ls arbitrary: w) (auto simp add: disposeLayer_disposed)

lemma fold_disposeLayer_visibility:
  "style_visibility (snd (fold disposeLayer ls w)) e =
     (if e \<in> element3d ` set ls then [] else style_visibility (snd w) e)"
  by (induction ls arbitrary: w) auto

lemma fold_disposeLayer_scene:
  "distinct (scene (fst w)) \<Longrightarrow>
   distinct (scene (fst (fold disposeLayer ls w)))
   \<and> set (scene (fst (fold disposeLayer ls w))) = set (scene (fst w)) - mesh ` set ls"
  by (induction ls arbitrary: w) auto

lemma removeEventListeners3d_set:
  "set (listeners (removeEventListeners3d p b)) =
     set (listeners b) -
       {(Window, ''scroll'', HandleScroll), (Element (container3d p), ''mousemove'', HandleMouseMove),
        (Window, ''resize'', HandleResize)}"
  by (auto simp add: removeEventListeners3d_def removeEventListener_def Let_def)

lemma removeEventListeners3d_simps [simp]:
  "frameCallbacks (removeEventListeners3d p b) = frameCallbacks b"
  "style_visibility (removeEventListeners3d p b) = style_visibility b"
  by (simp_all add: removeEventListeners3d_def removeEventListener_def Let_def)

lemma stop3d_simps [simp]:
  "layers3d (fst (stop3d w)) = layers3d (fst w)"
  "container3d (fst (stop3d w)) = container3d (fst w)"
  "renderer (fst (stop3d w)) = renderer (fst w)"
  "scene (fst (stop3d w)) = scene (fst w)"
  "meshes (fst (stop3d w)) = meshes (fst w)"
  "listeners (snd (stop3d w)) = listeners (snd w)"
  "style_visibility (snd (stop3d w)) = style_visibility (snd w)"
  by (cases w; simp add: stop3d_def Let_def cancelAnimationFrame_def)+

lemma stop3d_cancels:
  "truthyId (animationFrameId3d (fst w)) \<Longrightarrow>
   the (animationFrameId3d (fst w)) \<notin> set (frameCallbacks (snd (stop3d w)))"
  by (cases w) (simp add: stop3d_def Let_def cancelAnimationFrame_def)

text \<open>The instance and the page on which the 3D \<^verbatim>\<open>destroy\<close> ends when the canvas is a child
  of the container.\<close>

lemma destroy3d_unfold:
  assumes "domElementParent (renderer (fst w)) = Some (container3d (fst w))"
  shows "destroy3d w =
     Inr ((fst (fold disposeLayer (layers3d (fst w))
                (fst (stop3d w), removeEventListeners3d (fst (stop3d w)) (snd (stop3d w)))))
            \<lparr>renderer := (renderer (fst w))\<lparr>rendererDisposed := True, domElementParent := None\<rparr>,
             layers3d := []\<rparr>,
          snd (fold disposeLayer (layers3d (fst w))
                (fst (stop3d w), removeEventListeners3d (fst (stop3d w)) (snd (stop3d w)))))"
proof -
  obtain p b where s: "stop3d w = (p, b)" by (cases "stop3d w")
  have k: "layers3d p = layers3d (fst w)" "renderer p = renderer (fst w)"
    "container3d p = container3d (fst w)"
    using stop3d_simps(1-3) [of w] by (simp_all add: s)
  obtain p1 b2 where f: "fold disposeLayer (layers3d (fst w)) (p, removeEventListeners3d p b) = (p1, b2)"
    by (cases "fold disposeLayer (layers3d (fst w)) (p, removeEventListeners3d p b)")
  have r: "renderer p1 = renderer (fst w)" "container3d p1 = container3d (fst w)"
    using fold_disposeLayer_instance(1,2) [of "layers3d (fst w)" "(p, removeEventListeners3d p b)"]
    by (simp_all add: f k)
  show ?thesis
    using assms by (simp add: destroy3d_def Let_def s k f r)
qed

text \<open>Where \<^verbatim>\<open>destroy\<close> writes the initial transform of a layer back, \<^verbatim>\<open>removeLayer\<close> writes
  nothing: on the example page, element 11 keeps the transform of the last tick when its
  layer, whose initial transform is empty, is removed.\<close>

lemma removeLayer_keeps_transform:
  "initialTransform (hd (layers exampleParallax)) = []
   \<and> style_transform (snd (removeLayer (ElementRef 11) (exampleParallax, examplePage))) 11 =
       ''translate3d(0px, -25px, 0)''
   \<and> style_transform (snd (destroy (exampleParallax, examplePage))) 11 = []"
proof -
  have "snd (removeLayer (ElementRef 11) (exampleParallax, examplePage)) = examplePage"
    by (simp add: removeLayer_def split: option.splits)
  then have "style_transform (snd (removeLayer (ElementRef 11) (exampleParallax, examplePage))) 11 =
       ''translate3d(0px, -25px, 0)''"
    by (simp add: examplePage_def)
  moreover have "layers exampleParallax =
      [\<lparr>element = 11, depth = 0.5, scrollSpeed = 0.5, mouseSpeed = 0.5, axis = ''both'',
         initialTransform = []\<rparr>,
       \<lparr>element = 12, depth = 1, scrollSpeed = 1, mouseSpeed = 1, axis = ''x'',
         initialTransform = []\<rparr>]"
    by (simp add: exampleParallax_def)
  then have "initialTransform (hd (layers exampleParallax)) = []"
    "style_transform (snd (destroy (exampleParallax, examplePage))) 11 = []"
    by (simp_all add: destroy_unfold)
  ultimately show ?thesis by simp
qed

text \<open>
  Claim C6, as amended. \<^verbatim>\<open>destroy\<close> leaves the controller inactive with its requested
  frame cancelled, removes the listeners of the instance from the page and empties the
  layers. In the 2D variant it writes to the element of each layer the initial transform
  that the layer has captured; an element with several layers ends with the transform
  of its last layer, so each layer finds its transform restored when all layers of its
  element hold the same one. In the 3D variant, when the canvas is a child of the
  container, it takes every layer's mesh out of the scene (whose children are distinct),
  disposes of its geometry and material and empties the inline visibility of the
  element; it disposes of the renderer and detaches the canvas. The position of a mesh
  stays as the last tick has set it.
\<close>

theorem destroy_restores:
  "\<not> isActive (fst (destroy (p, b)))
   \<and> layers (fst (destroy (p, b))) = []
   \<and> \<not> truthyId (animationFrameId (fst (destroy (p, b))))
   \<and> (truthyId (animationFrameId p) \<longrightarrow>
        the (animationFrameId p) \<notin> set (frameCallbacks (snd (destroy (p, b)))))
   \<and> set (listeners (snd (destroy (p, b)))) =
        set (listeners b) -
          {(Window, ''scroll'', HandleScroll),
           (Element (container p), ''mousemove'', HandleMouseMove),
           (Element (container p), ''mouseleave'', HandleMouseLeave),
           (Window, ''resize'', UpdateBounds)}
   \<and> (\<forall>l\<in>set (layers p).
        (\<forall>k\<in>set (layers p). element k = element l \<longrightarrow> initialTransform k = initialTransform l) \<longrightarrow>
        style_transform (snd (destroy (p, b))) (element l) = initialTransform l)
   \<and> (domElementParent (renderer q) = Some (container3d q) \<longrightarrow>
        (\<exists>q' b'. destroy3d (q, b) = Inr (q', b')
           \<and> \<not> isActive3d q' \<and> layers3d q' = [] \<and> \<not> truthyId (animationFrameId3d q')
           \<and> (truthyId (animationFrameId3d q) \<longrightarrow>
                the (animationFrameId3d q) \<notin> set (frameCallbacks b'))
           \<and> set (listeners b') =
                set (listeners b) -
                  {(Window, ''scroll'', HandleScroll),
                   (Element (container3d q), ''mousemove'', HandleMouseMove),
                   (Window, ''resize'', HandleResize)}
           \<and> rendererDisposed (renderer q') \<and> domElementParent (renderer q') = None
           \<and> (\<forall>l\<in>set (layers3d q).
                geometryDisposed (meshes q' (mesh l)) \<and> materialDisposed (meshes q' (mesh l))
                \<and> style_visibility b' (element3d l) = []
                \<and> position_x (meshes q' (mesh l)) = position_x (meshes q (mesh l))
                \<and> position_y (meshes q' (mesh l)) = position_y (meshes q (mesh l))
                \<and> position_z (meshes q' (mesh l)) = position_z (meshes q (mesh l))
                \<and> (distinct (scene q) \<longrightarrow> mesh l \<notin> set (scene q')))))"
proof -
  have three: "\<exists>q' b'. destroy3d (q, b) = Inr (q', b')
           \<and> \<not> isActive3d q' \<and> layers3d q' = [] \<and> \<not> truthyId (animationFrameId3d q')
           \<and> (truthyId (animationFrameId3d q) \<longrightarrow>
                the (animationFrameId3d q) \<notin> set (frameCallbacks b'))
           \<and> set (listeners b') =
                set (listeners b) -
                  {(Window, ''scroll'', HandleScroll),
                   (Element (container3d q), ''mousemove'', HandleMouseMove),
                   (Window, ''resize'', HandleResize)}
           \<and> rendererDisposed (renderer q') \<and> domElementParent (renderer q') = None
           \<and> (\<forall>l\<in>set (layers3d q).
                geometryDisposed (meshes q' (mesh l)) \<and> materialDisposed (meshes q' (mesh l))
                \<and> style_visibility b' (element3d l) = []
                \<and> position_x (meshes q' (mesh l)) = position_x (meshes q (mesh l))
                \<and> position_y (meshes q' (mesh l)) = position_y (meshes q (mesh l))
                \<and> position_z (meshes q' (mesh l)) = position_z (meshes q (mesh l))
                \<and> (distinct (scene q) \<longrightarrow> mesh l \<notin> set (scene q')))"
    if att: "domElementParent (renderer q) = Some (container3d q)"
  proof -
    let ?s = "stop3d (q, b)"
    let ?w = "(fst ?s, removeEventListeners3d (fst ?s) (snd ?s))"
    let ?f = "fold disposeLayer (layers3d q) ?w"
    let ?q = "(fst ?f)\<lparr>renderer := (renderer q)\<lparr>rendererDisposed := True, domElementParent := None\<rparr>,
                layers3d := []\<rparr>"
    have d: "destroy3d (q, b) = Inr (?q, snd ?f)"
      using destroy3d_unfold [of "(q, b)"] att by simp
    have 1: "\<not> isActive3d ?q" "layers3d ?q = []" "\<not> truthyId (animationFrameId3d ?q)"
      "rendererDisposed (renderer ?q)" "domElementParent (renderer ?q) = None"
      by (simp_all add: stop3d_fields)
    have 2: "the (animationFrameId3d q) \<notin> set (frameCallbacks (snd ?f))"
      if "truthyId (animationFrameId3d q)"
      using stop3d_cancels [of "(q, b)"] that by simp
    have 3: "set (listeners (snd ?f)) =
                set (listeners b) -
                  {(Window, ''scroll'', HandleScroll),
                   (Element (container3d q), ''mousemove'', HandleMouseMove),
                   (Window, ''resize'', HandleResize)}"
      by (simp add: removeEventListeners3d_set)
    have 4: "geometryDisposed (meshes ?q (mesh l))" "materialDisposed (meshes ?q (mesh l))"
      "style_visibility (snd ?f) (element3d l) = []"
      "position_x (meshes ?q (mesh l)) = position_x (meshes q (mesh l))"
      "position_y (meshes ?q (mesh l)) = position_y (meshes q (mesh l))"
      "position_z (meshes ?q (mesh l)) = position_z (meshes q (mesh l))"
      if "l \<in> set (layers3d q)" for l
      using that by (simp_all add: fold_disposeLayer_disposed fold_disposeLayer_visibility)
    have 5: "mesh l \<notin> set (scene ?q)" if "l \<in> set (layers3d q)" "distinct (scene q)" for l
      using fold_disposeLayer_scene [of ?w "layers3d q"] that by simp
    show ?thesis
      by (rule exI [of _ ?q], rule exI [of _ "snd ?f"], intro conjI ballI impI)
        (rule d 1 2 3 4 5; assumption)+
  qed
  show ?thesis
    by (intro conjI ballI impI) (rule destroy_2d three; assumption)+
qed

text \<open>The scenario of the specification: on the example page both variants hold two
  layers; after \<^verbatim>\<open>destroy\<close> the two elements have their initial (empty) transform, or
  an empty inline visibility, and no layer is left.\<close>

theorem destroy_restores_witness:
  "truthyId (animationFrameId exampleParallax)
   \<and> map element (layers exampleParallax) = [11, 12]
   \<and> map initialTransform (layers exampleParallax) = [[], []]
   \<and> map (style_transform examplePage) [11, 12] =
       [''translate3d(0px, -25px, 0)'', ''translate3d(0px, -50px, 0)'']
   \<and> map (style_transform (snd (destroy (exampleParallax, examplePage)))) [11, 12] = [[], []]
   \<and> layers (fst (destroy (exampleParallax, examplePage))) = []
   \<and> set (listeners (snd (destroy (exampleParallax, examplePage)))) = {}
   \<and> 1 \<notin> set (frameCallbacks (snd (destroy (exampleParallax, examplePage))))
   \<and> domElementParent (renderer exampleParallax3d) = Some (container3d exampleParallax3d)
   \<and> map element3d (layers3d exampleParallax3d) = [11, 12]
   \<and> layers3d (fst (projr (destroy3d (exampleParallax3d, examplePage3d)))) = []
   \<and> map (style_visibility (snd (projr (destroy3d (exampleParallax3d, examplePage3d))))) [11, 12] =
       [[], []]
   \<and> set (listeners (snd (projr (destroy3d (exampleParallax3d, examplePage3d))))) = {}"
proof -
  let ?l1 = "\<lparr>element = 11, depth = 0.5, scrollSpeed = 0.5, mouseSpeed = 0.5, axis = ''both'',
          initialTransform = []\<rparr>"
  let ?l2 = "\<lparr>element = 12, depth = 1, scrollSpeed = 1, mouseSpeed = 1, axis = ''x'',
          initialTransform = []\<rparr>"
  let ?k1 = "\<lparr>mesh = 0, element3d = 11, depth3d = 0.5, scrollSpeed3d = 0.5, mouseSpeed3d = 0.5,
          initialPosition = (0, 0, - 1)\<rparr>"
  let ?k2 = "\<lparr>mesh = 1, element3d = 12, depth3d = 0, scrollSpeed3d = 0, mouseSpeed3d = 0,
          initialPosition = (0, 0, 0)\<rparr>"
  have ls: "layers exampleParallax = [?l1, ?l2]" "container exampleParallax = 10"
    "animationFrameId exampleParallax = Some 1"
    by (simp_all add: exampleParallax_def)
  have ks: "layers3d exampleParallax3d = [?k1, ?k2]" "container3d exampleParallax3d = 10"
    "domElementParent (renderer exampleParallax3d) = Some 10"
    by (simp_all add: exampleParallax3d_def)
  have pg: "set (listeners examplePage) =
      {(Window, ''scroll'', HandleScroll), (Element 10, ''mousemove'', HandleMouseMove),
       (Element 10, ''mouseleave'', HandleMouseLeave), (Window, ''resize'', UpdateBounds)}"
    "style_transform examplePage 11 = ''translate3d(0px, -25px, 0)''"
    "style_transform examplePage 12 = ''translate3d(0px, -50px, 0)''"
    by (simp_all add: examplePage_def)
  have pg3: "set (listeners examplePage3d) =
      {(Window, ''scroll'', HandleScroll), (Element 10, ''mousemove'', HandleMouseMove),
       (Window, ''resize'', HandleResize)}"
    by (simp add: examplePage3d_def)
  have t: "truthyId (animationFrameId exampleParallax)"
    by (simp add: ls truthyId_def)
  have att: "domElementParent (renderer exampleParallax3d) = Some (container3d exampleParallax3d)"
    by (simp add: ks)
  note two = destroy_restores [of exampleParallax examplePage exampleParallax3d]
  note three = destroy_restores [of exampleParallax examplePage3d exampleParallax3d]
  from two have e: "layers (fst (destroy (exampleParallax, examplePage))) = []"
    by (elim conjE) assumption
  from two have "set (listeners (snd (destroy (exampleParallax, examplePage)))) =
        set (listeners examplePage) -
          {(Window, ''scroll'', HandleScroll),
           (Element (container exampleParallax), ''mousemove'', HandleMouseMove),
           (Element (container exampleParallax), ''mouseleave'', HandleMouseLeave),
           (Window, ''resize'', UpdateBounds)}"
    by (elim conjE) assumption
  then have li: "set (listeners (snd (destroy (exampleParallax, examplePage)))) = {}"
    by (simp add: pg ls)
  from two have "truthyId (animationFrameId exampleParallax) \<longrightarrow>
        the (animationFrameId exampleParallax) \<notin>
          set (frameCallbacks (snd (destroy (exampleParallax, examplePage))))"
    by (elim conjE) assumption
  with t have fr: "1 \<notin> set (frameCallbacks (snd (destroy (exampleParallax, examplePage))))"
    by (simp add: ls)
  from two have r: "\<forall>l\<in>set (layers exampleParallax).
        (\<forall>k\<in>set (layers exampleParallax).
            element k = element l \<longrightarrow> initialTransform k = initialTransform l) \<longrightarrow>
        style_transform (snd (destroy (exampleParallax, examplePage))) (element l) =
          initialTransform l"
    by (elim conjE) assumption
  have st: "style_transform (snd (destroy (exampleParallax, examplePage))) 11 = []"
    "style_transform (snd (destroy (exampleParallax, examplePage))) 12 = []"
    using r [THEN bspec, of ?l1] r [THEN bspec, of ?l2] by (simp_all add: ls)
  from three have "domElementParent (renderer exampleParallax3d) =
      Some (container3d exampleParallax3d) \<longrightarrow>
        (\<exists>q' b'. destroy3d (exampleParallax3d, examplePage3d) = Inr (q', b')
           \<and> \<not> isActive3d q' \<and> layers3d q' = [] \<and> \<not> truthyId (animationFrameId3d q')
           \<and> (truthyId (animationFrameId3d exampleParallax3d) \<longrightarrow>
                the (animationFrameId3d exampleParallax3d) \<notin> set (frameCallbacks b'))
           \<and> set (listeners b') =
                set (listeners examplePage3d) -
                  {(Window, ''scroll'', HandleScroll),
                   (Element (container3d exampleParallax3d), ''mousemove'', HandleMouseMove),
                   (Window, ''resize'', HandleResize)}
           \<and> rendererDisposed (renderer q') \<and> domElementParent (renderer q') = None
           \<and> (\<forall>l\<in>set (layers3d exampleParallax3d).
                geometryDisposed (meshes q' (mesh l)) \<and> materialDisposed (meshes q' (mesh l))
                \<and> style_visibility b' (element3d l) = []
                \<and> position_x (meshes q' (mesh l)) = position_x (meshes exampleParallax3d (mesh l))
                \<and> position_y (meshes q' (mesh l)) = position_y (meshes exampleParallax3d (mesh l))
                \<and> position_z (meshes q' (mesh l)) = position_z (meshes exampleParallax3d (mesh l))
                \<and> (distinct (scene exampleParallax3d) \<longrightarrow> mesh l \<notin> set (scene q'))))"
    by (elim conjE) assumption
  from this [THEN mp, OF att] obtain q' b' where
    d: "destroy3d (exampleParallax3d, examplePage3d) = Inr (q', b')"
    and l0: "layers3d q' = []"
    and l3: "set (listeners b') =
                set (listeners examplePage3d) -
                  {(Window, ''scroll'', HandleScroll),
                   (Element (container3d exampleParallax3d), ''mousemove'', HandleMouseMove),
                   (Window, ''resize'', HandleResize)}"
    and v: "\<forall>l\<in>set (layers3d exampleParallax3d). style_visibility b' (element3d l) = []"
    by (elim exE conjE) blast
  have v': "style_visibility b' 11 = []" "style_visibility b' 12 = []"
    using v [THEN bspec, of ?k1] v [THEN bspec, of ?k2] by (simp_all add: ks)
  have l3': "set (listeners b') = {}"
    using l3 by (simp add: pg3 ks)
  show ?thesis
    using t e li fr st att by (simp add: ls ks pg d l0 v' l3')
qed

text \<open>
  Claim C6 as stated fails. In the 3D variant the initial position of a layer is not
  restored: the first mesh of the example page, which the tick has moved to the height
  -0.25 from its initial height 0, is still there after \<^verbatim>\<open>destroy\<close>. In the 2D variant
  the captured transform of a layer is not restored when a later layer of the same
  element has captured another one: after \<^verbatim>\<open>addLayer\<close> for element 11, which already
  has a layer with the empty initial transform, \<^verbatim>\<open>destroy\<close> leaves the element with the
  transform that \<^verbatim>\<open>addLayer\<close> has captured.
\<close>

theorem destroy_restores_counterexample:
  "mesh (hd (layers3d exampleParallax3d)) = 0
   \<and> fst (snd (initialPosition (hd (layers3d exampleParallax3d)))) = 0
   \<and> position_y (meshes (fst (projr (destroy3d (exampleParallax3d, examplePage3d)))) 0) = - 0.25
   \<and> position_y (meshes (fst (projr (destroy3d (exampleParallax3d, examplePage3d)))) 0) \<noteq>
       fst (snd (initialPosition (hd (layers3d exampleParallax3d))))
   \<and> element (hd (layers exampleParallax)) = 11
   \<and> initialTransform (hd (layers exampleParallax)) = []
   \<and> style_transform
        (snd (destroy (snd (addLayer 11 None None None (exampleParallax, examplePage))))) 11 =
       ''matrix(1, 0, 0, 1, 0, -25)''
   \<and> style_transform
        (snd (destroy (snd (addLayer 11 None None None (exampleParallax, examplePage))))) 11 \<noteq>
       initialTransform (hd (layers exampleParallax))"
proof -
  have a: "domElementParent (renderer (fst (exampleParallax3d, examplePage3d))) =
      Some (container3d (fst (exampleParallax3d, examplePage3d)))"
    by (simp add: exampleParallax3d_def)
  have "position_y (meshes (fst (projr (destroy3d (exampleParallax3d, examplePage3d)))) 0) =
      position_y (meshes exampleParallax3d 0)"
    by (simp add: destroy3d_unfold [OF a])
  then have y: "position_y (meshes (fst (projr (destroy3d (exampleParallax3d, examplePage3d)))) 0) = - 0.25"
    by (simp add: exampleParallax3d_def)
  have i: "getInitialTransform examplePage 11 = ''matrix(1, 0, 0, 1, 0, -25)''"
    by (simp add: getInitialTransform_def examplePage_def exampleBrowser_def)
  let ?W = "snd (addLayer 11 None None None (exampleParallax, examplePage))"
  have lay: "map element (layers (fst ?W)) = [11, 12, 11]"
    "map initialTransform (layers (fst ?W)) = [[], [], ''matrix(1, 0, 0, 1, 0, -25)'']"
    by (simp_all add: addLayer_def Let_def i exampleParallax_def)
  have "style_transform (fold resetLayer ls b) 11 = ''matrix(1, 0, 0, 1, 0, -25)''"
    if "map element ls = [11, 12, 11]"
      "map initialTransform ls = [[], [], ''matrix(1, 0, 0, 1, 0, -25)'']" for ls b
  proof -
    from that(1) obtain l1 l2 l3 where ls: "ls = [l1, l2, l3]"
      by (auto simp add: map_eq_Cons_conv)
    with that show ?thesis by simp
  qed
  from this [OF lay] have m: "style_transform (snd (destroy ?W)) 11 = ''matrix(1, 0, 0, 1, 0, -25)''"
    by (simp add: destroy_unfold)
  have h: "mesh (hd (layers3d exampleParallax3d)) = 0"
    "fst (snd (initialPosition (hd (layers3d exampleParallax3d)))) = 0"
    by (simp_all add: exampleParallax3d_def)
  have g: "element (hd (layers exampleParallax)) = 11"
    "initialTransform (hd (layers exampleParallax)) = []"
    by (simp_all add: exampleParallax_def)
  show ?thesis
    by (simp add: y m h g)
qed

end
